theory Spec2Isabelle
  imports Main
begin

section \<open>Python values\<close>

text \<open>
  The bot reads every setting with \<open>os.getenv\<close>, whose result is \<open>Optional[str]\<close>, and tests
  it by truthiness: \<open>None\<close> and the empty string are both false. Identifiers of chats and
  users are Python integers, tested the same way in the job payloads (\<open>None\<close> and \<open>0\<close> are
  false). Names of the source that start with an underscore lose it here.
\<close>

definition truthy_str :: "string option \<Rightarrow> bool" where
  "truthy_str v = (case v of None \<Rightarrow> False | Some s \<Rightarrow> s \<noteq> [])"

definition truthy_int :: "int option \<Rightarrow> bool" where
  "truthy_int v = (case v of None \<Rightarrow> False | Some n \<Rightarrow> n \<noteq> 0)"

text \<open>\<open>v or ""\<close> for an optional string.\<close>

definition or_empty :: "string option \<Rightarrow> string" where
  "or_empty v = (case v of None \<Rightarrow> [] | Some s \<Rightarrow> if s = [] then [] else s)"

type_synonym environ = "string \<Rightarrow> string option"

definition getenv :: "environ \<Rightarrow> string \<Rightarrow> string option" where
  "getenv env name = env name"

section \<open>Settings\<close>

record Settings =
  token :: string
  group_id :: int

text \<open>
  The two \<open>RuntimeError\<close>s of \<open>_load_settings\<close>: the first carries the names it joins into
  its message, the second is raised from the \<open>ValueError\<close> of \<open>int(raw_group_id)\<close>.
\<close>

datatype startup_error = Missing_Variables "string list" | Group_Id_Not_Numeric

text \<open>
  \<open>py_int\<close> stands for Python's builtin \<open>int\<close> on a string: \<open>None\<close> where it raises
  \<open>ValueError\<close>. It is a parameter of the model; the theorems hold for every such parser.
\<close>

definition load_settings :: "(string \<Rightarrow> int option) \<Rightarrow> environ \<Rightarrow> startup_error + Settings" where
  "load_settings py_int env =
     (let tok = or_empty (getenv env ''TELEGRAM_BOT_TOKEN'');
          raw_group_id = or_empty (getenv env ''ID_DO_GRUPO'');
          missing = (if tok = [] then [''TELEGRAM_BOT_TOKEN''] else []) @
                    (if raw_group_id = [] then [''ID_DO_GRUPO''] else [])
      in if missing \<noteq> [] then Inl (Missing_Variables missing)
         else (case py_int raw_group_id of
                 None \<Rightarrow> Inl Group_Id_Not_Numeric
               | Some gid \<Rightarrow> Inr \<lparr>token = tok, group_id = gid\<rparr>))"

text \<open>
  The content assets, in the order the module reads them after \<open>SETTINGS\<close>: each is
  \<open>_getenv(NAME)\<close>, which never raises.
\<close>

definition asset_names :: "string list" where
  "asset_names =
     [''BEATRIZ_COMBO_FOTO_1'', ''BEATRIZ_COMBO_FOTO_2'', ''BEATRIZ_COMBO_FOTO_3'',
      ''BEATRIZ_COMBO_FOTO_4'', ''BEATRIZ_COMBO_FOTO_5'', ''BEATRIZ_COMBO_FOTO_6'',
      ''BEATRIZ_COMBO_FOTO_7'', ''BEATRIZ_COMBO_FOTO_8'', ''BEATRIZ_COMBO_FOTO_9'',
      ''BEATRIZ_COMBO_FOTO_10'',
      ''BEATRIZ_COMBO_VIDEO_1'', ''BEATRIZ_COMBO_VIDEO_2'', ''BEATRIZ_COMBO_VIDEO_3'',
      ''BEATRIZ_COMBO_VIDEO_4'',
      ''AUDIO_ENTREGA_COMBO'', ''AUDIO_POS_ENTREGA_COMBO'', ''AUDIO_OFERTANDO_UPSELL'',
      ''VIDEO_PREVIA_VIP'', ''AUDIO_REMARKETING_UPSELL'', ''AUDIO_REMARKETING_UPSELL_2'']"

text \<open>
  Module initialisation: \<open>SETTINGS = _load_settings()\<close> first, whose exception aborts the
  import, then the asset constants.
\<close>

definition module_init ::
  "(string \<Rightarrow> int option) \<Rightarrow> environ \<Rightarrow> startup_error + Settings \<times> string option list" where
  "module_init py_int env =
     (case load_settings py_int env of
        Inl e \<Rightarrow> Inl e
      | Inr s \<Rightarrow> Inr (s, map (getenv env) asset_names))"

text \<open>
  A parser for the examples: an optional sign and ASCII digits, on which it agrees with
  Python's \<open>int\<close>.
\<close>

definition digit_val :: "char \<Rightarrow> nat option" where
  "digit_val c =
     (let n = of_char c :: nat in if 48 \<le> n \<and> n \<le> 57 then Some (n - 48) else None)"

fun digits_val :: "nat \<Rightarrow> string \<Rightarrow> nat option" where
  "digits_val acc [] = Some acc"
| "digits_val acc (c # cs) =
     (case digit_val c of None \<Rightarrow> None | Some d \<Rightarrow> digits_val (10 * acc + d) cs)"

definition decimal :: "string \<Rightarrow> int option" where
  "decimal s =
     (case s of
        [] \<Rightarrow> None
      | c # cs \<Rightarrow>
          if c = CHR ''-'' then (if cs = [] then None else map_option (\<lambda>n. - int n) (digits_val 0 cs))
          else if c = CHR ''+'' then (if cs = [] then None else map_option int (digits_val 0 cs))
          else map_option int (digits_val 0 s))"

section \<open>The messaging gateway\<close>

text \<open>
  What a call of the Telegram client raises: \<open>telegram.error.Forbidden\<close>,
  \<open>telegram.error.BadRequest\<close>, \<open>TypeError\<close>, or any other \<open>Exception\<close> (a network
  error, a timeout, an attribute error), each with the text \<open>str(exc)\<close> gives.
\<close>

datatype exn = Forbidden string | BadRequest string | TypeError string | OtherError string

fun exn_text :: "exn \<Rightarrow> string" where
  "exn_text (Forbidden s) = s"
| "exn_text (BadRequest s) = s"
| "exn_text (TypeError s) = s"
| "exn_text (OtherError s) = s"

text \<open>The clause \<open>except (Forbidden, BadRequest)\<close>.\<close>

fun is_Forbidden_or_BadRequest :: "exn \<Rightarrow> bool" where
  "is_Forbidden_or_BadRequest (Forbidden _) = True"
| "is_Forbidden_or_BadRequest (BadRequest _) = True"
| "is_Forbidden_or_BadRequest _ = False"

text \<open>
  The texts the bot sends. The ones written in ASCII are string literals; the others
  (they hold accented letters and emoji) are named after the variable or the step that
  sends them. Button labels likewise.
\<close>

datatype message_text = Literal string | closing_text | upsell_text | choose_vip_text | desc_text

datatype button_label = vip_1_month | vip_6_months | vip_1_year | i_want_this

datatype button = InlineKeyboardButton button_label string

type_synonym markup = "button list list"

text \<open>A voice or audio argument: a \<open>str\<close> (a file identifier or a URL) or raw bytes.\<close>

datatype content = Str string | Bytes "nat list"

datatype media = InputMediaPhoto string | InputMediaVideo string

text \<open>
  The calls, with the keyword arguments in the order the helpers pass them:
  \<open>chat_id\<close>, the content, \<open>caption\<close>, \<open>parse_mode\<close>, \<open>reply_markup\<close> (text only),
  \<open>business_connection_id\<close>. \<open>reply_text\<close> is the message's own method and names the
  message by its chat and its identifier; \<open>approve\<close> is the join request's method.
\<close>

datatype gcall =
    send_message int message_text "string option" "markup option" "string option"
  | reply_text "int option" "int option" message_text "string option" "markup option" "string option"
  | send_photo int string "string option" "string option" "string option"
  | send_video int string "string option" "string option" "string option"
  | send_audio int content "string option" "string option" "string option"
  | send_voice int content "string option" "string option" "string option"
  | send_media_group int "media list" "string option"
  | get_file string
  | get_chat_member int int
  | approve int "int option"

text \<open>
  What a call returns: a \<open>Message\<close> (by its identifier), the messages of an album, a
  \<open>File\<close> with its \<open>file_path\<close>, a \<open>ChatMember\<close> with its \<open>status\<close> and the truth value
  of its \<open>is_member\<close> attribute (false where the class has none), or \<open>True\<close>.
\<close>

datatype gresult =
    Message int
  | Messages "int list"
  | File "string option"
  | ChatMember string bool
  | Ok

text \<open>\<open>getattr(tg_file, "file_path", None)\<close>\<close>

fun file_path_attr :: "gresult \<Rightarrow> string option" where
  "file_path_attr (File p) = p"
| "file_path_attr _ = None"

text \<open>\<open>getattr(member, "status", None)\<close>\<close>

fun status_attr :: "gresult \<Rightarrow> string option" where
  "status_attr (ChatMember s _) = Some s"
| "status_attr _ = None"

text \<open>\<open>bool(getattr(member, "is_member", False))\<close>\<close>

fun is_member_attr :: "gresult \<Rightarrow> bool" where
  "is_member_attr (ChatMember _ b) = b"
| "is_member_attr _ = False"

text \<open>
  What the process does to the outside, in order: gateway calls, each with what the
  gateway answered (a result, or the exception it raised), printed lines and timed waits.
\<close>

datatype log_line =
    user_blocked "int option"
  | join_approved int
  | join_failed exn

datatype event = Call gcall "exn + gresult" | Print log_line | Sleep nat

text \<open>
  The gateway is the environment: it answers a call, given everything that happened
  before it, by a result or by an exception.
\<close>

type_synonym gateway = "event list \<Rightarrow> gcall \<Rightarrow> exn + gresult"

section \<open>Jobs, chats and the state of the process\<close>

text \<open>
  A job's \<open>data\<close> dictionary: a key that is missing reads as \<open>None\<close> through
  \<open>data.get\<close>; \<open>attempt\<close> is stored as an integer.
\<close>

record payload =
  p_chat_id :: "int option"
  p_user_id :: "int option"
  p_business_connection_id :: "string option"
  p_attempt :: "int option"

definition empty_payload :: payload where
  "empty_payload =
     \<lparr>p_chat_id = None, p_user_id = None, p_business_connection_id = None, p_attempt = None\<rparr>"

datatype callback = combo_delivery_beatriz_job_cb | upsell_sequence_job_cb | group_check_job_cb

text \<open>Delays in seconds: \<open>when\<close> of \<open>run_once\<close>, \<open>interval\<close> and \<open>first\<close> of \<open>run_repeating\<close>.\<close>

datatype schedule = Once nat | Repeating nat nat

text \<open>
  The names \<open>auto_reply:beatriz:{chat.id}:{message_id}\<close> (\<open>x\<close> for a missing identifier),
  \<open>upsell:beatriz:{chat_id}\<close> and \<open>group_check:{chat_id}\<close>.
\<close>

datatype job_name = auto_reply_name int "int option" | upsell_name int | group_check_name int

text \<open>A \<open>Job\<close>: \<open>j_data\<close> is \<open>None\<close> when \<open>job.data\<close> is not a dictionary.\<close>

record job =
  j_callback :: callback
  j_schedule :: schedule
  j_name :: job_name
  j_data :: "payload option"
  j_removed :: bool

record chat_store =
  combo_dispatched :: bool
  stored_business_connection_id :: "string option"

text \<open>
  The state: the events so far, the job queue with the jobs scheduled so far (\<open>None\<close>
  when \<open>context.job_queue\<close> is \<open>None\<close>), \<open>context.chat_data\<close> of every chat, the global
  set, and \<open>context.job\<close>, the job being run.
\<close>

record world =
  trace :: "event list"
  job_queue :: "job list option"
  chat_data :: "int \<Rightarrow> chat_store"
  COMBO_DISPATCHED_CHATS :: "int set"
  ctx_job :: "job option"

text \<open>
  A coroutine is a function of the state that returns normally (\<open>Inr\<close>) or raises
  (\<open>Inl\<close>), with the state it leaves.
\<close>

type_synonym 'a io = "world \<Rightarrow> (exn + 'a) \<times> world"

definition io_return :: "'a \<Rightarrow> 'a io" where
  "io_return x = (\<lambda>w. (Inr x, w))"

definition io_raise :: "exn \<Rightarrow> 'a io" where
  "io_raise e = (\<lambda>w. (Inl e, w))"

definition io_bind :: "'a io \<Rightarrow> ('a \<Rightarrow> 'b io) \<Rightarrow> 'b io" where
  "io_bind m f = (\<lambda>w. case m w of (Inl e, w') \<Rightarrow> (Inl e, w') | (Inr x, w') \<Rightarrow> f x w')"

definition io_seq :: "'a io \<Rightarrow> 'b io \<Rightarrow> 'b io" where
  "io_seq m n = io_bind m (\<lambda>_. n)"

text \<open>\<open>try: m except Exception as exc: h exc\<close>; a handler re-raises what it does not catch.\<close>

definition io_try :: "'a io \<Rightarrow> (exn \<Rightarrow> 'a io) \<Rightarrow> 'a io" where
  "io_try m h = (\<lambda>w. case m w of (Inl e, w') \<Rightarrow> h e w' | (Inr x, w') \<Rightarrow> (Inr x, w'))"

definition emit :: "event \<Rightarrow> unit io" where
  "emit e = (\<lambda>w. (Inr (), w\<lparr>trace := trace w @ [e]\<rparr>))"

definition gateway_call :: "gateway \<Rightarrow> gcall \<Rightarrow> gresult io" where
  "gateway_call gw c =
     (\<lambda>w. (gw (trace w) c, w\<lparr>trace := trace w @ [Call c (gw (trace w) c)]\<rparr>))"

section \<open>Send helpers\<close>

text \<open>
  The parameter \<open>bot\<close> of the helpers is the gateway \<open>gw\<close> here.
\<close>

text \<open>
  \<open>str.lower\<close> on the letters A to Z (the texts of the Telegram errors are ASCII), and
  the substring test \<open>x in text\<close>.
\<close>

definition lower_char :: "char \<Rightarrow> char" where
  "lower_char c =
     (let n = of_char c :: nat in if 65 \<le> n \<and> n \<le> 90 then char_of (n + 32) else c)"

fun contains :: "string \<Rightarrow> string \<Rightarrow> bool" where
  "contains [] sub = (sub = [])"
| "contains (c # cs) sub = (take (length sub) (c # cs) = sub \<or> contains cs sub)"

text \<open>
  \<open>any(x in text for x in ("blocked", "deactivated", "chat not found"))\<close> for
  \<open>text = str(exc).lower()\<close>.
\<close>

definition mentions_blocking :: "exn \<Rightarrow> bool" where
  "mentions_blocking exc =
     (let text = map lower_char (exn_text exc)
      in list_ex (contains text) [''blocked'', ''deactivated'', ''chat not found''])"

definition handle_blocking_exception :: "int option \<Rightarrow> exn \<Rightarrow> unit io" where
  "handle_blocking_exception user_id exc =
     (if mentions_blocking exc then emit (Print (user_blocked user_id)) else io_return ())"

text \<open>The handler every helper shares: log and return \<open>None\<close>, or let the exception go.\<close>

definition swallow :: "int option \<Rightarrow> exn \<Rightarrow> gresult option io" where
  "swallow user_id exc =
     (if is_Forbidden_or_BadRequest exc
      then io_seq (handle_blocking_exception user_id exc) (io_return None)
      else io_raise exc)"

definition returning :: "gresult io \<Rightarrow> gresult option io" where
  "returning m = io_bind m (\<lambda>r. io_return (Some r))"

definition safe_send_message ::
  "gateway \<Rightarrow> int \<Rightarrow> int option \<Rightarrow> message_text \<Rightarrow> string option \<Rightarrow> markup option \<Rightarrow> string option \<Rightarrow>
   gresult option io" where
  "safe_send_message gw chat_id user_id txt parse_mode reply_markup business_connection_id =
     io_try
       (returning (gateway_call gw
          (send_message chat_id txt parse_mode reply_markup business_connection_id)))
       (swallow user_id)"

definition safe_send_photo ::
  "gateway \<Rightarrow> int \<Rightarrow> int option \<Rightarrow> string \<Rightarrow> string option \<Rightarrow> string option \<Rightarrow> string option \<Rightarrow>
   gresult option io" where
  "safe_send_photo gw chat_id user_id photo caption parse_mode business_connection_id =
     io_try
       (returning (gateway_call gw
          (send_photo chat_id photo caption parse_mode business_connection_id)))
       (swallow user_id)"

definition safe_send_video ::
  "gateway \<Rightarrow> int \<Rightarrow> int option \<Rightarrow> string \<Rightarrow> string option \<Rightarrow> string option \<Rightarrow> string option \<Rightarrow>
   gresult option io" where
  "safe_send_video gw chat_id user_id video caption parse_mode business_connection_id =
     io_try
       (returning (gateway_call gw
          (send_video chat_id video caption parse_mode business_connection_id)))
       (swallow user_id)"

definition safe_send_audio ::
  "gateway \<Rightarrow> int \<Rightarrow> int option \<Rightarrow> content \<Rightarrow> string option \<Rightarrow> string option \<Rightarrow> string option \<Rightarrow>
   gresult option io" where
  "safe_send_audio gw chat_id user_id audio caption parse_mode business_connection_id =
     io_try
       (returning (gateway_call gw
          (send_audio chat_id audio caption parse_mode business_connection_id)))
       (swallow user_id)"

definition safe_send_media_group ::
  "gateway \<Rightarrow> int \<Rightarrow> int option \<Rightarrow> media list \<Rightarrow> string option \<Rightarrow> gresult option io" where
  "safe_send_media_group gw chat_id user_id media business_connection_id =
     io_try
       (returning (gateway_call gw (send_media_group chat_id media business_connection_id)))
       (swallow user_id)"

text \<open>
  \<open>f"https://api.telegram.org/file/bot{SETTINGS.token}/{str(file_path).lstrip('/')}"\<close>
\<close>

definition file_url :: "Settings \<Rightarrow> string \<Rightarrow> string" where
  "file_url SETTINGS file_path =
     ''https://api.telegram.org/file/bot'' @ token SETTINGS @ ''/'' @
     dropWhile (\<lambda>c. c = CHR ''/'') file_path"

text \<open>
  The middle of \<open>_safe_send_voice_prefer\<close>, run when the first \<open>send_voice\<close> raised
  \<open>Forbidden\<close> or \<open>BadRequest\<close>: \<open>Some r\<close> is the \<open>return\<close> of the retry, \<open>None\<close> falls
  through to \<open>send_audio\<close>. The inner \<open>except (Forbidden, BadRequest): pass\<close> and the outer
  \<open>except Exception: pass\<close> together catch everything.
\<close>

definition voice_retry ::
  "Settings \<Rightarrow> gateway \<Rightarrow> int \<Rightarrow> content \<Rightarrow> string option \<Rightarrow> string option \<Rightarrow> string option \<Rightarrow>
   gresult option io" where
  "voice_retry SETTINGS gw chat_id voice caption parse_mode business_connection_id =
     io_try
       (case voice of
          Bytes _ \<Rightarrow> io_return None
        | Str handle \<Rightarrow>
            io_bind (gateway_call gw (get_file handle)) (\<lambda>tg_file.
              let file_path = file_path_attr tg_file
              in if truthy_str file_path
                 then io_try
                        (returning (gateway_call gw
                           (send_voice chat_id (Str (file_url SETTINGS (the file_path)))
                              caption parse_mode business_connection_id)))
                        (\<lambda>exc. if is_Forbidden_or_BadRequest exc then io_return None
                               else io_raise exc)
                 else io_return None))
       (\<lambda>exc. io_return None)"

definition safe_send_voice_prefer ::
  "Settings \<Rightarrow> gateway \<Rightarrow> int \<Rightarrow> int option \<Rightarrow> content \<Rightarrow> string option \<Rightarrow> string option \<Rightarrow>
   string option \<Rightarrow> gresult option io" where
  "safe_send_voice_prefer SETTINGS gw chat_id user_id voice caption parse_mode
       business_connection_id =
     io_try
       (returning (gateway_call gw
          (send_voice chat_id voice caption parse_mode business_connection_id)))
       (\<lambda>exc. if is_Forbidden_or_BadRequest exc
              then io_bind
                     (voice_retry SETTINGS gw chat_id voice caption parse_mode
                        business_connection_id)
                     (\<lambda>sent. case sent of
                        Some r \<Rightarrow> io_return (Some r)
                      | None \<Rightarrow>
                          io_try
                            (returning (gateway_call gw
                               (send_audio chat_id voice caption parse_mode
                                  business_connection_id)))
                            (swallow user_id))
              else io_raise exc)"

section \<open>Constants\<close>

definition VIP_LINK_1_MES :: string where
  "VIP_LINK_1_MES = ''https://global.tribopay.com.br/jvvo3''"

definition VIP_LINK_6_MESES :: string where
  "VIP_LINK_6_MESES = ''https://global.tribopay.com.br/kgwjs''"

definition VIP_LINK_1_ANO :: string where
  "VIP_LINK_1_ANO = ''https://global.tribopay.com.br/1fhtd''"

definition EU_QUERO_LINK :: string where
  "EU_QUERO_LINK = ''https://global.tribopay.com.br/zjvj6''"

definition AUTO_REPLY_DELAY_SECONDS :: nat where
  "AUTO_REPLY_DELAY_SECONDS = 30"

definition VIP_OFFER_DELAY_SECONDS :: nat where
  "VIP_OFFER_DELAY_SECONDS = 180"

definition GROUP_CHECK_INTERVAL_SECONDS :: nat where
  "GROUP_CHECK_INTERVAL_SECONDS = 60"

definition GROUP_CHECK_MAX_ATTEMPTS :: int where
  "GROUP_CHECK_MAX_ATTEMPTS = 5"

definition GROUP_APPROVED_MESSAGE :: message_text where
  "GROUP_APPROVED_MESSAGE = Literal ''Te aceitei no grupo, espero que goste''"

section \<open>The job queue\<close>

text \<open>
  \<open>job = getattr(context, "job", None); data = job.data if job else {}\<close>, and \<open>None\<close>
  where the callbacks return at \<open>if not isinstance(data, dict)\<close>.
\<close>

definition job_data :: "world \<Rightarrow> payload option" where
  "job_data w = (case ctx_job w of None \<Rightarrow> Some empty_payload | Some j \<Rightarrow> j_data j)"

text \<open>\<open>if jobq: ...\<close> after \<open>jobq = getattr(context, "job_queue", None)\<close>.\<close>

definition if_job_queue :: "unit io \<Rightarrow> unit io" where
  "if_job_queue m = (\<lambda>w. if job_queue w = None then (Inr (), w) else m w)"

definition add_job :: "job \<Rightarrow> unit io" where
  "add_job j = (\<lambda>w. (Inr (), w\<lparr>job_queue := map_option (\<lambda>js. js @ [j]) (job_queue w)\<rparr>))"

definition run_once :: "callback \<Rightarrow> nat \<Rightarrow> payload \<Rightarrow> job_name \<Rightarrow> unit io" where
  "run_once cb delay data name =
     add_job \<lparr>j_callback = cb, j_schedule = Once delay, j_name = name, j_data = Some data,
              j_removed = False\<rparr>"

definition run_repeating :: "callback \<Rightarrow> nat \<Rightarrow> nat \<Rightarrow> job_name \<Rightarrow> payload \<Rightarrow> unit io" where
  "run_repeating cb interval first name data =
     add_job \<lparr>j_callback = cb, j_schedule = Repeating interval first, j_name = name,
              j_data = Some data, j_removed = False\<rparr>"

text \<open>\<open>if job: job.schedule_removal()\<close>\<close>

definition schedule_removal :: "unit io" where
  "schedule_removal =
     (\<lambda>w. (Inr (), w\<lparr>ctx_job := map_option (\<lambda>j. j\<lparr>j_removed := True\<rparr>) (ctx_job w)\<rparr>))"

text \<open>
  The queue fires a repeating job once per interval until the job has asked for its
  removal; an exception that a callback raises is reported by the queue and the job stays
  scheduled. \<open>fire cb n\<close> is the state after \<open>n\<close> intervals.
\<close>

fun fire :: "unit io \<Rightarrow> nat \<Rightarrow> world \<Rightarrow> world" where
  "fire cb 0 w = w"
| "fire cb (Suc n) w =
     (case ctx_job w of
        None \<Rightarrow> w
      | Some j \<Rightarrow> if j_removed j then w else fire cb n (snd (cb w)))"

text \<open>An awaited call whose value the caller drops.\<close>

definition discard :: "'a io \<Rightarrow> unit io" where
  "discard m = io_bind m (\<lambda>_. io_return ())"

section \<open>The funnel\<close>

definition photos_ids :: "environ \<Rightarrow> string option list" where
  "photos_ids env =
     [getenv env ''BEATRIZ_COMBO_FOTO_1'', getenv env ''BEATRIZ_COMBO_FOTO_2'',
      getenv env ''BEATRIZ_COMBO_FOTO_3'', getenv env ''BEATRIZ_COMBO_FOTO_4'',
      getenv env ''BEATRIZ_COMBO_FOTO_5'', getenv env ''BEATRIZ_COMBO_FOTO_6'',
      getenv env ''BEATRIZ_COMBO_FOTO_7'', getenv env ''BEATRIZ_COMBO_FOTO_8'',
      getenv env ''BEATRIZ_COMBO_FOTO_9'', getenv env ''BEATRIZ_COMBO_FOTO_10'']"

definition videos_ids :: "environ \<Rightarrow> string option list" where
  "videos_ids env =
     [getenv env ''BEATRIZ_COMBO_VIDEO_1'', getenv env ''BEATRIZ_COMBO_VIDEO_2'',
      getenv env ''BEATRIZ_COMBO_VIDEO_3'', getenv env ''BEATRIZ_COMBO_VIDEO_4'']"

text \<open>\<open>[pid for pid in photos_ids if pid]\<close>\<close>

definition configured :: "string option list \<Rightarrow> string list" where
  "configured ids = map the (filter truthy_str ids)"

text \<open>\<open>if ASSET: await _safe_send_voice_prefer(..., voice=ASSET, ...)\<close>\<close>

definition voice_if_configured ::
  "Settings \<Rightarrow> gateway \<Rightarrow> int \<Rightarrow> int option \<Rightarrow> string option \<Rightarrow> string option \<Rightarrow> unit io" where
  "voice_if_configured SETTINGS gw chat_id user_id asset bcid =
     (if truthy_str asset
      then discard (safe_send_voice_prefer SETTINGS gw chat_id user_id (Str (the asset))
                      None None bcid)
      else io_return ())"

definition combo_delivery_beatriz_job :: "Settings \<Rightarrow> environ \<Rightarrow> gateway \<Rightarrow> unit io" where
  "combo_delivery_beatriz_job SETTINGS env gw = (\<lambda>w.
     case job_data w of
       None \<Rightarrow> (Inr (), w)
     | Some data \<Rightarrow>
         let user_id = p_user_id data; bcid = p_business_connection_id data
         in if \<not> truthy_int (p_chat_id data) then (Inr (), w)
            else
              (let chat_id = the (p_chat_id data);
                   photos = configured (photos_ids env);
                   videos = configured (videos_ids env)
               in io_seq
                    (safe_send_message gw chat_id user_id
                       (Literal ''Hi, sorry for the delay. I'll send everything'') None None bcid)
                 (io_seq
                    (voice_if_configured SETTINGS gw chat_id user_id
                       (getenv env ''AUDIO_ENTREGA_COMBO'') bcid)
                 (io_seq
                    (if 2 \<le> length photos
                     then discard (safe_send_media_group gw chat_id user_id
                                     (map InputMediaPhoto photos) bcid)
                     else if length photos = 1
                     then discard (safe_send_photo gw chat_id user_id (photos ! 0) None None bcid)
                     else io_return ())
                 (io_seq
                    (if 2 \<le> length videos
                     then discard (safe_send_media_group gw chat_id user_id
                                     (map InputMediaVideo videos) bcid)
                     else if length videos = 1
                     then discard (safe_send_video gw chat_id user_id (videos ! 0) None None bcid)
                     else io_return ())
                 (io_seq
                    (if truthy_str (getenv env ''AUDIO_POS_ENTREGA_COMBO'')
                     then discard (safe_send_voice_prefer SETTINGS gw chat_id user_id
                                     (Str (the (getenv env ''AUDIO_POS_ENTREGA_COMBO'')))
                                     None None bcid)
                     else discard (safe_send_message gw chat_id user_id closing_text
                                     None None bcid))
                    (if_job_queue
                       (run_once upsell_sequence_job_cb VIP_OFFER_DELAY_SECONDS
                          \<lparr>p_chat_id = Some chat_id, p_user_id = user_id,
                           p_business_connection_id = bcid, p_attempt = None\<rparr>
                          (upsell_name chat_id))))))) w))"

definition vip_keyboard :: markup where
  "vip_keyboard =
     [[InlineKeyboardButton vip_1_month VIP_LINK_1_MES],
      [InlineKeyboardButton vip_6_months VIP_LINK_6_MESES],
      [InlineKeyboardButton vip_1_year VIP_LINK_1_ANO]]"

definition upsell_sequence_job :: "Settings \<Rightarrow> environ \<Rightarrow> gateway \<Rightarrow> unit io" where
  "upsell_sequence_job SETTINGS env gw = (\<lambda>w.
     case job_data w of
       None \<Rightarrow> (Inr (), w)
     | Some data \<Rightarrow>
         let user_id = p_user_id data; bcid = p_business_connection_id data
         in if \<not> truthy_int (p_chat_id data) then (Inr (), w)
            else
              (let chat_id = the (p_chat_id data)
               in io_seq
                    (voice_if_configured SETTINGS gw chat_id user_id
                       (getenv env ''AUDIO_OFERTANDO_UPSELL'') bcid)
                 (io_seq
                    (if truthy_str (getenv env ''VIDEO_PREVIA_VIP'')
                     then discard (safe_send_video gw chat_id user_id
                                     (the (getenv env ''VIDEO_PREVIA_VIP'')) None None bcid)
                     else io_return ())
                 (io_seq
                    (safe_send_message gw chat_id user_id upsell_text None None bcid)
                 (io_seq
                    (safe_send_message gw chat_id user_id choose_vip_text None
                       (Some vip_keyboard) bcid)
                    (if_job_queue
                       (if truthy_int user_id
                        then run_repeating group_check_job_cb GROUP_CHECK_INTERVAL_SECONDS
                               GROUP_CHECK_INTERVAL_SECONDS (group_check_name chat_id)
                               \<lparr>p_chat_id = Some chat_id, p_user_id = user_id,
                                p_business_connection_id = bcid, p_attempt = Some 0\<rparr>
                        else io_return ()))))) w))"

definition send_remarketing ::
  "Settings \<Rightarrow> environ \<Rightarrow> gateway \<Rightarrow> int \<Rightarrow> int option \<Rightarrow> string option \<Rightarrow> unit io" where
  "send_remarketing SETTINGS env gw chat_id user_id business_connection_id =
     io_seq
       (voice_if_configured SETTINGS gw chat_id user_id
          (getenv env ''AUDIO_REMARKETING_UPSELL'') business_connection_id)
    (io_seq
       (safe_send_message gw chat_id user_id desc_text None
          (Some [[InlineKeyboardButton i_want_this EU_QUERO_LINK]]) business_connection_id)
       (if truthy_str (getenv env ''AUDIO_REMARKETING_UPSELL_2'')
        then io_seq (emit (Sleep 45))
               (voice_if_configured SETTINGS gw chat_id user_id
                  (getenv env ''AUDIO_REMARKETING_UPSELL_2'') business_connection_id)
        else io_return ()))"

section \<open>The membership polling job\<close>

text \<open>
  The \<open>try\<close> around \<open>get_chat_member\<close>: \<open>None\<close> is the \<open>return\<close> of \<open>except Forbidden\<close>,
  \<open>Some b\<close> the value of \<open>is_member\<close> after it.
\<close>

definition check_membership :: "Settings \<Rightarrow> gateway \<Rightarrow> int \<Rightarrow> bool option io" where
  "check_membership SETTINGS gw user_id =
     io_try
       (io_bind (gateway_call gw (get_chat_member (group_id SETTINGS) user_id)) (\<lambda>member.
          let status = status_attr member
          in io_return
               (Some (status \<in> {Some ''member'', Some ''administrator'', Some ''creator''} \<or>
                      is_member_attr member))))
       (\<lambda>exc. case exc of
                Forbidden _ \<Rightarrow> io_return None
              | BadRequest _ \<Rightarrow> io_return (Some False)
              | _ \<Rightarrow> io_return (Some False))"

definition group_check_job :: "Settings \<Rightarrow> environ \<Rightarrow> gateway \<Rightarrow> unit io" where
  "group_check_job SETTINGS env gw = (\<lambda>w.
     case job_data w of
       None \<Rightarrow> (Inr (), w)
     | Some data \<Rightarrow>
         let user_id = p_user_id data; bcid = p_business_connection_id data;
             attempt = (case p_attempt data of None \<Rightarrow> 0 | Some a \<Rightarrow> a) + 1;
             w1 = w\<lparr>ctx_job :=
                      map_option (\<lambda>j. j\<lparr>j_data := Some (data\<lparr>p_attempt := Some attempt\<rparr>)\<rparr>)
                        (ctx_job w)\<rparr>
         in if \<not> truthy_int (p_chat_id data) \<or> \<not> truthy_int user_id then schedule_removal w1
            else
              (let chat_id = the (p_chat_id data)
               in io_bind (check_membership SETTINGS gw (the user_id)) (\<lambda>checked.
                    case checked of
                      None \<Rightarrow> io_return ()
                    | Some is_member \<Rightarrow>
                        if is_member
                        then io_seq
                               (safe_send_message gw chat_id user_id GROUP_APPROVED_MESSAGE
                                  None None bcid)
                               schedule_removal
                        else if attempt \<ge> GROUP_CHECK_MAX_ATTEMPTS
                        then io_seq schedule_removal
                               (send_remarketing SETTINGS env gw chat_id user_id bcid)
                        else io_return ()) w1))"

section \<open>Handlers of inbound updates\<close>

record user =
  u_id :: int
  is_bot :: bool

text \<open>\<open>c_id\<close> is \<open>getattr(chat, "id", None)\<close>.\<close>

record chat =
  c_type :: string
  c_id :: "int option"

text \<open>
  A message: \<open>m_chat_id\<close> is \<open>getattr(message, "chat_id", None)\<close>, and \<open>m_has_bot\<close> tells
  whether \<open>message.get_bot()\<close> or the attributes \<open>bot\<close> and \<open>_bot\<close> give a bot.
\<close>

record message =
  m_from_user :: "user option"
  m_business_connection_id :: "string option"
  m_message_id :: "int option"
  m_chat :: "chat option"
  m_chat_id :: "int option"
  m_has_bot :: bool

record chat_join_request =
  jr_chat :: "chat option"
  jr_from_user :: "user option"

record update =
  effective_message :: "message option"
  effective_chat :: "chat option"
  effective_user :: "user option"
  join_request :: "chat_join_request option"

text \<open>
  The fallback of \<open>_safe_reply_text\<close> under \<open>except TypeError\<close>: a direct \<open>send_message\<close>
  to the resolved chat, every exception of which ends in \<open>return None\<close>.
\<close>

definition reply_fallback ::
  "gateway \<Rightarrow> message \<Rightarrow> message_text \<Rightarrow> string option \<Rightarrow> markup option \<Rightarrow> gresult option io" where
  "reply_fallback gw msg txt parse_mode reply_markup =
     io_try
       (let chat_id = (if truthy_int (m_chat_id msg) then m_chat_id msg
                       else (case m_chat msg of None \<Rightarrow> None | Some c \<Rightarrow> c_id c));
            bcid = m_business_connection_id msg
        in if m_has_bot msg \<and> chat_id \<noteq> None
           then returning (gateway_call gw
                  (send_message (the chat_id) txt parse_mode reply_markup bcid))
           else io_return None)
       (\<lambda>exc. io_return None)"

definition safe_reply_text ::
  "gateway \<Rightarrow> message \<Rightarrow> message_text \<Rightarrow> string option \<Rightarrow> markup option \<Rightarrow> gresult option io" where
  "safe_reply_text gw msg txt parse_mode reply_markup =
     io_try
       (returning (gateway_call gw
          (reply_text (m_chat_id msg) (m_message_id msg) txt parse_mode reply_markup
             (m_business_connection_id msg))))
       (\<lambda>exc. case exc of
                TypeError _ \<Rightarrow> reply_fallback gw msg txt parse_mode reply_markup
              | _ \<Rightarrow> swallow (map_option u_id (m_from_user msg)) exc)"

text \<open>
  The guard of \<open>handle_text_message\<close>: the message and the chat exist, the sender is not a
  bot, the chat is private and has an identifier.
\<close>

definition admissible :: "update \<Rightarrow> bool" where
  "admissible u =
     (case effective_message u of
        None \<Rightarrow> False
      | Some msg \<Rightarrow>
          (case effective_chat u of
             None \<Rightarrow> False
           | Some c \<Rightarrow>
               \<not> (case m_from_user msg of None \<Rightarrow> False | Some fu \<Rightarrow> is_bot fu) \<and>
               c_type c = ''private'' \<and> c_id c \<noteq> None))"

definition already_dispatched :: "world \<Rightarrow> int \<Rightarrow> bool" where
  "already_dispatched w chat_id =
     (combo_dispatched (chat_data w chat_id) \<or> chat_id \<in> COMBO_DISPATCHED_CHATS w)"

definition handle_text_message :: "gateway \<Rightarrow> update \<Rightarrow> unit io" where
  "handle_text_message gw u = (\<lambda>w.
     case effective_message u of
       None \<Rightarrow> (Inr (), w)
     | Some msg \<Rightarrow>
        (case effective_chat u of
           None \<Rightarrow> (Inr (), w)
         | Some c \<Rightarrow>
            if (case m_from_user msg of None \<Rightarrow> False | Some fu \<Rightarrow> is_bot fu) then (Inr (), w)
            else if \<not> (c_type c = ''private'') \<or> c_id c = None then (Inr (), w)
            else
              (let chat_id = the (c_id c)
               in if already_dispatched w chat_id then (Inr (), w)
                  else
                    (let bcid = m_business_connection_id msg;
                         w1 = w\<lparr>chat_data := (chat_data w)
                                   (chat_id := (chat_data w chat_id)\<lparr>combo_dispatched := True\<rparr>),
                                 COMBO_DISPATCHED_CHATS := insert chat_id (COMBO_DISPATCHED_CHATS w)\<rparr>;
                         w2 = (if truthy_str bcid
                               then w1\<lparr>chat_data := (chat_data w1)
                                         (chat_id := (chat_data w1 chat_id)
                                            \<lparr>stored_business_connection_id := bcid\<rparr>)\<rparr>
                               else w1)
                     in if job_queue w2 = None
                        then io_seq (emit (Sleep AUTO_REPLY_DELAY_SECONDS))
                               (discard (safe_reply_text gw msg
                                  (Literal ''Hi, sorry for the delay. I'll send everything.'')
                                  None None)) w2
                        else run_once combo_delivery_beatriz_job_cb AUTO_REPLY_DELAY_SECONDS
                               \<lparr>p_chat_id = c_id c,
                                p_user_id = map_option u_id (effective_user u),
                                p_business_connection_id = bcid, p_attempt = None\<rparr>
                               (auto_reply_name chat_id (m_message_id msg)) w2))))"

definition handle_chat_join_request :: "Settings \<Rightarrow> gateway \<Rightarrow> update \<Rightarrow> unit io" where
  "handle_chat_join_request SETTINGS gw u =
     (case join_request u of
        None \<Rightarrow> io_return ()
      | Some jr \<Rightarrow>
          let chat_id = (case jr_chat jr of None \<Rightarrow> None | Some c \<Rightarrow> c_id c)
          in if chat_id \<noteq> Some (group_id SETTINGS) then io_return ()
             else io_try
                    (io_seq
                       (gateway_call gw (approve (the chat_id) (map_option u_id (jr_from_user jr))))
                       (case jr_from_user jr of
                          None \<Rightarrow> io_raise (OtherError ''AttributeError'')
                        | Some fu \<Rightarrow> emit (Print (join_approved (u_id fu)))))
                    (\<lambda>exc. emit (Print (join_failed exc))))"

text \<open>The updates of a run, handled one after the other; what a handler raises is dropped.\<close>

fun handle_all :: "gateway \<Rightarrow> update list \<Rightarrow> world \<Rightarrow> world" where
  "handle_all gw [] w = w"
| "handle_all gw (u # us) w = handle_all gw us (snd (handle_text_message gw u w))"

text \<open>The state in which the process starts: nothing sent, nothing scheduled, no chat seen.\<close>

definition initial_world :: "bool \<Rightarrow> world" where
  "initial_world with_job_queue =
     \<lparr>trace = [], job_queue = (if with_job_queue then Some [] else None),
      chat_data = (\<lambda>_. \<lparr>combo_dispatched = False, stored_business_connection_id = None\<rparr>),
      COMBO_DISPATCHED_CHATS = {}, ctx_job = None\<rparr>"

section \<open>Observations\<close>

text \<open>The events a run added to the trace, and the gateway calls among events.\<close>

definition new_events :: "world \<Rightarrow> world \<Rightarrow> event list" where
  "new_events w w' = drop (length (trace w)) (trace w')"

fun calls_of :: "event list \<Rightarrow> (gcall \<times> (exn + gresult)) list" where
  "calls_of [] = []"
| "calls_of (Call c r # es) = (c, r) # calls_of es"
| "calls_of (_ # es) = calls_of es"

text \<open>
  A coroutine that touches nothing but the trace, and adds to it only events of one kind.
\<close>

definition only_emits :: "(event \<Rightarrow> bool) \<Rightarrow> 'a io \<Rightarrow> bool" where
  "only_emits P m \<longleftrightarrow>
     (\<forall>w. \<exists>es. snd (m w) = w\<lparr>trace := trace w @ es\<rparr> \<and> list_all P es)"

text \<open>A coroutine that never raises.\<close>

definition returns :: "'a io \<Rightarrow> bool" where
  "returns m \<longleftrightarrow> (\<forall>w. \<exists>x. fst (m w) = Inr x)"

text \<open>A gateway all of whose failures are delivery failures.\<close>

definition classifiable_only :: "gateway \<Rightarrow> bool" where
  "classifiable_only gw \<longleftrightarrow>
     (\<forall>h c. case gw h c of Inl e \<Rightarrow> is_Forbidden_or_BadRequest e | Inr _ \<Rightarrow> True)"

text \<open>The kinds of events the claims about the stages speak of.\<close>

fun is_photo :: "media \<Rightarrow> bool" where
  "is_photo (InputMediaPhoto _) = True"
| "is_photo (InputMediaVideo _) = False"

fun photo_album :: "event \<Rightarrow> bool" where
  "photo_album (Call (send_media_group _ ms _) _) = list_ex is_photo ms"
| "photo_album _ = False"

fun single_photo :: "event \<Rightarrow> bool" where
  "single_photo (Call (send_photo _ _ _ _ _) _) = True"
| "single_photo _ = False"

fun video_album :: "event \<Rightarrow> bool" where
  "video_album (Call (send_media_group _ ms _) _) = list_ex (\<lambda>m. \<not> is_photo m) ms"
| "video_album _ = False"

fun single_video :: "event \<Rightarrow> bool" where
  "single_video (Call (send_video _ _ _ _ _) _) = True"
| "single_video _ = False"

definition media_event :: "event \<Rightarrow> bool" where
  "media_event e \<longleftrightarrow> photo_album e \<or> single_photo e \<or> video_album e \<or> single_video e"

fun text_event :: "event \<Rightarrow> bool" where
  "text_event (Call (send_message _ _ _ _ _) _) = True"
| "text_event (Call (reply_text _ _ _ _ _ _) _) = True"
| "text_event _ = False"

text \<open>The events of the voice chain are neither texts nor photos nor videos.\<close>

fun voice_event :: "event \<Rightarrow> bool" where
  "voice_event (Call (send_voice _ _ _ _ _) _) = True"
| "voice_event (Call (send_audio _ _ _ _ _) _) = True"
| "voice_event (Call (get_file _) _) = True"
| "voice_event (Print (user_blocked _)) = True"
| "voice_event _ = False"

text \<open>
  The sends of \<open>_upsell_sequence_job\<close>, from the voice clip to the keyboard: the job is
  these followed by the scheduling of the polling.
\<close>

definition upsell_sends ::
  "Settings \<Rightarrow> environ \<Rightarrow> gateway \<Rightarrow> int \<Rightarrow> int option \<Rightarrow> string option \<Rightarrow> unit io" where
  "upsell_sends SETTINGS env gw chat_id user_id bcid =
     io_seq
       (voice_if_configured SETTINGS gw chat_id user_id (getenv env ''AUDIO_OFERTANDO_UPSELL'') bcid)
    (io_seq
       (if truthy_str (getenv env ''VIDEO_PREVIA_VIP'')
        then discard (safe_send_video gw chat_id user_id
                        (the (getenv env ''VIDEO_PREVIA_VIP'')) None None bcid)
        else io_return ())
    (io_seq
       (safe_send_message gw chat_id user_id upsell_text None None bcid)
       (discard (safe_send_message gw chat_id user_id choose_vip_text None
          (Some vip_keyboard) bcid))))"

text \<open>
  For the inbound handler: the chat an update belongs to, the state right after the guard
  of \<open>handle_text_message\<close> has admitted it (both flags set, the business connection
  stored), the combo job the handler schedules for it, and the jobs in the queue.
\<close>

definition chat_of :: "update \<Rightarrow> int option" where
  "chat_of u = (case effective_chat u of None \<Rightarrow> None | Some c \<Rightarrow> c_id c)"

definition bcid_of :: "update \<Rightarrow> string option" where
  "bcid_of u = (case effective_message u of None \<Rightarrow> None | Some msg \<Rightarrow> m_business_connection_id msg)"

definition admitted :: "world \<Rightarrow> int \<Rightarrow> string option \<Rightarrow> world" where
  "admitted w chat_id bcid =
     (let w1 = w\<lparr>chat_data := (chat_data w)
                   (chat_id := (chat_data w chat_id)\<lparr>combo_dispatched := True\<rparr>),
                 COMBO_DISPATCHED_CHATS := insert chat_id (COMBO_DISPATCHED_CHATS w)\<rparr>
      in if truthy_str bcid
         then w1\<lparr>chat_data := (chat_data w1)
                   (chat_id := (chat_data w1 chat_id)
                      \<lparr>stored_business_connection_id := bcid\<rparr>)\<rparr>
         else w1)"

definition combo_job_of :: "update \<Rightarrow> job" where
  "combo_job_of u =
     \<lparr>j_callback = combo_delivery_beatriz_job_cb, j_schedule = Once AUTO_REPLY_DELAY_SECONDS,
      j_name = auto_reply_name (the (chat_of u))
                 (case effective_message u of None \<Rightarrow> None | Some msg \<Rightarrow> m_message_id msg),
      j_data = Some \<lparr>p_chat_id = chat_of u, p_user_id = map_option u_id (effective_user u),
                     p_business_connection_id = bcid_of u, p_attempt = None\<rparr>,
      j_removed = False\<rparr>"

definition scheduled :: "world \<Rightarrow> job list" where
  "scheduled w = (case job_queue w of None \<Rightarrow> [] | Some js \<Rightarrow> js)"

definition combo_jobs :: "int \<Rightarrow> world \<Rightarrow> job list" where
  "combo_jobs chat_id w =
     filter (\<lambda>j. j_callback j = combo_delivery_beatriz_job_cb \<and>
                 (case j_data j of None \<Rightarrow> False | Some d \<Rightarrow> p_chat_id d = Some chat_id))
       (scheduled w)"


text \<open>
  For the polling job: the membership queries among the calls, an answer that is the
  \<open>Forbidden\<close> the job returns on, and an answer that the job takes for a confirmed
  membership. The checks of a run are counted apart: those the gateway refused with
  \<open>Forbidden\<close>, and the conclusive ones.
\<close>

fun membership_check :: "gcall \<Rightarrow> bool" where
  "membership_check (get_chat_member _ _) = True"
| "membership_check _ = False"

fun refused :: "exn + gresult \<Rightarrow> bool" where
  "refused (Inl (Forbidden _)) = True"
| "refused _ = False"

fun confirms :: "exn + gresult \<Rightarrow> bool" where
  "confirms (Inr member) =
     (status_attr member \<in> {Some ''member'', Some ''administrator'', Some ''creator''} \<or>
      is_member_attr member)"
| "confirms (Inl _) = False"

definition refused_checks :: "event list \<Rightarrow> nat" where
  "refused_checks es =
     length (filter (\<lambda>(c, r). membership_check c \<and> refused r) (calls_of es))"

definition conclusive_checks :: "event list \<Rightarrow> nat" where
  "conclusive_checks es =
     length (filter (\<lambda>(c, r). membership_check c \<and> \<not> refused r) (calls_of es))"
section \<open>Example inputs\<close>

definition example_env :: environ where
  "example_env =
     (\<lambda>_. None)(''TELEGRAM_BOT_TOKEN'' \<mapsto> ''123:abc'', ''ID_DO_GRUPO'' \<mapsto> ''-1001234567890'')"

definition example_settings :: Settings where
  "example_settings = \<lparr>token = ''123:abc'', group_id = - 1001234567890\<rparr>"

text \<open>A gateway that refuses every call because the user blocked the bot.\<close>

definition blocked :: exn where
  "blocked = Forbidden ''Forbidden: bot was blocked by the user''"

definition gw_blocked :: gateway where
  "gw_blocked h c = Inl blocked"

text \<open>
  A gateway for an identity that cannot send voice notes: \<open>send_voice\<close> is refused,
  files resolve, everything else is delivered.
\<close>

definition gw_no_voice :: gateway where
  "gw_no_voice h c =
     (case c of
        send_voice _ _ _ _ _ \<Rightarrow> Inl (BadRequest ''Voice_messages_forbidden'')
      | get_file _ \<Rightarrow> Inr (File (Some ''/voice/file_1.oga''))
      | _ \<Rightarrow> Inr (Message 1))"

text \<open>A gateway that delivers everything, and a membership query that finds no member.\<close>

definition gw_ok :: gateway where
  "gw_ok h c =
     (case c of
        get_file _ \<Rightarrow> Inr (File (Some ''voice/file_1.oga''))
      | get_chat_member _ _ \<Rightarrow> Inr (ChatMember ''left'' False)
      | approve _ _ \<Rightarrow> Inr Ok
      | _ \<Rightarrow> Inr (Message 1))"

text \<open>An environment with two photos and one video, and the job of chat 5 and user 7.\<close>

definition media_env :: environ where
  "media_env =
     (\<lambda>_. None)(''BEATRIZ_COMBO_FOTO_1'' \<mapsto> ''photo-1'', ''BEATRIZ_COMBO_FOTO_4'' \<mapsto> ''photo-4'',
        ''BEATRIZ_COMBO_FOTO_5'' \<mapsto> [], ''BEATRIZ_COMBO_VIDEO_2'' \<mapsto> ''video-2'')"

definition example_payload :: payload where
  "example_payload =
     \<lparr>p_chat_id = Some 5, p_user_id = Some 7, p_business_connection_id = None,
      p_attempt = None\<rparr>"

definition world_running :: "callback \<Rightarrow> schedule \<Rightarrow> job_name \<Rightarrow> payload \<Rightarrow> world" where
  "world_running cb sch name data =
     (initial_world True)\<lparr>ctx_job :=
        Some \<lparr>j_callback = cb, j_schedule = sch, j_name = name, j_data = Some data,
              j_removed = False\<rparr>\<rparr>"

text \<open>A gateway whose membership query finds an administrator.\<close>

definition gw_admin :: gateway where
  "gw_admin h c =
     (case c of
        get_chat_member _ _ \<Rightarrow> Inr (ChatMember ''administrator'' False)
      | _ \<Rightarrow> Inr (Message 1))"

text \<open>The polling job of chat 5 and user 7 before its first invocation.\<close>

definition polling_world :: world where
  "polling_world =
     world_running group_check_job_cb (Repeating 60 60) (group_check_name 5)
       (example_payload\<lparr>p_attempt := Some 0\<rparr>)"

text \<open>A first message of user 7 in the private chat 5.\<close>

definition example_update :: update where
  "example_update =
     \<lparr>effective_message =
        Some \<lparr>m_from_user = Some \<lparr>u_id = 7, is_bot = False\<rparr>,
              m_business_connection_id = None, m_message_id = Some 1,
              m_chat = Some \<lparr>c_type = ''private'', c_id = Some 5\<rparr>,
              m_chat_id = Some 5, m_has_bot = True\<rparr>,
      effective_chat = Some \<lparr>c_type = ''private'', c_id = Some 5\<rparr>,
      effective_user = Some \<lparr>u_id = 7, is_bot = False\<rparr>,
      join_request = None\<rparr>"


text \<open>Join requests of user 7: one for the target group, one for another group.\<close>

definition join_update :: "int \<Rightarrow> update" where
  "join_update gid =
     \<lparr>effective_message = None,
      effective_chat = Some \<lparr>c_type = ''supergroup'', c_id = Some gid\<rparr>,
      effective_user = Some \<lparr>u_id = 7, is_bot = False\<rparr>,
      join_request =
        Some \<lparr>jr_chat = Some \<lparr>c_type = ''supergroup'', c_id = Some gid\<rparr>,
              jr_from_user = Some \<lparr>u_id = 7, is_bot = False\<rparr>\<rparr>\<rparr>"

text \<open>
  A gateway for an identity that sends a voice note only from a URL: \<open>send_voice\<close> of
  anything else is refused, files resolve, everything else is delivered.
\<close>

definition gw_voice_by_url :: gateway where
  "gw_voice_by_url h c =
     (case c of
        send_voice _ (Str s) _ _ _ \<Rightarrow>
          if take 8 s = ''https://'' then Inr (Message 2)
          else Inl (BadRequest ''Voice_messages_forbidden'')
      | send_voice _ (Bytes _) _ _ _ \<Rightarrow> Inl (BadRequest ''Voice_messages_forbidden'')
      | get_file _ \<Rightarrow> Inr (File (Some ''voice/file_1.oga''))
      | _ \<Rightarrow> Inr (Message 1))"
section \<open>Running coroutines\<close>

lemma io_return_run [simp]: "io_return x w = (Inr x, w)"
  by (simp add: io_return_def)

lemma io_raise_run [simp]: "io_raise e w = (Inl e, w)"
  by (simp add: io_raise_def)

lemma emit_run [simp]: "emit e w = (Inr (), w\<lparr>trace := trace w @ [e]\<rparr>)"
  by (simp add: emit_def)

lemma gateway_call_run [simp]:
  "gateway_call gw c w = (gw (trace w) c, w\<lparr>trace := trace w @ [Call c (gw (trace w) c)]\<rparr>)"
  by (simp add: gateway_call_def)

lemma io_bind_Inr: "m w = (Inr x, w1) \<Longrightarrow> io_bind m f w = f x w1"
  by (simp add: io_bind_def)

lemma io_bind_Inl: "m w = (Inl e, w1) \<Longrightarrow> io_bind m f w = (Inl e, w1)"
  by (simp add: io_bind_def)

lemma io_try_Inr: "m w = (Inr x, w1) \<Longrightarrow> io_try m h w = (Inr x, w1)"
  by (simp add: io_try_def)

lemma io_try_Inl: "m w = (Inl e, w1) \<Longrightarrow> io_try m h w = h e w1"
  by (simp add: io_try_def)

lemma returning_call_run:
  "returning (gateway_call gw c) w =
     (map_sum id Some (gw (trace w) c), w\<lparr>trace := trace w @ [Call c (gw (trace w) c)]\<rparr>)"
  by (cases "gw (trace w) c") (simp_all add: returning_def io_bind_def)

lemma handle_blocking_exception_run:
  "handle_blocking_exception user_id exc w =
     (Inr (), w\<lparr>trace := trace w @ (if mentions_blocking exc then [Print (user_blocked user_id)] else [])\<rparr>)"
  by (simp add: handle_blocking_exception_def)

lemma swallow_run:
  "swallow user_id exc w =
     (if is_Forbidden_or_BadRequest exc
      then (Inr None, w\<lparr>trace := trace w @
              (if mentions_blocking exc then [Print (user_blocked user_id)] else [])\<rparr>)
      else (Inl exc, w))"
  by (simp add: swallow_def io_seq_def io_bind_def handle_blocking_exception_run)

text \<open>A guarded call: what every helper built from one gateway call does.\<close>

lemma guarded_call_run:
  "io_try (returning (gateway_call gw c)) (swallow user_id) w =
     (case gw (trace w) c of
        Inr r \<Rightarrow> (Inr (Some r), w\<lparr>trace := trace w @ [Call c (Inr r)]\<rparr>)
      | Inl e \<Rightarrow>
          if is_Forbidden_or_BadRequest e
          then (Inr None, w\<lparr>trace := trace w @ Call c (Inl e) #
                  (if mentions_blocking e then [Print (user_blocked user_id)] else [])\<rparr>)
          else (Inl e, w\<lparr>trace := trace w @ [Call c (Inl e)]\<rparr>))"
  by (cases "gw (trace w) c")
     (simp_all add: io_try_def returning_call_run swallow_run)


lemma new_events_append [simp]: "new_events w (w\<lparr>trace := trace w @ es\<rparr>) = es"
  by (simp add: new_events_def)

lemma new_events_same [simp]: "new_events w w = []"
  by (simp add: new_events_def)

lemma voice_retry_run:
  "voice_retry SETTINGS gw chat_id voice caption parse_mode bcid w =
     (case voice of
        Bytes _ \<Rightarrow> (Inr None, w)
      | Str h \<Rightarrow>
          (case gw (trace w) (get_file h) of
             Inl e \<Rightarrow> (Inr None, w\<lparr>trace := trace w @ [Call (get_file h) (Inl e)]\<rparr>)
           | Inr f \<Rightarrow>
               if truthy_str (file_path_attr f)
               then (case gw (trace w @ [Call (get_file h) (Inr f)])
                            (send_voice chat_id (Str (file_url SETTINGS (the (file_path_attr f))))
                               caption parse_mode bcid) of
                       Inl e \<Rightarrow>
                         (Inr None,
                          w\<lparr>trace := trace w @ [Call (get_file h) (Inr f),
                             Call (send_voice chat_id (Str (file_url SETTINGS (the (file_path_attr f))))
                                     caption parse_mode bcid) (Inl e)]\<rparr>)
                     | Inr r \<Rightarrow>
                         (Inr (Some r),
                          w\<lparr>trace := trace w @ [Call (get_file h) (Inr f),
                             Call (send_voice chat_id (Str (file_url SETTINGS (the (file_path_attr f))))
                                     caption parse_mode bcid) (Inr r)]\<rparr>))
               else (Inr None, w\<lparr>trace := trace w @ [Call (get_file h) (Inr f)]\<rparr>)))"
  by (simp add: voice_retry_def io_try_def io_bind_def returning_def Let_def
           split: content.splits sum.splits)


lemma safe_send_voice_prefer_run:
  "safe_send_voice_prefer SETTINGS gw chat_id user_id voice caption parse_mode bcid w =
     (let V = send_voice chat_id voice caption parse_mode bcid;
          w1 = w\<lparr>trace := trace w @ [Call V (gw (trace w) V)]\<rparr>
      in case gw (trace w) V of
           Inr r \<Rightarrow> (Inr (Some r), w1)
         | Inl e \<Rightarrow>
             if is_Forbidden_or_BadRequest e
             then (case voice_retry SETTINGS gw chat_id voice caption parse_mode bcid w1 of
                     (Inr (Some r), w2) \<Rightarrow> (Inr (Some r), w2)
                   | (Inr None, w2) \<Rightarrow>
                       io_try (returning (gateway_call gw
                                 (send_audio chat_id voice caption parse_mode bcid)))
                         (swallow user_id) w2
                   | (Inl e2, w2) \<Rightarrow> (Inl e2, w2))
             else (Inl e, w1))"
  by (simp add: safe_send_voice_prefer_def io_try_def io_bind_def returning_def Let_def
           split: sum.splits option.splits prod.splits)

section \<open>Coroutines that never raise\<close>

lemma returns_return [simp]: "returns (io_return x)"
  by (simp add: returns_def)

lemma returns_emit [simp]: "returns (emit e)"
  by (simp add: returns_def)

lemma returns_bind: "returns m \<Longrightarrow> (\<And>x. returns (f x)) \<Longrightarrow> returns (io_bind m f)"
  unfolding returns_def io_bind_def
proof
  fix w :: world
  assume m: "\<forall>w. \<exists>x. fst (m w) = Inr x" and f: "\<And>x. \<forall>w. \<exists>y. fst (f x w) = Inr y"
  from m obtain x where "fst (m w) = Inr x" by blast
  then obtain w1 where mw: "m w = (Inr x, w1)" by (cases "m w") auto
  from f [of x] obtain y where "fst (f x w1) = Inr y" by blast
  with mw show "\<exists>y. fst (case m w of (Inl e, w') \<Rightarrow> (Inl e, w') | (Inr x, w') \<Rightarrow> f x w') = Inr y"
    by simp
qed

lemma returns_seq: "returns m \<Longrightarrow> returns n \<Longrightarrow> returns (io_seq m n)"
  by (simp add: io_seq_def returns_bind)

lemma returns_discard: "returns m \<Longrightarrow> returns (discard m)"
  by (simp add: discard_def returns_bind)

lemma returns_try: "(\<And>e. returns (h e)) \<Longrightarrow> returns (io_try m h)"
  unfolding returns_def io_try_def
proof
  fix w :: world
  assume h: "\<And>e. \<forall>w. \<exists>x. fst (h e w) = Inr x"
  show "\<exists>x. fst (case m w of (Inl e, w') \<Rightarrow> h e w' | (Inr x, w') \<Rightarrow> (Inr x, w')) = Inr x"
  proof (cases "m w")
    case (Pair r w1)
    then show ?thesis using h by (cases r) auto
  qed
qed

lemma returns_if: "returns m \<Longrightarrow> returns n \<Longrightarrow> returns (if b then m else n)"
  by simp

lemma returns_guarded_call:
  "classifiable_only gw \<Longrightarrow> returns (io_try (returning (gateway_call gw c)) (swallow user_id))"
proof -
  assume c: "classifiable_only gw"
  show ?thesis unfolding returns_def
  proof
    fix w :: world
    from c have "case gw (trace w) c of Inl e \<Rightarrow> is_Forbidden_or_BadRequest e | Inr _ \<Rightarrow> True"
      by (simp add: classifiable_only_def)
    then show "\<exists>x. fst (io_try (returning (gateway_call gw c)) (swallow user_id) w) = Inr x"
      by (cases "gw (trace w) c") (simp_all add: guarded_call_run)
  qed
qed

lemma returns_safe_send:
  assumes "classifiable_only gw"
  shows "returns (safe_send_message gw chat_id user_id txt parse_mode reply_markup bcid)"
    and "returns (safe_send_photo gw chat_id user_id photo caption parse_mode bcid)"
    and "returns (safe_send_video gw chat_id user_id video caption parse_mode bcid)"
    and "returns (safe_send_audio gw chat_id user_id audio caption parse_mode bcid)"
    and "returns (safe_send_media_group gw chat_id user_id media bcid)"
  using assms
  by (simp_all add: safe_send_message_def safe_send_photo_def safe_send_video_def
        safe_send_audio_def safe_send_media_group_def returns_guarded_call)

lemma returns_voice_retry:
  "returns (voice_retry SETTINGS gw chat_id voice caption parse_mode bcid)"
  by (simp add: voice_retry_def returns_try)

lemma returns_safe_send_voice_prefer:
  assumes "classifiable_only gw"
  shows "returns (safe_send_voice_prefer SETTINGS gw chat_id user_id voice caption parse_mode bcid)"
  unfolding returns_def
proof
  fix w :: world
  let ?V = "send_voice chat_id voice caption parse_mode bcid"
  from assms have 1: "case gw (trace w) ?V of Inl e \<Rightarrow> is_Forbidden_or_BadRequest e | Inr _ \<Rightarrow> True"
    by (simp add: classifiable_only_def)
  have 2: "\<exists>x. fst (io_try (returning (gateway_call gw c)) (swallow user_id) w2) = Inr x"
    for c and w2 :: world
    using returns_guarded_call [OF assms] by (simp add: returns_def)
  have 3: "\<exists>x. fst (voice_retry SETTINGS gw chat_id voice caption parse_mode bcid w1) = Inr x"
    for w1 :: world
    using returns_voice_retry by (simp add: returns_def)
  show "\<exists>x. fst (safe_send_voice_prefer SETTINGS gw chat_id user_id voice caption parse_mode bcid w)
          = Inr x"
  proof (cases "gw (trace w) ?V")
    case (Inr r)
    then show ?thesis by (simp add: safe_send_voice_prefer_run)
  next
    case (Inl e)
    with 1 have fb: "is_Forbidden_or_BadRequest e" by simp
    let ?w1 = "w\<lparr>trace := trace w @ [Call ?V (Inl e)]\<rparr>"
    from 3 [of ?w1] obtain x w2
      where r: "voice_retry SETTINGS gw chat_id voice caption parse_mode bcid ?w1 = (Inr x, w2)"
      by (metis prod.collapse)
    show ?thesis using Inl fb r 2
      by (cases x) (simp_all add: safe_send_voice_prefer_run)
  qed
qed

lemma returns_voice_if_configured:
  "classifiable_only gw \<Longrightarrow> returns (voice_if_configured SETTINGS gw chat_id user_id asset bcid)"
  by (simp add: voice_if_configured_def returns_discard returns_safe_send_voice_prefer)

lemma returns_add_job [simp]: "returns (add_job j)"
  by (simp add: returns_def add_job_def)

lemma returns_if_job_queue: "returns m \<Longrightarrow> returns (if_job_queue m)"
  by (simp add: returns_def if_job_queue_def)

lemma returns_schedule_removal [simp]: "returns schedule_removal"
  by (simp add: returns_def schedule_removal_def)

lemma returns_at: "returns m \<Longrightarrow> \<exists>x. fst (m w) = Inr x"
  by (simp add: returns_def)

lemma returns_send_remarketing:
  "classifiable_only gw \<Longrightarrow> returns (send_remarketing SETTINGS env gw chat_id user_id bcid)"
  by (simp add: send_remarketing_def returns_seq returns_voice_if_configured returns_safe_send)

lemma returns_combo:
  assumes "classifiable_only gw"
  shows "returns (combo_delivery_beatriz_job SETTINGS env gw)"
  unfolding returns_def
proof
  fix w :: world
  show "\<exists>x. fst (combo_delivery_beatriz_job SETTINGS env gw w) = Inr x"
  proof (cases "job_data w")
    case None
    then show ?thesis by (simp add: combo_delivery_beatriz_job_def)
  next
    case (Some data)
    show ?thesis
    proof (cases "truthy_int (p_chat_id data)")
      case False
      with Some show ?thesis by (simp add: combo_delivery_beatriz_job_def Let_def)
    next
      case True
      with Some show ?thesis
        unfolding combo_delivery_beatriz_job_def Let_def run_once_def
        apply (simp only: option.case simp_thms if_False)
        apply (rule returns_at)
        apply (intro returns_seq returns_discard returns_if returns_if_job_queue returns_add_job
            returns_return returns_voice_if_configured [OF assms] returns_safe_send [OF assms]
            returns_safe_send_voice_prefer [OF assms])
        done
    qed
  qed
qed

lemma returns_upsell:
  assumes "classifiable_only gw"
  shows "returns (upsell_sequence_job SETTINGS env gw)"
  unfolding returns_def
proof
  fix w :: world
  show "\<exists>x. fst (upsell_sequence_job SETTINGS env gw w) = Inr x"
  proof (cases "job_data w")
    case None
    then show ?thesis by (simp add: upsell_sequence_job_def)
  next
    case (Some data)
    show ?thesis
    proof (cases "truthy_int (p_chat_id data)")
      case False
      with Some show ?thesis by (simp add: upsell_sequence_job_def Let_def)
    next
      case True
      with Some show ?thesis
        unfolding upsell_sequence_job_def Let_def run_repeating_def
        apply (simp only: option.case simp_thms if_False)
        apply (rule returns_at)
        apply (intro returns_seq returns_discard returns_if returns_if_job_queue returns_add_job
            returns_return returns_voice_if_configured [OF assms] returns_safe_send [OF assms])
        done
    qed
  qed
qed

lemma returns_check_membership: "returns (check_membership SETTINGS gw user_id)"
  unfolding check_membership_def
  by (rule returns_try) (simp split: exn.splits)

lemma returns_group_check:
  assumes "classifiable_only gw"
  shows "returns (group_check_job SETTINGS env gw)"
  unfolding returns_def
proof
  fix w :: world
  show "\<exists>x. fst (group_check_job SETTINGS env gw w) = Inr x"
  proof (cases "job_data w")
    case None
    then show ?thesis by (simp add: group_check_job_def)
  next
    case (Some data)
    show ?thesis
    proof (cases "truthy_int (p_chat_id data) \<and> truthy_int (p_user_id data)")
      case False
      with Some show ?thesis
        by (auto simp add: group_check_job_def Let_def schedule_removal_def)
    next
      case True
      have body: "returns (case checked of
                      None \<Rightarrow> io_return ()
                    | Some is_member \<Rightarrow>
                        if is_member
                        then io_seq
                               (safe_send_message gw chat_id user_id GROUP_APPROVED_MESSAGE
                                  None None bcid)
                               schedule_removal
                        else if attempt \<ge> GROUP_CHECK_MAX_ATTEMPTS
                        then io_seq schedule_removal
                               (send_remarketing SETTINGS env gw chat_id user_id bcid)
                        else io_return ())"
        for checked chat_id user_id bcid attempt
        by (cases checked)
           (simp_all add: returns_seq returns_safe_send [OF assms]
              returns_send_remarketing [OF assms])
      from True Some show ?thesis
        unfolding group_check_job_def Let_def
        apply (simp only: option.case simp_thms if_False)
        apply (rule returns_at)
        apply (rule returns_bind [OF returns_check_membership])
        apply (rule body)
        done
    qed
  qed
qed

lemma classifiable_only_gw_ok: "classifiable_only gw_ok"
  by (simp add: classifiable_only_def gw_ok_def split: gcall.splits)

section \<open>Coroutines that only add events\<close>

lemma only_emitsD:
  assumes "only_emits P m" and "m w = (r, w')"
  obtains es where "w' = w\<lparr>trace := trace w @ es\<rparr>" and "list_all P es"
  using assms unfolding only_emits_def by (metis snd_conv)

lemma only_emits_return [simp]: "only_emits P (io_return x)"
  unfolding only_emits_def by (intro allI exI [of _ "[]"]) simp

lemma only_emits_raise [simp]: "only_emits P (io_raise e)"
  unfolding only_emits_def by (intro allI exI [of _ "[]"]) simp

lemma only_emits_emit: "P e \<Longrightarrow> only_emits P (emit e)"
  unfolding only_emits_def by (intro allI exI [of _ "[e]"]) simp

lemma only_emits_call: "(\<And>r. P (Call c r)) \<Longrightarrow> only_emits P (gateway_call gw c)"
  unfolding only_emits_def
proof
  fix w :: world
  assume "\<And>r. P (Call c r)"
  then show "\<exists>es. snd (gateway_call gw c w) = w\<lparr>trace := trace w @ es\<rparr> \<and> list_all P es"
    by (intro exI [of _ "[Call c (gw (trace w) c)]"]) simp
qed

lemma only_emits_bind:
  assumes m: "only_emits P m" and f: "\<And>x. only_emits P (f x)"
  shows "only_emits P (io_bind m f)"
  unfolding only_emits_def
proof
  fix w :: world
  obtain r w1 where mw: "m w = (r, w1)" by (cases "m w")
  from only_emitsD [OF m mw] obtain es1
    where w1: "w1 = w\<lparr>trace := trace w @ es1\<rparr>" and p1: "list_all P es1" by blast
  show "\<exists>es. snd (io_bind m f w) = w\<lparr>trace := trace w @ es\<rparr> \<and> list_all P es"
  proof (cases r)
    case (Inl e)
    with mw w1 p1 show ?thesis by (auto simp: io_bind_def)
  next
    case (Inr x)
    obtain r2 w2 where fw: "f x w1 = (r2, w2)" by (cases "f x w1")
    from only_emitsD [OF f fw] obtain es2
      where w2: "w2 = w1\<lparr>trace := trace w1 @ es2\<rparr>" and p2: "list_all P es2" by blast
    have "snd (io_bind m f w) = w\<lparr>trace := trace w @ (es1 @ es2)\<rparr>"
      using Inr mw fw w1 w2 by (simp add: io_bind_def)
    moreover have "list_all P (es1 @ es2)" using p1 p2 by simp
    ultimately show ?thesis by blast
  qed
qed

lemma only_emits_try:
  assumes m: "only_emits P m" and h: "\<And>e. only_emits P (h e)"
  shows "only_emits P (io_try m h)"
  unfolding only_emits_def
proof
  fix w :: world
  obtain r w1 where mw: "m w = (r, w1)" by (cases "m w")
  from only_emitsD [OF m mw] obtain es1
    where w1: "w1 = w\<lparr>trace := trace w @ es1\<rparr>" and p1: "list_all P es1" by blast
  show "\<exists>es. snd (io_try m h w) = w\<lparr>trace := trace w @ es\<rparr> \<and> list_all P es"
  proof (cases r)
    case (Inr x)
    with mw w1 p1 show ?thesis by (auto simp: io_try_def)
  next
    case (Inl e)
    obtain r2 w2 where hw: "h e w1 = (r2, w2)" by (cases "h e w1")
    from only_emitsD [OF h hw] obtain es2
      where w2: "w2 = w1\<lparr>trace := trace w1 @ es2\<rparr>" and p2: "list_all P es2" by blast
    have "snd (io_try m h w) = w\<lparr>trace := trace w @ (es1 @ es2)\<rparr>"
      using Inl mw hw w1 w2 by (simp add: io_try_def)
    moreover have "list_all P (es1 @ es2)" using p1 p2 by simp
    ultimately show ?thesis by blast
  qed
qed

lemma only_emits_seq: "only_emits P m \<Longrightarrow> only_emits P n \<Longrightarrow> only_emits P (io_seq m n)"
  by (simp add: io_seq_def only_emits_bind)

lemma only_emits_discard: "only_emits P m \<Longrightarrow> only_emits P (discard m)"
  by (simp add: discard_def only_emits_bind)

lemma only_emits_if:
  "only_emits P m \<Longrightarrow> only_emits P n \<Longrightarrow> only_emits P (if b then m else n)"
  by simp

lemma only_emits_swallow: "P (Print (user_blocked user_id)) \<Longrightarrow> only_emits P (swallow user_id exc)"
  by (simp add: swallow_def handle_blocking_exception_def only_emits_seq only_emits_emit)

lemma only_emits_guarded_call:
  "(\<And>r. P (Call c r)) \<Longrightarrow> P (Print (user_blocked user_id)) \<Longrightarrow>
   only_emits P (io_try (returning (gateway_call gw c)) (swallow user_id))"
  by (simp add: returning_def only_emits_try only_emits_bind only_emits_call only_emits_swallow)

lemma only_emits_voice_retry:
  "only_emits voice_event (voice_retry SETTINGS gw chat_id voice caption parse_mode bcid)"
  unfolding voice_retry_def Let_def
  by (intro only_emits_try only_emits_bind only_emits_if only_emits_call only_emits_return
        only_emits_raise, cases voice)
     (simp_all add: returning_def only_emits_try only_emits_bind only_emits_call)

lemma only_emits_safe_send_voice_prefer:
  "only_emits voice_event
     (safe_send_voice_prefer SETTINGS gw chat_id user_id voice caption parse_mode bcid)"
  unfolding safe_send_voice_prefer_def
  apply (rule only_emits_try)
   apply (simp add: returning_def only_emits_bind only_emits_call)
  apply (rule only_emits_if)
   apply (rule only_emits_bind [OF only_emits_voice_retry])
   apply (case_tac x)
    apply (simp_all add: only_emits_guarded_call)
  done

lemma only_emits_mono:
  assumes "only_emits P m" and "\<And>e. P e \<Longrightarrow> Q e"
  shows "only_emits Q m"
  unfolding only_emits_def
proof
  fix w :: world
  obtain r w1 where mw: "m w = (r, w1)" by (cases "m w")
  from only_emitsD [OF assms(1) mw] obtain es
    where "w1 = w\<lparr>trace := trace w @ es\<rparr>" and "list_all P es" by blast
  with assms(2) mw show "\<exists>es. snd (m w) = w\<lparr>trace := trace w @ es\<rparr> \<and> list_all Q es"
    by (auto simp: list_all_iff)
qed

lemma only_emits_voice_if_configured:
  "only_emits voice_event (voice_if_configured SETTINGS gw chat_id user_id asset bcid)"
  by (simp add: voice_if_configured_def only_emits_discard only_emits_safe_send_voice_prefer)

lemma only_emits_safe_send_message:
  "only_emits (\<lambda>e. text_event e \<or> voice_event e)
     (safe_send_message gw chat_id user_id txt parse_mode reply_markup bcid)"
  by (simp add: safe_send_message_def only_emits_guarded_call)

lemma filter_none: "list_all P es \<Longrightarrow> (\<And>e. P e \<Longrightarrow> \<not> Q e) \<Longrightarrow> filter Q es = []"
  by (induction es) auto

lemma io_seq_InrE:
  assumes "io_seq m n w = (Inr y, w')"
  obtains x w1 where "m w = (Inr x, w1)" and "n w1 = (Inr y, w')"
  using assms by (auto simp: io_seq_def io_bind_def split: prod.splits sum.splits)

lemma discard_InrE:
  assumes "discard m w = (Inr y, w')"
  obtains x where "m w = (Inr x, w')"
  using assms by (auto simp: discard_def io_bind_def split: prod.splits sum.splits)

text \<open>A guarded call that returned: its call, and at most the printed line.\<close>

lemma guarded_call_InrE:
  assumes "io_try (returning (gateway_call gw c)) (swallow user_id) w = (Inr x, w')"
  obtains r lg where "w' = w\<lparr>trace := trace w @ Call c r # lg\<rparr>"
    and "lg = [] \<or> lg = [Print (user_blocked user_id)]"
  using assms unfolding guarded_call_run
  by (auto split: sum.splits if_splits)

lemma media_event_simps [simp]:
  "\<not> media_event (Print l)" "\<not> media_event (Sleep n)"
  by (simp_all add: media_event_def)

lemma not_media_if_text_or_voice: "text_event e \<or> voice_event e \<Longrightarrow> \<not> media_event e"
  by (cases e rule: voice_event.cases) (auto simp: media_event_def)

section \<open>Steps of the stages\<close>

text \<open>The photo step and the video step of the combo delivery, when they return.\<close>

lemma photos_step:
  assumes "(if 2 \<le> length photos
            then discard (safe_send_media_group gw chat_id user_id (map InputMediaPhoto photos) bcid)
            else if length photos = 1
            then discard (safe_send_photo gw chat_id user_id (photos ! 0) None None bcid)
            else io_return ()) w = (Inr (), w')"
  obtains es where "w' = w\<lparr>trace := trace w @ es\<rparr>"
    and "map fst (calls_of (filter media_event es)) =
           (if 2 \<le> length photos then [send_media_group chat_id (map InputMediaPhoto photos) bcid]
            else if length photos = 1 then [send_photo chat_id (photos ! 0) None None bcid]
            else [])"
proof (cases "2 \<le> length photos")
  case True
  then have ne: "photos \<noteq> []" by auto
  from True assms
  have "discard (safe_send_media_group gw chat_id user_id (map InputMediaPhoto photos) bcid) w
          = (Inr (), w')" by simp
  then obtain x where "safe_send_media_group gw chat_id user_id (map InputMediaPhoto photos) bcid w
          = (Inr x, w')" by (rule discard_InrE)
  then obtain r lg where w': "w' = w\<lparr>trace := trace w @
      Call (send_media_group chat_id (map InputMediaPhoto photos) bcid) r # lg\<rparr>"
    and lg: "lg = [] \<or> lg = [Print (user_blocked user_id)]"
    unfolding safe_send_media_group_def by (rule guarded_call_InrE)
  have ph: "list_ex is_photo (map InputMediaPhoto photos)"
    using ne by (cases photos) simp_all
  show ?thesis
    by (rule that [OF w']) (use True lg ph in \<open>auto simp: media_event_def\<close>)
next
  case False
  show ?thesis
  proof (cases "length photos = 1")
    case True
    with False assms
    have "discard (safe_send_photo gw chat_id user_id (photos ! 0) None None bcid) w = (Inr (), w')"
      by simp
    then obtain x where "safe_send_photo gw chat_id user_id (photos ! 0) None None bcid w
          = (Inr x, w')" by (rule discard_InrE)
    then obtain r lg where w': "w' = w\<lparr>trace := trace w @
        Call (send_photo chat_id (photos ! 0) None None bcid) r # lg\<rparr>"
      and lg: "lg = [] \<or> lg = [Print (user_blocked user_id)]"
      unfolding safe_send_photo_def by (rule guarded_call_InrE)
    show ?thesis
      by (rule that [OF w']) (use True lg in \<open>auto simp: media_event_def\<close>)
  next
    case none: False
    with False assms have "w' = w\<lparr>trace := trace w @ []\<rparr>" by simp
    then show ?thesis
      by (rule that) (use False none in simp)
  qed
qed

lemma videos_step:
  assumes "(if 2 \<le> length videos
            then discard (safe_send_media_group gw chat_id user_id (map InputMediaVideo videos) bcid)
            else if length videos = 1
            then discard (safe_send_video gw chat_id user_id (videos ! 0) None None bcid)
            else io_return ()) w = (Inr (), w')"
  obtains es where "w' = w\<lparr>trace := trace w @ es\<rparr>"
    and "map fst (calls_of (filter media_event es)) =
           (if 2 \<le> length videos then [send_media_group chat_id (map InputMediaVideo videos) bcid]
            else if length videos = 1 then [send_video chat_id (videos ! 0) None None bcid]
            else [])"
proof (cases "2 \<le> length videos")
  case True
  then have ne: "videos \<noteq> []" by auto
  from True assms
  have "discard (safe_send_media_group gw chat_id user_id (map InputMediaVideo videos) bcid) w
          = (Inr (), w')" by simp
  then obtain x where "safe_send_media_group gw chat_id user_id (map InputMediaVideo videos) bcid w
          = (Inr x, w')" by (rule discard_InrE)
  then obtain r lg where w': "w' = w\<lparr>trace := trace w @
      Call (send_media_group chat_id (map InputMediaVideo videos) bcid) r # lg\<rparr>"
    and lg: "lg = [] \<or> lg = [Print (user_blocked user_id)]"
    unfolding safe_send_media_group_def by (rule guarded_call_InrE)
  have ph: "list_ex (\<lambda>m. \<not> is_photo m) (map InputMediaVideo videos)"
    using ne by (cases videos) simp_all
  show ?thesis
    by (rule that [OF w']) (use True lg ph in \<open>auto simp: media_event_def\<close>)
next
  case False
  show ?thesis
  proof (cases "length videos = 1")
    case True
    with False assms
    have "discard (safe_send_video gw chat_id user_id (videos ! 0) None None bcid) w = (Inr (), w')"
      by simp
    then obtain x where "safe_send_video gw chat_id user_id (videos ! 0) None None bcid w
          = (Inr x, w')" by (rule discard_InrE)
    then obtain r lg where w': "w' = w\<lparr>trace := trace w @
        Call (send_video chat_id (videos ! 0) None None bcid) r # lg\<rparr>"
      and lg: "lg = [] \<or> lg = [Print (user_blocked user_id)]"
      unfolding safe_send_video_def by (rule guarded_call_InrE)
    show ?thesis
      by (rule that [OF w']) (use True lg in \<open>auto simp: media_event_def\<close>)
  next
    case none: False
    with False assms have "w' = w\<lparr>trace := trace w @ []\<rparr>" by simp
    then show ?thesis
      by (rule that) (use False none in simp)
  qed
qed

text \<open>A step that sends texts or voice only adds no media event.\<close>

lemma quiet_step:
  assumes "only_emits (\<lambda>e. text_event e \<or> voice_event e) m" and "m w = (r, w')"
  obtains es where "w' = w\<lparr>trace := trace w @ es\<rparr>" and "filter media_event es = []"
proof -
  from only_emitsD [OF assms] obtain es
    where w': "w' = w\<lparr>trace := trace w @ es\<rparr>"
      and all: "list_all (\<lambda>e. text_event e \<or> voice_event e) es" by blast
  from all have "filter media_event es = []"
    by (rule filter_none) (rule not_media_if_text_or_voice)
  with w' show ?thesis by (rule that)
qed

section \<open>The media calls of the combo delivery\<close>

lemma calls_of_append: "calls_of (xs @ ys) = calls_of xs @ calls_of ys"
  by (induction xs rule: calls_of.induct) simp_all

text \<open>
  A property of events that only looks at the call of a media event can be read off the
  media calls.
\<close>

lemma list_ex_media_calls:
  assumes "\<And>c r. P (Call c r) = Q c" and "\<And>e. P e \<Longrightarrow> media_event e"
  shows "list_ex P es = list_ex Q (map fst (calls_of (filter media_event es)))"
proof (induction es)
  case Nil
  show ?case by simp
next
  case (Cons e es)
  show ?case
  proof (cases e)
    case (Call c r)
    with Cons assms show ?thesis by auto
  next
    case (Print l)
    with assms(2) [of e] have "\<not> P e" by auto
    with Cons Print show ?thesis by simp
  next
    case (Sleep n)
    with assms(2) [of e] have "\<not> P e" by auto
    with Cons Sleep show ?thesis by simp
  qed
qed

lemma if_job_queue_trace:
  "if_job_queue (add_job j) w = (r, w') \<Longrightarrow> trace w' = trace w"
  by (auto simp: if_job_queue_def add_job_def split: if_splits)

lemma combo_media_calls:
  assumes data: "job_data w = Some data" "truthy_int (p_chat_id data)"
      and run: "combo_delivery_beatriz_job SETTINGS env gw w = (Inr (), w')"
      and k: "photos = configured (photos_ids env)" "videos = configured (videos_ids env)"
      and c: "chat_id = the (p_chat_id data)" "bcid = p_business_connection_id data"
  shows "map fst (calls_of (filter media_event (new_events w w'))) =
           (if 2 \<le> length photos then [send_media_group chat_id (map InputMediaPhoto photos) bcid]
            else if length photos = 1 then [send_photo chat_id (photos ! 0) None None bcid]
            else []) @
           (if 2 \<le> length videos then [send_media_group chat_id (map InputMediaVideo videos) bcid]
            else if length videos = 1 then [send_video chat_id (videos ! 0) None None bcid]
            else [])"
proof -
  let ?u = "p_user_id data"
  from run data have chain:
    "io_seq
       (safe_send_message gw chat_id ?u
          (Literal ''Hi, sorry for the delay. I'll send everything'') None None bcid)
    (io_seq
       (voice_if_configured SETTINGS gw chat_id ?u (getenv env ''AUDIO_ENTREGA_COMBO'') bcid)
    (io_seq
       (if 2 \<le> length photos
        then discard (safe_send_media_group gw chat_id ?u (map InputMediaPhoto photos) bcid)
        else if length photos = 1
        then discard (safe_send_photo gw chat_id ?u (photos ! 0) None None bcid)
        else io_return ())
    (io_seq
       (if 2 \<le> length videos
        then discard (safe_send_media_group gw chat_id ?u (map InputMediaVideo videos) bcid)
        else if length videos = 1
        then discard (safe_send_video gw chat_id ?u (videos ! 0) None None bcid)
        else io_return ())
    (io_seq
       (if truthy_str (getenv env ''AUDIO_POS_ENTREGA_COMBO'')
        then discard (safe_send_voice_prefer SETTINGS gw chat_id ?u
                        (Str (the (getenv env ''AUDIO_POS_ENTREGA_COMBO''))) None None bcid)
        else discard (safe_send_message gw chat_id ?u closing_text None None bcid))
       (if_job_queue
          (run_once upsell_sequence_job_cb VIP_OFFER_DELAY_SECONDS
             \<lparr>p_chat_id = Some chat_id, p_user_id = ?u,
              p_business_connection_id = bcid, p_attempt = None\<rparr>
             (upsell_name chat_id))))))) w = (Inr (), w')"
    unfolding combo_delivery_beatriz_job_def k c by (simp add: Let_def)
  from chain obtain x1 w1 where
    s1: "safe_send_message gw chat_id ?u
           (Literal ''Hi, sorry for the delay. I'll send everything'') None None bcid w = (Inr x1, w1)"
    and chain2: "io_seq
       (voice_if_configured SETTINGS gw chat_id ?u (getenv env ''AUDIO_ENTREGA_COMBO'') bcid)
    (io_seq
       (if 2 \<le> length photos
        then discard (safe_send_media_group gw chat_id ?u (map InputMediaPhoto photos) bcid)
        else if length photos = 1
        then discard (safe_send_photo gw chat_id ?u (photos ! 0) None None bcid)
        else io_return ())
    (io_seq
       (if 2 \<le> length videos
        then discard (safe_send_media_group gw chat_id ?u (map InputMediaVideo videos) bcid)
        else if length videos = 1
        then discard (safe_send_video gw chat_id ?u (videos ! 0) None None bcid)
        else io_return ())
    (io_seq
       (if truthy_str (getenv env ''AUDIO_POS_ENTREGA_COMBO'')
        then discard (safe_send_voice_prefer SETTINGS gw chat_id ?u
                        (Str (the (getenv env ''AUDIO_POS_ENTREGA_COMBO''))) None None bcid)
        else discard (safe_send_message gw chat_id ?u closing_text None None bcid))
       (if_job_queue
          (run_once upsell_sequence_job_cb VIP_OFFER_DELAY_SECONDS
             \<lparr>p_chat_id = Some chat_id, p_user_id = ?u,
              p_business_connection_id = bcid, p_attempt = None\<rparr>
             (upsell_name chat_id)))))) w1 = (Inr (), w')"
    by (rule io_seq_InrE)
  from chain2 obtain x2 w2 where
    s2: "voice_if_configured SETTINGS gw chat_id ?u (getenv env ''AUDIO_ENTREGA_COMBO'') bcid w1
           = (Inr x2, w2)"
    and chain3: "io_seq
       (if 2 \<le> length photos
        then discard (safe_send_media_group gw chat_id ?u (map InputMediaPhoto photos) bcid)
        else if length photos = 1
        then discard (safe_send_photo gw chat_id ?u (photos ! 0) None None bcid)
        else io_return ())
    (io_seq
       (if 2 \<le> length videos
        then discard (safe_send_media_group gw chat_id ?u (map InputMediaVideo videos) bcid)
        else if length videos = 1
        then discard (safe_send_video gw chat_id ?u (videos ! 0) None None bcid)
        else io_return ())
    (io_seq
       (if truthy_str (getenv env ''AUDIO_POS_ENTREGA_COMBO'')
        then discard (safe_send_voice_prefer SETTINGS gw chat_id ?u
                        (Str (the (getenv env ''AUDIO_POS_ENTREGA_COMBO''))) None None bcid)
        else discard (safe_send_message gw chat_id ?u closing_text None None bcid))
       (if_job_queue
          (run_once upsell_sequence_job_cb VIP_OFFER_DELAY_SECONDS
             \<lparr>p_chat_id = Some chat_id, p_user_id = ?u,
              p_business_connection_id = bcid, p_attempt = None\<rparr>
             (upsell_name chat_id))))) w2 = (Inr (), w')"
    by (rule io_seq_InrE)
  from chain3 obtain x3 w3 where
    s3: "(if 2 \<le> length photos
        then discard (safe_send_media_group gw chat_id ?u (map InputMediaPhoto photos) bcid)
        else if length photos = 1
        then discard (safe_send_photo gw chat_id ?u (photos ! 0) None None bcid)
        else io_return ()) w2 = (Inr x3, w3)"
    and chain4: "io_seq
       (if 2 \<le> length videos
        then discard (safe_send_media_group gw chat_id ?u (map InputMediaVideo videos) bcid)
        else if length videos = 1
        then discard (safe_send_video gw chat_id ?u (videos ! 0) None None bcid)
        else io_return ())
    (io_seq
       (if truthy_str (getenv env ''AUDIO_POS_ENTREGA_COMBO'')
        then discard (safe_send_voice_prefer SETTINGS gw chat_id ?u
                        (Str (the (getenv env ''AUDIO_POS_ENTREGA_COMBO''))) None None bcid)
        else discard (safe_send_message gw chat_id ?u closing_text None None bcid))
       (if_job_queue
          (run_once upsell_sequence_job_cb VIP_OFFER_DELAY_SECONDS
             \<lparr>p_chat_id = Some chat_id, p_user_id = ?u,
              p_business_connection_id = bcid, p_attempt = None\<rparr>
             (upsell_name chat_id)))) w3 = (Inr (), w')"
    by (rule io_seq_InrE)
  from chain4 obtain x4 w4 where
    s4: "(if 2 \<le> length videos
        then discard (safe_send_media_group gw chat_id ?u (map InputMediaVideo videos) bcid)
        else if length videos = 1
        then discard (safe_send_video gw chat_id ?u (videos ! 0) None None bcid)
        else io_return ()) w3 = (Inr x4, w4)"
    and chain5: "io_seq
       (if truthy_str (getenv env ''AUDIO_POS_ENTREGA_COMBO'')
        then discard (safe_send_voice_prefer SETTINGS gw chat_id ?u
                        (Str (the (getenv env ''AUDIO_POS_ENTREGA_COMBO''))) None None bcid)
        else discard (safe_send_message gw chat_id ?u closing_text None None bcid))
       (if_job_queue
          (run_once upsell_sequence_job_cb VIP_OFFER_DELAY_SECONDS
             \<lparr>p_chat_id = Some chat_id, p_user_id = ?u,
              p_business_connection_id = bcid, p_attempt = None\<rparr>
             (upsell_name chat_id))) w4 = (Inr (), w')"
    by (rule io_seq_InrE)
  from chain5 obtain x5 w5 where
    s5: "(if truthy_str (getenv env ''AUDIO_POS_ENTREGA_COMBO'')
        then discard (safe_send_voice_prefer SETTINGS gw chat_id ?u
                        (Str (the (getenv env ''AUDIO_POS_ENTREGA_COMBO''))) None None bcid)
        else discard (safe_send_message gw chat_id ?u closing_text None None bcid)) w4
          = (Inr x5, w5)"
    and s6: "if_job_queue
          (run_once upsell_sequence_job_cb VIP_OFFER_DELAY_SECONDS
             \<lparr>p_chat_id = Some chat_id, p_user_id = ?u,
              p_business_connection_id = bcid, p_attempt = None\<rparr>
             (upsell_name chat_id)) w5 = (Inr (), w')"
    by (rule io_seq_InrE)
  have q1: "only_emits (\<lambda>e. text_event e \<or> voice_event e)
              (safe_send_message gw chat_id ?u
                 (Literal ''Hi, sorry for the delay. I'll send everything'') None None bcid)"
    by (rule only_emits_safe_send_message)
  have q2: "only_emits (\<lambda>e. text_event e \<or> voice_event e)
              (voice_if_configured SETTINGS gw chat_id ?u (getenv env ''AUDIO_ENTREGA_COMBO'') bcid)"
    by (rule only_emits_mono [OF only_emits_voice_if_configured]) simp
  have q5: "only_emits (\<lambda>e. text_event e \<or> voice_event e)
       (if truthy_str (getenv env ''AUDIO_POS_ENTREGA_COMBO'')
        then discard (safe_send_voice_prefer SETTINGS gw chat_id ?u
                        (Str (the (getenv env ''AUDIO_POS_ENTREGA_COMBO''))) None None bcid)
        else discard (safe_send_message gw chat_id ?u closing_text None None bcid))"
    by (intro only_emits_if only_emits_discard only_emits_safe_send_message
          only_emits_mono [OF only_emits_safe_send_voice_prefer]) simp
  from quiet_step [OF q1 s1] obtain es1
    where w1: "w1 = w\<lparr>trace := trace w @ es1\<rparr>" and f1: "filter media_event es1 = []" by blast
  from quiet_step [OF q2 s2] obtain es2
    where w2: "w2 = w1\<lparr>trace := trace w1 @ es2\<rparr>" and f2: "filter media_event es2 = []" by blast
  from s3 have s3': "(if 2 \<le> length photos
        then discard (safe_send_media_group gw chat_id ?u (map InputMediaPhoto photos) bcid)
        else if length photos = 1
        then discard (safe_send_photo gw chat_id ?u (photos ! 0) None None bcid)
        else io_return ()) w2 = (Inr (), w3)" by simp
  from photos_step [OF s3'] obtain es3
    where w3: "w3 = w2\<lparr>trace := trace w2 @ es3\<rparr>"
      and f3: "map fst (calls_of (filter media_event es3)) =
           (if 2 \<le> length photos then [send_media_group chat_id (map InputMediaPhoto photos) bcid]
            else if length photos = 1 then [send_photo chat_id (photos ! 0) None None bcid]
            else [])" by blast
  from s4 have s4': "(if 2 \<le> length videos
        then discard (safe_send_media_group gw chat_id ?u (map InputMediaVideo videos) bcid)
        else if length videos = 1
        then discard (safe_send_video gw chat_id ?u (videos ! 0) None None bcid)
        else io_return ()) w3 = (Inr (), w4)" by simp
  from videos_step [OF s4'] obtain es4
    where w4: "w4 = w3\<lparr>trace := trace w3 @ es4\<rparr>"
      and f4: "map fst (calls_of (filter media_event es4)) =
           (if 2 \<le> length videos then [send_media_group chat_id (map InputMediaVideo videos) bcid]
            else if length videos = 1 then [send_video chat_id (videos ! 0) None None bcid]
            else [])" by blast
  from quiet_step [OF q5 s5] obtain es5
    where w5: "w5 = w4\<lparr>trace := trace w4 @ es5\<rparr>" and f5: "filter media_event es5 = []" by blast
  from s6 have "trace w' = trace w5"
    unfolding run_once_def by (rule if_job_queue_trace)
  then have "new_events w w' = es1 @ es2 @ es3 @ es4 @ es5"
    by (simp add: new_events_def w1 w2 w3 w4 w5)
  then have "filter media_event (new_events w w') =
               filter media_event es3 @ filter media_event es4"
    by (simp add: f1 f2 f5)
  then show ?thesis
    by (simp add: f3 f4 calls_of_append)
qed

section \<open>The upsell stage\<close>

lemma io_seq_assoc: "io_seq (io_seq a b) c = io_seq a (io_seq b c)"
  by (rule ext) (simp add: io_seq_def io_bind_def split: prod.splits sum.splits)

lemma io_seq_discard: "io_seq (discard m) n = io_seq m n"
  by (rule ext) (simp add: io_seq_def discard_def io_bind_def split: prod.splits sum.splits)

text \<open>A step followed by the rest: either the step raised, or the rest ran after it.\<close>

lemma io_seq_cases:
  assumes "io_seq m n w = (r, w')"
  obtains (raised) e where "m w = (Inl e, w')" and "r = Inl e"
  | (went_on) x w1 where "m w = (Inr x, w1)" and "n w1 = (r, w')"
  using assms by (auto simp: io_seq_def io_bind_def split: prod.splits sum.splits)

lemma upsell_split:
  assumes "job_data w = Some data" "truthy_int (p_chat_id data)"
  shows "upsell_sequence_job SETTINGS env gw w =
     io_seq
       (upsell_sends SETTINGS env gw (the (p_chat_id data)) (p_user_id data)
          (p_business_connection_id data))
       (if_job_queue
          (if truthy_int (p_user_id data)
           then run_repeating group_check_job_cb GROUP_CHECK_INTERVAL_SECONDS
                  GROUP_CHECK_INTERVAL_SECONDS (group_check_name (the (p_chat_id data)))
                  \<lparr>p_chat_id = Some (the (p_chat_id data)), p_user_id = p_user_id data,
                   p_business_connection_id = p_business_connection_id data,
                   p_attempt = Some 0\<rparr>
           else io_return ())) w"
  using assms
  by (simp add: upsell_sequence_job_def upsell_sends_def Let_def io_seq_assoc io_seq_discard)

lemma only_emits_upsell_sends:
  "only_emits (\<lambda>_. True) (upsell_sends SETTINGS env gw chat_id user_id bcid)"
  unfolding upsell_sends_def
  by (intro only_emits_seq only_emits_if only_emits_discard only_emits_return
        only_emits_mono [OF only_emits_voice_if_configured]
        only_emits_mono [OF only_emits_safe_send_message])
     (simp_all add: safe_send_video_def only_emits_guarded_call)

lemma upsell_sends_texts:
  assumes "upsell_sends SETTINGS env gw chat_id user_id bcid w = (Inr (), w')"
  shows "map fst (calls_of (filter text_event (new_events w w'))) =
           [send_message chat_id upsell_text None None bcid,
            send_message chat_id choose_vip_text None (Some vip_keyboard) bcid]"
proof -
  let ?s1 = "voice_if_configured SETTINGS gw chat_id user_id
               (getenv env ''AUDIO_OFERTANDO_UPSELL'') bcid"
  let ?s2 = "if truthy_str (getenv env ''VIDEO_PREVIA_VIP'')
        then discard (safe_send_video gw chat_id user_id
                        (the (getenv env ''VIDEO_PREVIA_VIP'')) None None bcid)
        else io_return ()"
  let ?s3 = "safe_send_message gw chat_id user_id upsell_text None None bcid"
  let ?s4 = "safe_send_message gw chat_id user_id choose_vip_text None (Some vip_keyboard) bcid"
  from assms have "io_seq ?s1 (io_seq ?s2 (io_seq ?s3 (discard ?s4))) w = (Inr (), w')"
    by (simp add: upsell_sends_def)
  then obtain x1 w1 where s1: "?s1 w = (Inr x1, w1)"
    and c2: "io_seq ?s2 (io_seq ?s3 (discard ?s4)) w1 = (Inr (), w')"
    by (rule io_seq_InrE)
  from c2 obtain x2 w2 where s2: "?s2 w1 = (Inr x2, w2)"
    and c3: "io_seq ?s3 (discard ?s4) w2 = (Inr (), w')"
    by (rule io_seq_InrE)
  from c3 obtain x3 w3 where s3: "?s3 w2 = (Inr x3, w3)"
    and c4: "discard ?s4 w3 = (Inr (), w')"
    by (rule io_seq_InrE)
  from c4 obtain x4 where s4: "?s4 w3 = (Inr x4, w')"
    by (rule discard_InrE)
  have q1: "only_emits (\<lambda>e. \<not> text_event e) ?s1"
    by (rule only_emits_mono [OF only_emits_voice_if_configured])
       (auto elim: voice_event.elims)
  have q2: "only_emits (\<lambda>e. \<not> text_event e) ?s2"
    by (intro only_emits_if only_emits_discard only_emits_return)
       (simp add: safe_send_video_def only_emits_guarded_call)
  from only_emitsD [OF q1 s1] obtain es1
    where w1: "w1 = w\<lparr>trace := trace w @ es1\<rparr>" and f1: "list_all (\<lambda>e. \<not> text_event e) es1"
    by blast
  from only_emitsD [OF q2 s2] obtain es2
    where w2: "w2 = w1\<lparr>trace := trace w1 @ es2\<rparr>" and f2: "list_all (\<lambda>e. \<not> text_event e) es2"
    by blast
  from s3 obtain r3 lg3 where w3: "w3 = w2\<lparr>trace := trace w2 @
      Call (send_message chat_id upsell_text None None bcid) r3 # lg3\<rparr>"
    and lg3: "lg3 = [] \<or> lg3 = [Print (user_blocked user_id)]"
    unfolding safe_send_message_def by (rule guarded_call_InrE)
  from s4 obtain r4 lg4 where w4: "w' = w3\<lparr>trace := trace w3 @
      Call (send_message chat_id choose_vip_text None (Some vip_keyboard) bcid) r4 # lg4\<rparr>"
    and lg4: "lg4 = [] \<or> lg4 = [Print (user_blocked user_id)]"
    unfolding safe_send_message_def by (rule guarded_call_InrE)
  have n1: "filter text_event es1 = []" and n2: "filter text_event es2 = []"
    using f1 f2 by (simp_all add: filter_empty_conv list_all_iff)
  have "new_events w w' = es1 @ es2 @
      (Call (send_message chat_id upsell_text None None bcid) r3 # lg3) @
      (Call (send_message chat_id choose_vip_text None (Some vip_keyboard) bcid) r4 # lg4)"
    by (simp add: new_events_def w1 w2 w3 w4)
  then show ?thesis
    using n1 n2 lg3 lg4 by auto
qed

section \<open>The membership polling job\<close>

lemma check_membership_run:
  "check_membership SETTINGS gw user_id w =
     (Inr (case gw (trace w) (get_chat_member (group_id SETTINGS) user_id) of
             Inl (Forbidden s) \<Rightarrow> None
           | Inl _ \<Rightarrow> Some False
           | Inr member \<Rightarrow>
               Some (status_attr member \<in> {Some ''member'', Some ''administrator'', Some ''creator''}
                     \<or> is_member_attr member)),
      w\<lparr>trace := trace w @
           [Call (get_chat_member (group_id SETTINGS) user_id)
              (gw (trace w) (get_chat_member (group_id SETTINGS) user_id))]\<rparr>)"
  by (simp add: check_membership_def io_try_def io_bind_def Let_def
           split: sum.splits exn.splits)

lemma group_check_job_run:
  assumes "ctx_job w = Some j" "j_data j = Some d"
      and "truthy_int (p_chat_id d)" "truthy_int (p_user_id d)"
  shows "group_check_job SETTINGS env gw w =
     (let chat_id = the (p_chat_id d); user_id = p_user_id d; bcid = p_business_connection_id d;
          attempt = (case p_attempt d of None \<Rightarrow> 0 | Some a \<Rightarrow> a) + 1;
          q = get_chat_member (group_id SETTINGS) (the user_id);
          w1 = w\<lparr>ctx_job := Some (j\<lparr>j_data := Some (d\<lparr>p_attempt := Some attempt\<rparr>)\<rparr>),
                 trace := trace w @ [Call q (gw (trace w) q)]\<rparr>
      in case gw (trace w) q of
           Inl (Forbidden s) \<Rightarrow> (Inr (), w1)
         | Inl _ \<Rightarrow>
             (if attempt \<ge> GROUP_CHECK_MAX_ATTEMPTS
              then io_seq schedule_removal (send_remarketing SETTINGS env gw chat_id user_id bcid)
              else io_return ()) w1
         | Inr member \<Rightarrow>
             if status_attr member \<in> {Some ''member'', Some ''administrator'', Some ''creator''}
                \<or> is_member_attr member
             then io_seq
                    (safe_send_message gw chat_id user_id GROUP_APPROVED_MESSAGE None None bcid)
                    schedule_removal w1
             else (if attempt \<ge> GROUP_CHECK_MAX_ATTEMPTS
                   then io_seq schedule_removal
                          (send_remarketing SETTINGS env gw chat_id user_id bcid)
                   else io_return ()) w1)"
  using assms
  by (simp add: group_check_job_def job_data_def Let_def io_bind_def check_membership_run
           split: sum.splits exn.splits)

lemma calls_of_mem: "(c, r) \<in> set (calls_of es) \<longleftrightarrow> Call c r \<in> set es"
  by (induction es rule: calls_of.induct) auto

lemma only_emits_send_remarketing:
  assumes "\<And>r. P (Call (send_message chat_id desc_text None
                     (Some [[InlineKeyboardButton i_want_this EU_QUERO_LINK]]) bcid) r)"
      and "\<And>e. voice_event e \<Longrightarrow> P e" and "P (Sleep 45)"
  shows "only_emits P (send_remarketing SETTINGS env gw chat_id user_id bcid)"
  unfolding send_remarketing_def
  by (intro only_emits_seq only_emits_if only_emits_return only_emits_emit
        only_emits_mono [OF only_emits_voice_if_configured])
     (simp_all add: assms safe_send_message_def only_emits_guarded_call)

text \<open>
  While the membership query is refused, every firing makes one more query and leaves the
  job scheduled.
\<close>

lemma fire_while_forbidden:
  assumes gw: "\<And>h. \<exists>s. gw h (get_chat_member (group_id SETTINGS) user) = Inl (Forbidden s)"
      and job: "ctx_job w = Some j" "j_data j = Some d" "\<not> j_removed j"
      and ids: "truthy_int (p_chat_id d)" "p_user_id d = Some user" "user \<noteq> 0"
      and a: "p_attempt d = Some a"
  shows "\<exists>es. trace (fire (group_check_job SETTINGS env gw) n w) = trace w @ es \<and>
           map fst (calls_of es) = replicate n (get_chat_member (group_id SETTINGS) user) \<and>
           ctx_job (fire (group_check_job SETTINGS env gw) n w) =
             Some (j\<lparr>j_data := Some (d\<lparr>p_attempt := Some (a + int n)\<rparr>)\<rparr>)"
  using job ids a
proof (induction n arbitrary: w j d a)
  case 0
  then show ?case by simp
next
  case (Suc n)
  let ?q = "get_chat_member (group_id SETTINGS) user"
  let ?j1 = "j\<lparr>j_data := Some (d\<lparr>p_attempt := Some (a + 1)\<rparr>)\<rparr>"
  let ?w1 = "w\<lparr>ctx_job := Some ?j1, trace := trace w @ [Call ?q (gw (trace w) ?q)]\<rparr>"
  from gw obtain s where s: "gw (trace w) ?q = Inl (Forbidden s)" by blast
  have u: "truthy_int (p_user_id d)"
    using Suc.prems by (simp add: truthy_int_def)
  have step: "group_check_job SETTINGS env gw w = (Inr (), ?w1)"
    using Suc.prems s
    by (simp add: group_check_job_run [OF Suc.prems(1,2,4) u] Let_def)
  have "\<exists>es. trace (fire (group_check_job SETTINGS env gw) n ?w1) = trace ?w1 @ es \<and>
           map fst (calls_of es) = replicate n ?q \<and>
           ctx_job (fire (group_check_job SETTINGS env gw) n ?w1) =
             Some (?j1\<lparr>j_data := Some ((d\<lparr>p_attempt := Some (a + 1)\<rparr>)
                                          \<lparr>p_attempt := Some (a + 1 + int n)\<rparr>)\<rparr>)"
    by (rule Suc.IH) (use Suc.prems in simp_all)
  then obtain es where es: "trace (fire (group_check_job SETTINGS env gw) n ?w1) = trace ?w1 @ es"
    "map fst (calls_of es) = replicate n ?q"
    "ctx_job (fire (group_check_job SETTINGS env gw) n ?w1) =
       Some (j\<lparr>j_data := Some (d\<lparr>p_attempt := Some (a + 1 + int n)\<rparr>)\<rparr>)"
    by auto
  have f: "fire (group_check_job SETTINGS env gw) (Suc n) w =
           fire (group_check_job SETTINGS env gw) n ?w1"
    using Suc.prems step by simp
  show ?case
    unfolding f
    by (rule exI [of _ "Call ?q (gw (trace w) ?q) # es"])
       (use es in \<open>simp add: add.assoc flip: replicate_Suc\<close>)
qed

text \<open>Counting the membership checks of a run.\<close>

lemma checks_Nil [simp]: "refused_checks [] = 0" "conclusive_checks [] = 0"
  by (simp_all add: refused_checks_def conclusive_checks_def)

lemma checks_Call [simp]:
  "refused_checks (Call c r # es) =
     (if membership_check c \<and> refused r then 1 else 0) + refused_checks es"
  "conclusive_checks (Call c r # es) =
     (if membership_check c \<and> \<not> refused r then 1 else 0) + conclusive_checks es"
  by (simp_all add: refused_checks_def conclusive_checks_def)

lemma checks_append [simp]:
  "refused_checks (es @ es') = refused_checks es + refused_checks es'"
  "conclusive_checks (es @ es') = conclusive_checks es + conclusive_checks es'"
  by (simp_all add: refused_checks_def conclusive_checks_def calls_of_append)

lemma no_checks:
  assumes "list_all (\<lambda>e. \<forall>c r. e = Call c r \<longrightarrow> \<not> membership_check c) es"
  shows "refused_checks es = 0" "conclusive_checks es = 0"
  using assms
  by (induction es rule: calls_of.induct)
     (simp_all add: refused_checks_def conclusive_checks_def)

lemma voice_event_no_check:
  "voice_event (Call c r) \<Longrightarrow> \<not> membership_check c"
  by (cases c) simp_all

lemma fire_removed:
  "ctx_job w = Some j \<Longrightarrow> j_removed j \<Longrightarrow> fire cb n w = w"
  by (cases n) simp_all

text \<open>
  One invocation of the polling job for a chat and a user: the attempt is counted, the
  query is made, and the job is removed exactly when the answer is conclusive and either
  confirms the membership or comes at the maximum; what follows the query holds no
  further query.
\<close>

lemma group_check_step:
  assumes job: "ctx_job w = Some j" "j_data j = Some d" "\<not> j_removed j"
      and ids: "p_chat_id d = Some chat" "chat \<noteq> 0" "p_user_id d = Some user" "user \<noteq> 0"
      and a: "p_attempt d = Some a"
      and sends: "\<And>h e. gw h (send_message chat GROUP_APPROVED_MESSAGE None None
                             (p_business_connection_id d)) = Inl e \<Longrightarrow>
                        is_Forbidden_or_BadRequest e"
      and ans: "ans = gw (trace w) (get_chat_member (group_id SETTINGS) user)"
  shows "\<exists>es. snd (group_check_job SETTINGS env gw w) =
           w\<lparr>ctx_job := Some (j\<lparr>j_data := Some (d\<lparr>p_attempt := Some (a + 1)\<rparr>),
                                j_removed := \<not> refused ans \<and>
                                  (confirms ans \<or> GROUP_CHECK_MAX_ATTEMPTS \<le> a + 1)\<rparr>),
             trace := trace w @ Call (get_chat_member (group_id SETTINGS) user) ans # es\<rparr> \<and>
           list_all (\<lambda>e. \<forall>c r. e = Call c r \<longrightarrow> \<not> membership_check c) es"
proof -
  let ?P = "\<lambda>e. \<forall>c r. e = Call c r \<longrightarrow> \<not> membership_check c"
  let ?q = "get_chat_member (group_id SETTINGS) user"
  let ?d1 = "d\<lparr>p_attempt := Some (a + 1)\<rparr>"
  let ?w1 = "w\<lparr>ctx_job := Some (j\<lparr>j_data := Some ?d1\<rparr>), trace := trace w @ [Call ?q ans]\<rparr>"
  let ?w2 = "snd (schedule_removal ?w1)"
  let ?rm = "send_remarketing SETTINGS env gw chat (Some user) (p_business_connection_id d)"
  let ?A = "send_message chat GROUP_APPROVED_MESSAGE None None (p_business_connection_id d)"
  have t: "truthy_int (p_chat_id d)" "truthy_int (p_user_id d)"
    using ids by (simp_all add: truthy_int_def)
  have keep: "j\<lparr>j_data := Some ?d1, j_removed := False\<rparr> = j\<lparr>j_data := Some ?d1\<rparr>"
    using job(3) by (cases j) simp
  have run: "group_check_job SETTINGS env gw w =
     (case ans of
        Inl (Forbidden s) \<Rightarrow> (Inr (), ?w1)
      | Inl _ \<Rightarrow>
          (if GROUP_CHECK_MAX_ATTEMPTS \<le> a + 1 then io_seq schedule_removal ?rm
           else io_return ()) ?w1
      | Inr member \<Rightarrow>
          if confirms ans
          then io_seq (safe_send_message gw chat (Some user) GROUP_APPROVED_MESSAGE None None
                         (p_business_connection_id d))
                 schedule_removal ?w1
          else (if GROUP_CHECK_MAX_ATTEMPTS \<le> a + 1 then io_seq schedule_removal ?rm
                else io_return ()) ?w1)"
    unfolding ans using ids a
    by (simp add: group_check_job_run [OF job(1,2) t] Let_def split: sum.splits exn.splits)
  have "only_emits ?P ?rm"
    by (rule only_emits_send_remarketing) (auto dest: voice_event_no_check)
  then obtain es where rm: "snd (?rm ?w2) = ?w2\<lparr>trace := trace ?w2 @ es\<rparr>" "list_all ?P es"
    unfolding only_emits_def by blast
  have e1: "io_seq schedule_removal ?rm ?w1 = ?rm ?w2"
    by (simp add: io_seq_def io_bind_def schedule_removal_def)
  have e2: "?w2\<lparr>trace := trace ?w2 @ es\<rparr> =
      w\<lparr>ctx_job := Some (j\<lparr>j_data := Some ?d1, j_removed := True\<rparr>),
        trace := trace w @ Call ?q ans # es\<rparr>"
    by (simp add: schedule_removal_def)
  have escalate: "snd (io_seq schedule_removal ?rm ?w1) =
      w\<lparr>ctx_job := Some (j\<lparr>j_data := Some ?d1, j_removed := True\<rparr>),
        trace := trace w @ Call ?q ans # es\<rparr>"
    by (simp only: e1 rm(1) e2)
  have approve: "\<exists>es. snd (io_seq (safe_send_message gw chat (Some user) GROUP_APPROVED_MESSAGE
                                 None None (p_business_connection_id d))
                         schedule_removal ?w1) =
      w\<lparr>ctx_job := Some (j\<lparr>j_data := Some ?d1, j_removed := True\<rparr>),
        trace := trace w @ Call ?q ans # es\<rparr> \<and> list_all ?P es"
  proof (cases "gw (trace ?w1) ?A")
    case (Inr r)
    then show ?thesis
      by (intro exI [of _ "[Call ?A (Inr r)]"])
         (simp add: safe_send_message_def guarded_call_run io_seq_def io_bind_def
            schedule_removal_def)
  next
    case (Inl e)
    with sends have "is_Forbidden_or_BadRequest e" by blast
    with Inl show ?thesis
      by (intro exI [of _ "Call ?A (Inl e) #
             (if mentions_blocking e then [Print (user_blocked (Some user))] else [])"])
         (simp add: safe_send_message_def guarded_call_run io_seq_def io_bind_def
            schedule_removal_def)
  qed
  show ?thesis
  proof (cases "refused ans")
    case True
    then obtain s where "ans = Inl (Forbidden s)"
      by (cases ans rule: refused.cases) simp_all
    then show ?thesis
      by (intro exI [of _ "[]"]) (simp add: run keep)
  next
    case conclusive: False
    show ?thesis
    proof (cases "confirms ans")
      case True
      then obtain member where "ans = Inr member" by (cases ans) simp_all
      with True conclusive approve show ?thesis
        by (simp add: run)
    next
      case False
      have run': "group_check_job SETTINGS env gw w =
          (if GROUP_CHECK_MAX_ATTEMPTS \<le> a + 1 then io_seq schedule_removal ?rm
           else io_return ()) ?w1"
        using False conclusive unfolding run
        by (cases ans rule: refused.cases) simp_all
      show ?thesis
      proof (cases "GROUP_CHECK_MAX_ATTEMPTS \<le> a + 1")
        case True
        with False conclusive escalate rm(2) show ?thesis
          by (intro exI [of _ es]) (simp add: run')
      next
        case below: False
        with False conclusive show ?thesis
          by (intro exI [of _ "[]"]) (simp add: run' keep)
      qed
    qed
  qed
qed

text \<open>
  The firings of the polling job: every firing while the job is scheduled makes one
  query and counts one attempt; a conclusive answer removes the job when it confirms the
  membership or comes at the maximum, so the conclusive checks stay within the maximum.
\<close>

lemma fire_bounded:
  assumes sends: "\<And>h e. gw h (send_message chat GROUP_APPROVED_MESSAGE None None bcid) = Inl e \<Longrightarrow>
                        is_Forbidden_or_BadRequest e"
      and job: "ctx_job w = Some j" "j_data j = Some d" "\<not> j_removed j"
      and ids: "p_chat_id d = Some chat" "chat \<noteq> 0" "p_user_id d = Some user" "user \<noteq> 0"
        "p_business_connection_id d = bcid"
      and a: "p_attempt d = Some a"
  shows "\<exists>es j'. trace (fire (group_check_job SETTINGS env gw) n w) = trace w @ es \<and>
           ctx_job (fire (group_check_job SETTINGS env gw) n w) = Some j' \<and>
           j_data j' =
             Some (d\<lparr>p_attempt := Some (a + int (refused_checks es + conclusive_checks es))\<rparr>) \<and>
           int (conclusive_checks es) \<le> max 1 (GROUP_CHECK_MAX_ATTEMPTS - a) \<and>
           (\<not> j_removed j' \<longrightarrow>
              refused_checks es + conclusive_checks es = n \<and>
              int (conclusive_checks es) < max 1 (GROUP_CHECK_MAX_ATTEMPTS - a))"
  using job ids a
proof (induction n arbitrary: w j d a)
  case 0
  have "d\<lparr>p_attempt := Some a\<rparr> = d"
    using "0.prems"(9) by (cases d) simp
  with "0.prems" show ?case
    by (intro exI [of _ "[]"] exI [of _ j]) (simp add: less_max_iff_disj le_max_iff_disj)
next
  case (Suc n)
  let ?J = "group_check_job SETTINGS env gw"
  let ?q = "get_chat_member (group_id SETTINGS) user"
  let ?ans = "gw (trace w) ?q"
  let ?rem = "\<not> refused ?ans \<and> (confirms ?ans \<or> GROUP_CHECK_MAX_ATTEMPTS \<le> a + 1)"
  let ?d1 = "d\<lparr>p_attempt := Some (a + 1)\<rparr>"
  let ?j2 = "j\<lparr>j_data := Some ?d1, j_removed := ?rem\<rparr>"
  have sends': "\<And>h e. gw h (send_message chat GROUP_APPROVED_MESSAGE None None
                            (p_business_connection_id d)) = Inl e \<Longrightarrow>
                      is_Forbidden_or_BadRequest e"
    using sends Suc.prems(8) by simp
  have "\<exists>es1. snd (?J w) =
        w\<lparr>ctx_job := Some ?j2, trace := trace w @ Call ?q ?ans # es1\<rparr> \<and>
        list_all (\<lambda>e. \<forall>c r. e = Call c r \<longrightarrow> \<not> membership_check c) es1"
    by (rule group_check_step [OF Suc.prems(1-7) Suc.prems(9) _ refl]) (rule sends')
  then obtain es1 where step: "snd (?J w) =
        w\<lparr>ctx_job := Some ?j2, trace := trace w @ Call ?q ?ans # es1\<rparr>"
      and quiet: "list_all (\<lambda>e. \<forall>c r. e = Call c r \<longrightarrow> \<not> membership_check c) es1"
    by blast
  let ?w2 = "w\<lparr>ctx_job := Some ?j2, trace := trace w @ Call ?q ?ans # es1\<rparr>"
  have f: "fire ?J (Suc n) w = fire ?J n ?w2"
    using Suc.prems(1,3) step by simp
  note none = no_checks [OF quiet]
  show ?case
  proof (cases ?rem)
    case True
    have "fire ?J n ?w2 = ?w2"
      by (rule fire_removed [of _ ?j2]) (use True in simp_all)
    with True show ?thesis
      unfolding f
      by (intro exI [of _ "Call ?q ?ans # es1"] exI [of _ ?j2]) (simp add: none)
  next
    case False
    have "\<exists>es j'. trace (fire ?J n ?w2) = trace ?w2 @ es \<and>
           ctx_job (fire ?J n ?w2) = Some j' \<and>
           j_data j' =
             Some (?d1\<lparr>p_attempt := Some (a + 1 + int (refused_checks es + conclusive_checks es))\<rparr>) \<and>
           int (conclusive_checks es) \<le> max 1 (GROUP_CHECK_MAX_ATTEMPTS - (a + 1)) \<and>
           (\<not> j_removed j' \<longrightarrow>
              refused_checks es + conclusive_checks es = n \<and>
              int (conclusive_checks es) < max 1 (GROUP_CHECK_MAX_ATTEMPTS - (a + 1)))"
      by (rule Suc.IH [of ?w2 ?j2 ?d1 "a + 1"]) (use Suc.prems False in simp_all)
    then obtain es j' where ih:
        "trace (fire ?J n ?w2) = trace ?w2 @ es"
        "ctx_job (fire ?J n ?w2) = Some j'"
        "j_data j' =
           Some (d\<lparr>p_attempt := Some (a + 1 + int (refused_checks es + conclusive_checks es))\<rparr>)"
        "int (conclusive_checks es) \<le> max 1 (GROUP_CHECK_MAX_ATTEMPTS - (a + 1))"
        "\<not> j_removed j' \<longrightarrow>
           refused_checks es + conclusive_checks es = n \<and>
           int (conclusive_checks es) < max 1 (GROUP_CHECK_MAX_ATTEMPTS - (a + 1))"
      by auto
    let ?es = "Call ?q ?ans # es1 @ es"
    have tr: "trace (fire ?J n ?w2) = trace w @ ?es"
      using ih(1) by simp
    show ?thesis
    proof (cases "refused ?ans")
      case True
      then have counts: "refused_checks ?es = 1 + refused_checks es"
          "conclusive_checks ?es = conclusive_checks es"
        by (simp_all add: none)
      have att: "a + 1 + int (refused_checks es + conclusive_checks es) =
                 a + int (refused_checks ?es + conclusive_checks ?es)"
        unfolding counts by simp
      have b1: "int (conclusive_checks ?es) \<le> max 1 (GROUP_CHECK_MAX_ATTEMPTS - a)"
        unfolding counts using ih(4) by arith
      have b2: "\<not> j_removed j' \<longrightarrow>
                  refused_checks ?es + conclusive_checks ?es = Suc n \<and>
                  int (conclusive_checks ?es) < max 1 (GROUP_CHECK_MAX_ATTEMPTS - a)"
        unfolding counts using ih(5) by arith
      from tr ih(2) ih(3) [unfolded att] b1 b2 show ?thesis
        unfolding f by blast
    next
      case conclusive: False
      with False have below: "a + 1 < GROUP_CHECK_MAX_ATTEMPTS"
        by auto
      from conclusive have counts: "refused_checks ?es = refused_checks es"
          "conclusive_checks ?es = 1 + conclusive_checks es"
        by (simp_all add: none)
      have att: "a + 1 + int (refused_checks es + conclusive_checks es) =
                 a + int (refused_checks ?es + conclusive_checks ?es)"
        unfolding counts by simp
      have b1: "int (conclusive_checks ?es) \<le> max 1 (GROUP_CHECK_MAX_ATTEMPTS - a)"
        unfolding counts using ih(4) below by arith
      have b2: "\<not> j_removed j' \<longrightarrow>
                  refused_checks ?es + conclusive_checks ?es = Suc n \<and>
                  int (conclusive_checks ?es) < max 1 (GROUP_CHECK_MAX_ATTEMPTS - a)"
        unfolding counts using ih(5) below by arith
      from tr ih(2) ih(3) [unfolded att] b1 b2 show ?thesis
        unfolding f by blast
    qed
  qed
qed

section \<open>The inbound handler\<close>

lemma handler_ignores:
  "\<not> admissible u \<Longrightarrow> handle_text_message gw u w = (Inr (), w)"
  by (auto simp: handle_text_message_def admissible_def split: option.splits)

lemma handler_already_dispatched:
  "chat_of u = Some c \<Longrightarrow> already_dispatched w c \<Longrightarrow> handle_text_message gw u w = (Inr (), w)"
  by (auto simp: handle_text_message_def chat_of_def Let_def split: option.splits)

lemma handler_schedules:
  assumes "admissible u" "chat_of u = Some c" "\<not> already_dispatched w c" "job_queue w = Some js"
  shows "handle_text_message gw u w =
           (Inr (), (admitted w c (bcid_of u))\<lparr>job_queue := Some (js @ [combo_job_of u])\<rparr>)"
  using assms
  by (auto simp: handle_text_message_def admissible_def chat_of_def bcid_of_def admitted_def
        combo_job_of_def Let_def run_once_def add_job_def
        split: option.splits)

lemma handler_without_queue:
  assumes "admissible u" "chat_of u = Some c" "\<not> already_dispatched w c" "job_queue w = None"
      and "effective_message u = Some msg"
  shows "handle_text_message gw u w =
           io_seq (emit (Sleep AUTO_REPLY_DELAY_SECONDS))
             (discard (safe_reply_text gw msg
                (Literal ''Hi, sorry for the delay. I'll send everything.'') None None))
             (admitted w c (bcid_of u))"
  using assms
  by (auto simp: handle_text_message_def admissible_def chat_of_def bcid_of_def admitted_def
        Let_def split: option.splits)

lemma already_dispatched_admitted [simp]: "already_dispatched (admitted w c b) c"
  by (simp add: already_dispatched_def admitted_def Let_def)

lemma already_dispatched_admitted_other:
  "already_dispatched w c \<Longrightarrow> already_dispatched (admitted w c' b) c"
  by (auto simp: already_dispatched_def admitted_def Let_def)

lemma handle_all_dispatched:
  assumes "\<forall>u \<in> set us. chat_of u = Some c" and "already_dispatched w c"
  shows "handle_all gw us w = w"
  using assms by (induction us) (simp_all add: handler_already_dispatched)

lemma combo_jobs_added:
  assumes "chat_of u = Some c" "job_queue w = Some js"
  shows "combo_jobs c ((admitted w c b)\<lparr>job_queue := Some (js @ [combo_job_of u])\<rparr>) =
           combo_jobs c w @ [combo_job_of u]"
  using assms by (simp add: combo_jobs_def scheduled_def combo_job_of_def)

lemma only_emits_safe_reply_text:
  "only_emits (\<lambda>_. True) (safe_reply_text gw msg txt parse_mode reply_markup)"
  unfolding safe_reply_text_def reply_fallback_def Let_def returning_def
  by (intro only_emits_try only_emits_bind only_emits_call only_emits_return)
     (auto simp: only_emits_swallow returning_def
        intro!: only_emits_try only_emits_bind only_emits_call only_emits_return
        split: exn.splits)

lemma safe_reply_text_calls:
  assumes run: "safe_reply_text gw msg txt parse_mode reply_markup w = (r, w')"
      and R: "R = reply_text (m_chat_id msg) (m_message_id msg) txt parse_mode reply_markup
                    (m_business_connection_id msg)"
  shows "\<exists>es. w' = w\<lparr>trace := trace w @ es\<rparr> \<and> list_all (\<lambda>e. \<forall>n. e \<noteq> Sleep n) es \<and>
           (calls_of es = [(R, gw (trace w) R)] \<or>
            (\<exists>s chat_id b. calls_of es =
               [(R, Inl (TypeError s)),
                (send_message chat_id txt parse_mode reply_markup (m_business_connection_id msg),
                 b)]))"
proof (cases "gw (trace w) R")
  case (Inr m)
  with run have "w' = w\<lparr>trace := trace w @ [Call R (Inr m)]\<rparr>"
    by (simp add: safe_reply_text_def R io_try_def returning_call_run)
  with Inr show ?thesis
    by (intro exI [of _ "[Call R (Inr m)]"]) simp
next
  case (Inl e)
  let ?w1 = "w\<lparr>trace := trace w @ [Call R (Inl e)]\<rparr>"
  show ?thesis
  proof (cases e)
    case (TypeError s)
    let ?cid = "if truthy_int (m_chat_id msg) then m_chat_id msg
                else (case m_chat msg of None \<Rightarrow> None | Some c \<Rightarrow> c_id c)"
    from run Inl TypeError
    have fb: "reply_fallback gw msg txt parse_mode reply_markup ?w1 = (r, w')"
      by (simp add: safe_reply_text_def R io_try_def returning_call_run)
    show ?thesis
    proof (cases "m_has_bot msg \<and> ?cid \<noteq> None")
      case True
      let ?S = "send_message (the ?cid) txt parse_mode reply_markup (m_business_connection_id msg)"
      from fb True have "w' = ?w1\<lparr>trace := trace ?w1 @ [Call ?S (gw (trace ?w1) ?S)]\<rparr>"
        by (cases "gw (trace ?w1) ?S")
           (auto simp: reply_fallback_def Let_def io_try_def returning_call_run)
      then have "w' = w\<lparr>trace := trace w @ [Call R (Inl e), Call ?S (gw (trace ?w1) ?S)]\<rparr>"
        by simp
      then show ?thesis
        using TypeError
        by (intro exI [of _ "[Call R (Inl e), Call ?S (gw (trace ?w1) ?S)]"]) auto
    next
      case False
      with fb have "w' = ?w1"
        by (auto simp: reply_fallback_def Let_def io_try_def)
      with Inl show ?thesis
        by (intro exI [of _ "[Call R (Inl e)]"]) simp
    qed
  next
    case (Forbidden s)
    with run Inl have "w' = w\<lparr>trace := trace w @ Call R (Inl e) #
        (if mentions_blocking e then [Print (user_blocked (map_option u_id (m_from_user msg)))]
         else [])\<rparr>"
      by (simp add: safe_reply_text_def R io_try_def returning_call_run swallow_run)
    with Inl show ?thesis
      by (intro exI [of _ "Call R (Inl e) #
        (if mentions_blocking e then [Print (user_blocked (map_option u_id (m_from_user msg)))]
         else [])"]) simp
  next
    case (BadRequest s)
    with run Inl have "w' = w\<lparr>trace := trace w @ Call R (Inl e) #
        (if mentions_blocking e then [Print (user_blocked (map_option u_id (m_from_user msg)))]
         else [])\<rparr>"
      by (simp add: safe_reply_text_def R io_try_def returning_call_run swallow_run)
    with Inl show ?thesis
      by (intro exI [of _ "Call R (Inl e) #
        (if mentions_blocking e then [Print (user_blocked (map_option u_id (m_from_user msg)))]
         else [])"]) simp
  next
    case (OtherError s)
    with run Inl have "w' = ?w1"
      by (simp add: safe_reply_text_def R io_try_def returning_call_run swallow_run)
    with Inl show ?thesis
      by (intro exI [of _ "[Call R (Inl e)]"]) simp
  qed
qed

text \<open>What one inbound update can do to the state.\<close>

lemma handler_effect:
  obtains (nothing) "snd (handle_text_message gw u w) = w"
  | (replied) c b es where "job_queue w = None"
      and "snd (handle_text_message gw u w) = (admitted w c b)\<lparr>trace := trace w @ es\<rparr>"
  | (scheduled) c b js j where "job_queue w = Some js"
      and "snd (handle_text_message gw u w) = (admitted w c b)\<lparr>job_queue := Some (js @ [j])\<rparr>"
proof (cases "admissible u")
  case False
  show ?thesis by (rule nothing) (use False in \<open>simp add: handler_ignores\<close>)
next
  case True
  then obtain c msg where c: "chat_of u = Some c" and msg: "effective_message u = Some msg"
    by (auto simp: admissible_def chat_of_def split: option.splits)
  show ?thesis
  proof (cases "already_dispatched w c")
    case True
    show ?thesis by (rule nothing) (use c True in \<open>simp add: handler_already_dispatched\<close>)
  next
    case fresh: False
    show ?thesis
    proof (cases "job_queue w")
      case (Some js)
      show ?thesis
        by (rule scheduled [where js = js and c = c and b = "bcid_of u" and j = "combo_job_of u"])
           (use handler_schedules [OF True c fresh Some, of gw] Some in simp_all)
    next
      case None
      let ?m = "io_seq (emit (Sleep AUTO_REPLY_DELAY_SECONDS))
             (discard (safe_reply_text gw msg
                (Literal ''Hi, sorry for the delay. I'll send everything.'') None None))"
      have "only_emits (\<lambda>_. True) ?m"
        by (intro only_emits_seq only_emits_emit only_emits_discard only_emits_safe_reply_text)
           simp
      then obtain es where "snd (?m (admitted w c (bcid_of u))) =
          (admitted w c (bcid_of u))\<lparr>trace := trace (admitted w c (bcid_of u)) @ es\<rparr>"
        unfolding only_emits_def by blast
      then show ?thesis
        using handler_without_queue [OF True c fresh None msg, of gw] None
        by (intro replied [where c = c and b = "bcid_of u" and es = es])
           (simp_all add: admitted_def Let_def)
    qed
  qed
qed

lemma handler_keeps_flag:
  "already_dispatched w c \<Longrightarrow> already_dispatched (snd (handle_text_message gw u w)) c"
  by (cases rule: handler_effect [of gw u w])
     (auto simp: already_dispatched_def admitted_def Let_def)

lemma handler_keeps_no_queue:
  "job_queue w = None \<Longrightarrow> job_queue (snd (handle_text_message gw u w)) = None"
  by (cases rule: handler_effect [of gw u w]) (auto simp: admitted_def Let_def)

lemma handle_all_keeps:
  "already_dispatched w c \<Longrightarrow> already_dispatched (handle_all gw us w) c"
  "job_queue w = None \<Longrightarrow> job_queue (handle_all gw us w) = None"
  by (induction us arbitrary: w) (simp_all add: handler_keeps_flag handler_keeps_no_queue)

section \<open>Startup configuration\<close>

lemma load_settings_fails:
  "isl (load_settings py_int env) \<longleftrightarrow>
     \<not> truthy_str (env ''TELEGRAM_BOT_TOKEN'') \<or> \<not> truthy_str (env ''ID_DO_GRUPO'') \<or>
     py_int (or_empty (env ''ID_DO_GRUPO'')) = None"
  by (auto simp: load_settings_def getenv_def truthy_str_def or_empty_def Let_def
           split: option.splits)

lemma load_settings_ignores_assets:
  "k \<in> set asset_names \<Longrightarrow> load_settings py_int (env(k := None)) = load_settings py_int env"
  by (auto simp: load_settings_def getenv_def asset_names_def)

text \<open>
  C8. Startup configuration loading fails exactly when the bot credential is absent, the
  group identifier is absent, or the group identifier does not parse as an integer, where
  absent is what the code tests: the variable is unset or empty. When both are present and
  the group identifier parses, loading returns the settings holding that token and that
  integer. No content asset matters: unsetting any of them changes nothing of the result,
  and reading them cannot fail.
\<close>

theorem load_settings_startup:
  "(isl (load_settings py_int env) \<longleftrightarrow>
      env ''TELEGRAM_BOT_TOKEN'' = None \<or> env ''TELEGRAM_BOT_TOKEN'' = Some [] \<or>
      env ''ID_DO_GRUPO'' = None \<or> env ''ID_DO_GRUPO'' = Some [] \<or>
      (\<exists>raw. env ''ID_DO_GRUPO'' = Some raw \<and> py_int raw = None)) \<and>
   isl (module_init py_int env) = isl (load_settings py_int env) \<and>
   (\<forall>t raw g. env ''TELEGRAM_BOT_TOKEN'' = Some t \<and> t \<noteq> [] \<and>
        env ''ID_DO_GRUPO'' = Some raw \<and> raw \<noteq> [] \<and> py_int raw = Some g \<longrightarrow>
        load_settings py_int env = Inr \<lparr>token = t, group_id = g\<rparr> \<and>
        module_init py_int env = Inr (\<lparr>token = t, group_id = g\<rparr>, map env asset_names)) \<and>
   (\<forall>k \<in> set asset_names.
        load_settings py_int (env(k := None)) = load_settings py_int env \<and>
        isl (module_init py_int (env(k := None))) = isl (module_init py_int env))"
proof (intro conjI allI impI ballI)
  show "isl (load_settings py_int env) \<longleftrightarrow>
      env ''TELEGRAM_BOT_TOKEN'' = None \<or> env ''TELEGRAM_BOT_TOKEN'' = Some [] \<or>
      env ''ID_DO_GRUPO'' = None \<or> env ''ID_DO_GRUPO'' = Some [] \<or>
      (\<exists>raw. env ''ID_DO_GRUPO'' = Some raw \<and> py_int raw = None)"
    unfolding load_settings_fails
    by (cases "env ''TELEGRAM_BOT_TOKEN''"; cases "env ''ID_DO_GRUPO''")
       (auto simp: truthy_str_def or_empty_def)
next
  show "isl (module_init py_int env) = isl (load_settings py_int env)"
    by (simp add: module_init_def split: sum.splits)
next
  fix t raw g
  assume a: "env ''TELEGRAM_BOT_TOKEN'' = Some t \<and> t \<noteq> [] \<and>
        env ''ID_DO_GRUPO'' = Some raw \<and> raw \<noteq> [] \<and> py_int raw = Some g"
  then show ls: "load_settings py_int env = Inr \<lparr>token = t, group_id = g\<rparr>"
    by (simp add: load_settings_def getenv_def or_empty_def)
  show "module_init py_int env = Inr (\<lparr>token = t, group_id = g\<rparr>, map env asset_names)"
    using ls by (simp add: module_init_def getenv_def [abs_def])
next
  fix k assume k: "k \<in> set asset_names"
  then show "load_settings py_int (env(k := None)) = load_settings py_int env"
    by (rule load_settings_ignores_assets)
  then show "isl (module_init py_int (env(k := None))) = isl (module_init py_int env)"
    by (simp add: module_init_def split: sum.splits)
qed


theorem load_settings_startup_witness:
  "load_settings decimal example_env = Inr \<lparr>token = ''123:abc'', group_id = - 1001234567890\<rparr> \<and>
   module_init decimal example_env =
     Inr (\<lparr>token = ''123:abc'', group_id = - 1001234567890\<rparr>, map example_env asset_names) \<and>
   load_settings decimal (example_env(''AUDIO_ENTREGA_COMBO'' := None)) =
     load_settings decimal example_env"
proof -
  have e: "example_env ''TELEGRAM_BOT_TOKEN'' = Some ''123:abc''"
    "example_env ''ID_DO_GRUPO'' = Some ''-1001234567890''"
    by (simp_all add: example_env_def)
  have d: "decimal ''-1001234567890'' = Some (- 1001234567890)"
    by (simp add: decimal_def digit_val_def)
  have k: "''AUDIO_ENTREGA_COMBO'' \<in> set asset_names"
    by (simp add: asset_names_def)
  from load_settings_startup [of decimal example_env] e d k show ?thesis
    by blast
qed

section \<open>Delivery failures in the send helpers\<close>

text \<open>
  C6. When the gateway answers the call of a send helper (text, photo, video, audio, media
  group) with \<open>Forbidden\<close> or \<open>BadRequest\<close>, the helper returns \<open>None\<close> and raises
  nothing; all it leaves behind is the call in the trace and, when the text of the error
  mentions a blocked or deactivated user or a chat not found, the printed line. So a
  funnel stage run against a gateway that fails only in this way never raises: it runs
  past every failed step to its end.
\<close>

theorem safe_send_swallows_delivery_failure:
  assumes "is_Forbidden_or_BadRequest exc"
  shows
  "(gw (trace w) (send_message chat_id txt parse_mode reply_markup bcid) = Inl exc \<longrightarrow>
      safe_send_message gw chat_id user_id txt parse_mode reply_markup bcid w =
        (Inr None,
         w\<lparr>trace := trace w @
              Call (send_message chat_id txt parse_mode reply_markup bcid) (Inl exc) #
              (if mentions_blocking exc then [Print (user_blocked user_id)] else [])\<rparr>)) \<and>
   (gw (trace w) (send_photo chat_id photo caption parse_mode bcid) = Inl exc \<longrightarrow>
      safe_send_photo gw chat_id user_id photo caption parse_mode bcid w =
        (Inr None,
         w\<lparr>trace := trace w @
              Call (send_photo chat_id photo caption parse_mode bcid) (Inl exc) #
              (if mentions_blocking exc then [Print (user_blocked user_id)] else [])\<rparr>)) \<and>
   (gw (trace w) (send_video chat_id video caption parse_mode bcid) = Inl exc \<longrightarrow>
      safe_send_video gw chat_id user_id video caption parse_mode bcid w =
        (Inr None,
         w\<lparr>trace := trace w @
              Call (send_video chat_id video caption parse_mode bcid) (Inl exc) #
              (if mentions_blocking exc then [Print (user_blocked user_id)] else [])\<rparr>)) \<and>
   (gw (trace w) (send_audio chat_id audio caption parse_mode bcid) = Inl exc \<longrightarrow>
      safe_send_audio gw chat_id user_id audio caption parse_mode bcid w =
        (Inr None,
         w\<lparr>trace := trace w @
              Call (send_audio chat_id audio caption parse_mode bcid) (Inl exc) #
              (if mentions_blocking exc then [Print (user_blocked user_id)] else [])\<rparr>)) \<and>
   (gw (trace w) (send_media_group chat_id media bcid) = Inl exc \<longrightarrow>
      safe_send_media_group gw chat_id user_id media bcid w =
        (Inr None,
         w\<lparr>trace := trace w @
              Call (send_media_group chat_id media bcid) (Inl exc) #
              (if mentions_blocking exc then [Print (user_blocked user_id)] else [])\<rparr>)) \<and>
   (classifiable_only gw \<longrightarrow>
      returns (combo_delivery_beatriz_job SETTINGS env gw) \<and>
      returns (upsell_sequence_job SETTINGS env gw) \<and>
      returns (group_check_job SETTINGS env gw))"
  using assms
  by (simp add: safe_send_message_def safe_send_photo_def safe_send_video_def
        safe_send_audio_def safe_send_media_group_def guarded_call_run
        returns_combo returns_upsell returns_group_check)

lemma mentions_blocking_blocked: "mentions_blocking blocked"
  by (simp add: mentions_blocking_def blocked_def lower_char_def)

lemma classifiable_only_gw_blocked: "classifiable_only gw_blocked"
  by (simp add: classifiable_only_def gw_blocked_def blocked_def)

theorem safe_send_swallows_delivery_failure_witness:
  "safe_send_message gw_blocked 5 (Some 7) (Literal ''hi'') None None None (initial_world True) =
     (Inr None,
      (initial_world True)\<lparr>trace :=
         [Call (send_message 5 (Literal ''hi'') None None None) (Inl blocked),
          Print (user_blocked (Some 7))]\<rparr>) \<and>
   fst (safe_send_photo gw_blocked 5 (Some 7) ''photo-1'' None None None (initial_world True)) =
     Inr None \<and>
   fst (safe_send_video gw_blocked 5 (Some 7) ''video-1'' None None None (initial_world True)) =
     Inr None \<and>
   fst (safe_send_audio gw_blocked 5 (Some 7) (Str ''audio-1'') None None None
          (initial_world True)) = Inr None \<and>
   fst (safe_send_media_group gw_blocked 5 (Some 7)
          [InputMediaPhoto ''photo-1'', InputMediaPhoto ''photo-2''] None (initial_world True)) =
     Inr None \<and>
   returns (combo_delivery_beatriz_job example_settings example_env gw_blocked)"
proof -
  have fb: "is_Forbidden_or_BadRequest blocked"
    by (simp add: blocked_def)
  have tr: "trace (initial_world True) = []"
    by (simp add: initial_world_def)
  have gw: "gw_blocked (trace (initial_world True)) c = Inl blocked" for c
    by (simp add: gw_blocked_def)
  from safe_send_swallows_delivery_failure
         [OF fb, of gw_blocked "initial_world True" 5 "Literal ''hi''" None None None "Some 7"
            "''photo-1''" None "''video-1''" "Str ''audio-1''"
            "[InputMediaPhoto ''photo-1'', InputMediaPhoto ''photo-2'']"
            example_settings example_env]
       gw classifiable_only_gw_blocked mentions_blocking_blocked tr
  show ?thesis by simp
qed

section \<open>The voice fallback chain\<close>

text \<open>
  C5. The gateway calls of a run of \<open>_safe_send_voice_prefer\<close>, in order and with their
  outcomes, are exactly these. (a) The native \<open>send_voice\<close> comes first; when it succeeds,
  or fails with anything but \<open>Forbidden\<close> or \<open>BadRequest\<close>, it is the only call and its
  outcome is the helper's. (b) When it fails with \<open>Forbidden\<close> or \<open>BadRequest\<close> and the
  voice is a string, the second call is \<open>get_file\<close> of that string, and when that gives a
  non-empty file path the third call is \<open>send_voice\<close> with the file's URL; a retry that
  succeeds is the last call and its message is the helper's result. Raw bytes skip both
  calls of (b). (c) In every remaining case (bytes, \<open>get_file\<close> raised, no file path, the
  retry raised) exactly one \<open>send_audio\<close> with the same content follows as the last call,
  and the helper returns its message when it succeeds, \<open>None\<close> when it fails with
  \<open>Forbidden\<close> or \<open>BadRequest\<close>, and raises what it raised otherwise. No call is made
  twice, and the helper changes nothing but the trace.
\<close>

theorem voice_fallback_chain:
  assumes run: "safe_send_voice_prefer SETTINGS gw chat_id user_id voice caption parse_mode bcid w
                  = (res, w')"
      and V: "V = send_voice chat_id voice caption parse_mode bcid"
      and A: "A = send_audio chat_id voice caption parse_mode bcid"
      and U: "U = (\<lambda>p. send_voice chat_id (Str (file_url SETTINGS p)) caption parse_mode bcid)"
      and cs: "cs = calls_of (new_events w w')"
      and a1: "a1 = gw (trace w) V"
      and h1: "h1 = trace w @ [Call V a1]"
      and outcome: "outcome = (\<lambda>a. case a of
                                  Inr m \<Rightarrow> Inr (Some m)
                                | Inl x \<Rightarrow> if is_Forbidden_or_BadRequest x then Inr None else Inl x)"
  shows
   "w' = w\<lparr>trace := trace w @ new_events w w'\<rparr> \<and>
    (\<forall>m. a1 = Inr m \<longrightarrow> cs = [(V, a1)] \<and> res = Inr (Some m)) \<and>
    (\<forall>e. a1 = Inl e \<and> \<not> is_Forbidden_or_BadRequest e \<longrightarrow> cs = [(V, a1)] \<and> res = Inl e) \<and>
    (\<forall>e b. a1 = Inl e \<and> is_Forbidden_or_BadRequest e \<and> voice = Bytes b \<longrightarrow>
       cs = [(V, a1), (A, gw h1 A)] \<and> res = outcome (gw h1 A)) \<and>
    (\<forall>e h g h2.
       a1 = Inl e \<and> is_Forbidden_or_BadRequest e \<and> voice = Str h \<and>
       g = gw h1 (get_file h) \<and> h2 = h1 @ [Call (get_file h) g] \<longrightarrow>
         (\<forall>x. g = Inl x \<longrightarrow>
            cs = [(V, a1), (get_file h, g), (A, gw h2 A)] \<and> res = outcome (gw h2 A)) \<and>
         (\<forall>f. g = Inr f \<and> \<not> truthy_str (file_path_attr f) \<longrightarrow>
            cs = [(V, a1), (get_file h, g), (A, gw h2 A)] \<and> res = outcome (gw h2 A)) \<and>
         (\<forall>f p u h3.
            g = Inr f \<and> file_path_attr f = Some p \<and> p \<noteq> [] \<and>
            u = gw h2 (U p) \<and> h3 = h2 @ [Call (U p) u] \<longrightarrow>
              (\<forall>m. u = Inr m \<longrightarrow>
                 cs = [(V, a1), (get_file h, g), (U p, u)] \<and> res = Inr (Some m)) \<and>
              (\<forall>x. u = Inl x \<longrightarrow>
                 cs = [(V, a1), (get_file h, g), (U p, u), (A, gw h3 A)] \<and>
                 res = outcome (gw h3 A))))"
proof -
  note run_defs = safe_send_voice_prefer_run voice_retry_run guarded_call_run Let_def
  let ?V = "send_voice chat_id voice caption parse_mode bcid"
  show ?thesis
  proof (cases "gw (trace w) ?V")
    case (Inr r)
    with run show ?thesis
      unfolding V A U cs a1 h1 outcome by (auto simp: run_defs)
  next
    case first: (Inl e)
    show ?thesis
    proof (cases "is_Forbidden_or_BadRequest e")
      case False
      with first run show ?thesis
        unfolding V A U cs a1 h1 outcome by (auto simp: run_defs)
    next
      case fb: True
      show ?thesis
      proof (cases voice)
        case (Bytes b)
        with fb first run show ?thesis
          unfolding V A U cs a1 h1 outcome
          by (auto simp: run_defs split: sum.splits if_splits)
      next
        case (Str h)
        let ?h1 = "trace w @ [Call (send_voice chat_id (Str h) caption parse_mode bcid) (Inl e)]"
        show ?thesis
        proof (cases "gw ?h1 (get_file h)")
          case (Inl e1)
          with Str fb first run show ?thesis
            unfolding V A U cs a1 h1 outcome
            by (auto simp: run_defs split: sum.splits if_splits)
        next
          case resolved: (Inr f)
          show ?thesis
          proof (cases "truthy_str (file_path_attr f)")
            case False
            with resolved Str fb first run show ?thesis
              unfolding V A U cs a1 h1 outcome
              by (auto simp: run_defs truthy_str_def split: sum.splits if_splits)
          next
            case True
            then obtain p where p: "file_path_attr f = Some p" "p \<noteq> []"
              by (auto simp: truthy_str_def split: option.splits)
            let ?VU = "send_voice chat_id (Str (file_url SETTINGS p)) caption parse_mode bcid"
            show ?thesis
            proof (cases "gw (?h1 @ [Call (get_file h) (Inr f)]) ?VU")
              case (Inr r)
              with True p resolved Str fb first run show ?thesis
                unfolding V A U cs a1 h1 outcome by (auto simp: run_defs)
            next
              case (Inl e2)
              with True p resolved Str fb first run show ?thesis
                unfolding V A U cs a1 h1 outcome
                by (auto simp: run_defs split: sum.splits if_splits)
            qed
          qed
        qed
      qed
    qed
  qed
qed

theorem voice_fallback_chain_witness:
  "calls_of (new_events (initial_world True)
      (snd (safe_send_voice_prefer example_settings gw_no_voice 5 (Some 7)
              (Str ''AwACAgEAAxkBAAI'') None None None (initial_world True)))) =
     [(send_voice 5 (Str ''AwACAgEAAxkBAAI'') None None None,
         Inl (BadRequest ''Voice_messages_forbidden'')),
      (get_file ''AwACAgEAAxkBAAI'', Inr (File (Some ''/voice/file_1.oga''))),
      (send_voice 5 (Str ''https://api.telegram.org/file/bot123:abc/voice/file_1.oga'')
         None None None,
         Inl (BadRequest ''Voice_messages_forbidden'')),
      (send_audio 5 (Str ''AwACAgEAAxkBAAI'') None None None, Inr (Message 1))] \<and>
   fst (safe_send_voice_prefer example_settings gw_no_voice 5 (Some 7)
          (Str ''AwACAgEAAxkBAAI'') None None None (initial_world True)) =
     Inr (Some (Message 1)) \<and>
   calls_of (new_events (initial_world True)
      (snd (safe_send_voice_prefer example_settings gw_voice_by_url 5 (Some 7)
              (Str ''AwACAgEAAxkBAAI'') None None None (initial_world True)))) =
     [(send_voice 5 (Str ''AwACAgEAAxkBAAI'') None None None,
         Inl (BadRequest ''Voice_messages_forbidden'')),
      (get_file ''AwACAgEAAxkBAAI'', Inr (File (Some ''voice/file_1.oga''))),
      (send_voice 5 (Str ''https://api.telegram.org/file/bot123:abc/voice/file_1.oga'')
         None None None,
         Inr (Message 2))] \<and>
   fst (safe_send_voice_prefer example_settings gw_voice_by_url 5 (Some 7)
          (Str ''AwACAgEAAxkBAAI'') None None None (initial_world True)) =
     Inr (Some (Message 2)) \<and>
   calls_of (new_events (initial_world True)
      (snd (safe_send_voice_prefer example_settings gw_voice_by_url 5 (Some 7)
              (Bytes [79, 103, 103, 83]) None None None (initial_world True)))) =
     [(send_voice 5 (Bytes [79, 103, 103, 83]) None None None,
         Inl (BadRequest ''Voice_messages_forbidden'')),
      (send_audio 5 (Bytes [79, 103, 103, 83]) None None None, Inr (Message 1))]"
proof -
  have tr: "trace (initial_world True) = []"
    by (simp add: initial_world_def)
  note ev = tr truthy_str_def file_url_def example_settings_def
  have refused: "calls_of (new_events (initial_world True)
      (snd (safe_send_voice_prefer example_settings gw_no_voice 5 (Some 7)
              (Str ''AwACAgEAAxkBAAI'') None None None (initial_world True)))) =
     [(send_voice 5 (Str ''AwACAgEAAxkBAAI'') None None None,
         Inl (BadRequest ''Voice_messages_forbidden'')),
      (get_file ''AwACAgEAAxkBAAI'', Inr (File (Some ''/voice/file_1.oga''))),
      (send_voice 5 (Str ''https://api.telegram.org/file/bot123:abc/voice/file_1.oga'')
         None None None,
         Inl (BadRequest ''Voice_messages_forbidden'')),
      (send_audio 5 (Str ''AwACAgEAAxkBAAI'') None None None, Inr (Message 1))] \<and>
   fst (safe_send_voice_prefer example_settings gw_no_voice 5 (Some 7)
          (Str ''AwACAgEAAxkBAAI'') None None None (initial_world True)) =
     Inr (Some (Message 1))"
    using voice_fallback_chain
            [where gw = gw_no_voice and SETTINGS = example_settings
               and w = "initial_world True" and voice = "Str ''AwACAgEAAxkBAAI''",
             OF prod.collapse [symmetric] refl refl refl refl refl refl refl]
    by (simp add: ev gw_no_voice_def)
  have by_url: "calls_of (new_events (initial_world True)
      (snd (safe_send_voice_prefer example_settings gw_voice_by_url 5 (Some 7)
              (Str ''AwACAgEAAxkBAAI'') None None None (initial_world True)))) =
     [(send_voice 5 (Str ''AwACAgEAAxkBAAI'') None None None,
         Inl (BadRequest ''Voice_messages_forbidden'')),
      (get_file ''AwACAgEAAxkBAAI'', Inr (File (Some ''voice/file_1.oga''))),
      (send_voice 5 (Str ''https://api.telegram.org/file/bot123:abc/voice/file_1.oga'')
         None None None,
         Inr (Message 2))] \<and>
   fst (safe_send_voice_prefer example_settings gw_voice_by_url 5 (Some 7)
          (Str ''AwACAgEAAxkBAAI'') None None None (initial_world True)) =
     Inr (Some (Message 2))"
    using voice_fallback_chain
            [where gw = gw_voice_by_url and SETTINGS = example_settings
               and w = "initial_world True" and voice = "Str ''AwACAgEAAxkBAAI''",
             OF prod.collapse [symmetric] refl refl refl refl refl refl refl]
    by (simp add: ev gw_voice_by_url_def)
  have bytes: "calls_of (new_events (initial_world True)
      (snd (safe_send_voice_prefer example_settings gw_voice_by_url 5 (Some 7)
              (Bytes [79, 103, 103, 83]) None None None (initial_world True)))) =
     [(send_voice 5 (Bytes [79, 103, 103, 83]) None None None,
         Inl (BadRequest ''Voice_messages_forbidden'')),
      (send_audio 5 (Bytes [79, 103, 103, 83]) None None None, Inr (Message 1))]"
    using voice_fallback_chain
            [where gw = gw_voice_by_url and SETTINGS = example_settings
               and w = "initial_world True" and voice = "Bytes [79, 103, 103, 83]",
             OF prod.collapse [symmetric] refl refl refl refl refl refl refl]
    by (simp add: ev gw_voice_by_url_def)
  from refused by_url bytes show ?thesis
    by blast
qed

section \<open>The grouping threshold of the combo delivery\<close>

text \<open>
  C4. In a run of the combo delivery job that reaches its end, with \<open>kp\<close> of the ten photo
  slots and \<open>kv\<close> of the four video slots configured (set and not empty): a photo album
  (\<open>send_media_group\<close> of photos) is sent iff \<open>kp \<ge> 2\<close>, a single photo (\<open>send_photo\<close>) iff
  \<open>kp = 1\<close>, neither iff \<open>kp = 0\<close>; and the same for the videos with \<open>send_media_group\<close> and
  \<open>send_video\<close>. Sent means that the call was made; these are the only media calls of the
  run, the photos before the videos, with all the configured assets in slot order.
\<close>

theorem combo_grouping_threshold:
  assumes data: "job_data w = Some data" "truthy_int (p_chat_id data)"
      and run: "combo_delivery_beatriz_job SETTINGS env gw w = (Inr (), w')"
      and es: "es = new_events w w'"
      and kp: "kp = length (filter truthy_str (photos_ids env))"
      and kv: "kv = length (filter truthy_str (videos_ids env))"
  shows "(list_ex photo_album es \<longleftrightarrow> 2 \<le> kp) \<and>
         (list_ex single_photo es \<longleftrightarrow> kp = 1) \<and>
         (\<not> list_ex photo_album es \<and> \<not> list_ex single_photo es \<longleftrightarrow> kp = 0) \<and>
         (list_ex video_album es \<longleftrightarrow> 2 \<le> kv) \<and>
         (list_ex single_video es \<longleftrightarrow> kv = 1) \<and>
         (\<not> list_ex video_album es \<and> \<not> list_ex single_video es \<longleftrightarrow> kv = 0) \<and>
         map fst (calls_of (filter media_event es)) =
           (if 2 \<le> kp
            then [send_media_group (the (p_chat_id data))
                    (map InputMediaPhoto (configured (photos_ids env)))
                    (p_business_connection_id data)]
            else if kp = 1
            then [send_photo (the (p_chat_id data)) (configured (photos_ids env) ! 0) None None
                    (p_business_connection_id data)]
            else []) @
           (if 2 \<le> kv
            then [send_media_group (the (p_chat_id data))
                    (map InputMediaVideo (configured (videos_ids env)))
                    (p_business_connection_id data)]
            else if kv = 1
            then [send_video (the (p_chat_id data)) (configured (videos_ids env) ! 0) None None
                    (p_business_connection_id data)]
            else [])"
proof -
  let ?ps = "configured (photos_ids env)" and ?vs = "configured (videos_ids env)"
  have lp: "length ?ps = kp" and lv: "length ?vs = kv"
    by (simp_all add: configured_def kp kv)
  note calls = combo_media_calls [OF data run refl refl refl refl, folded es, unfolded lp lv]
  have pne: "2 \<le> kp \<Longrightarrow> list_ex is_photo (map InputMediaPhoto ?ps)"
    using lp by (cases ?ps) auto
  have vne: "2 \<le> kv \<Longrightarrow> list_ex (\<lambda>m. \<not> is_photo m) (map InputMediaVideo ?vs)"
    using lv by (cases ?vs) auto
  have pv: "\<not> list_ex is_photo (map InputMediaVideo ?vs)"
    and vp: "\<not> list_ex (\<lambda>m. \<not> is_photo m) (map InputMediaPhoto ?ps)"
    by (simp_all add: list_ex_iff)
  have pa: "list_ex photo_album es =
      list_ex (\<lambda>c. photo_album (Call c (Inr Ok))) (map fst (calls_of (filter media_event es)))"
  proof (rule list_ex_media_calls)
    show "photo_album (Call c r) = photo_album (Call c (Inr Ok))" for c r by (cases c) simp_all
    show "photo_album e \<Longrightarrow> media_event e" for e by (simp add: media_event_def)
  qed
  have sp: "list_ex single_photo es =
      list_ex (\<lambda>c. single_photo (Call c (Inr Ok))) (map fst (calls_of (filter media_event es)))"
  proof (rule list_ex_media_calls)
    show "single_photo (Call c r) = single_photo (Call c (Inr Ok))" for c r by (cases c) simp_all
    show "single_photo e \<Longrightarrow> media_event e" for e by (simp add: media_event_def)
  qed
  have va: "list_ex video_album es =
      list_ex (\<lambda>c. video_album (Call c (Inr Ok))) (map fst (calls_of (filter media_event es)))"
  proof (rule list_ex_media_calls)
    show "video_album (Call c r) = video_album (Call c (Inr Ok))" for c r by (cases c) simp_all
    show "video_album e \<Longrightarrow> media_event e" for e by (simp add: media_event_def)
  qed
  have sv: "list_ex single_video es =
      list_ex (\<lambda>c. single_video (Call c (Inr Ok))) (map fst (calls_of (filter media_event es)))"
  proof (rule list_ex_media_calls)
    show "single_video (Call c r) = single_video (Call c (Inr Ok))" for c r by (cases c) simp_all
    show "single_video e \<Longrightarrow> media_event e" for e by (simp add: media_event_def)
  qed
  have 1: "list_ex photo_album es \<longleftrightarrow> 2 \<le> kp"
    unfolding pa calls using pne pv by simp
  have 2: "list_ex single_photo es \<longleftrightarrow> kp = 1"
    unfolding sp calls by simp
  have 3: "list_ex video_album es \<longleftrightarrow> 2 \<le> kv"
    unfolding va calls using vne vp by simp
  have 4: "list_ex single_video es \<longleftrightarrow> kv = 1"
    unfolding sv calls by simp
  have 5: "(\<not> 2 \<le> kp \<and> \<not> kp = 1) = (kp = 0)" "(\<not> 2 \<le> kv \<and> \<not> kv = 1) = (kv = 0)"
    by arith+
  show ?thesis
    unfolding 1 2 3 4 5 using calls by simp
qed


lemma configured_media_env:
  "configured (photos_ids media_env) = [''photo-1'', ''photo-4'']"
  "configured (videos_ids media_env) = [''video-2'']"
  by (simp_all add: configured_def photos_ids_def videos_ids_def getenv_def media_env_def
        truthy_str_def)

theorem combo_grouping_threshold_witness:
  "list_ex photo_album
     (new_events
        (world_running combo_delivery_beatriz_job_cb (Once 30) (auto_reply_name 5 (Some 1))
           example_payload)
        (snd (combo_delivery_beatriz_job example_settings media_env gw_ok
           (world_running combo_delivery_beatriz_job_cb (Once 30) (auto_reply_name 5 (Some 1))
              example_payload)))) \<and>
   list_ex single_video
     (new_events
        (world_running combo_delivery_beatriz_job_cb (Once 30) (auto_reply_name 5 (Some 1))
           example_payload)
        (snd (combo_delivery_beatriz_job example_settings media_env gw_ok
           (world_running combo_delivery_beatriz_job_cb (Once 30) (auto_reply_name 5 (Some 1))
              example_payload)))) \<and>
   map fst (calls_of (filter media_event
     (new_events
        (world_running combo_delivery_beatriz_job_cb (Once 30) (auto_reply_name 5 (Some 1))
           example_payload)
        (snd (combo_delivery_beatriz_job example_settings media_env gw_ok
           (world_running combo_delivery_beatriz_job_cb (Once 30) (auto_reply_name 5 (Some 1))
              example_payload)))))) =
     [send_media_group 5 [InputMediaPhoto ''photo-1'', InputMediaPhoto ''photo-4''] None,
      send_video 5 ''video-2'' None None None]"
proof -
  let ?w = "world_running combo_delivery_beatriz_job_cb (Once 30) (auto_reply_name 5 (Some 1))
              example_payload"
  let ?job = "combo_delivery_beatriz_job example_settings media_env gw_ok"
  have data: "job_data ?w = Some example_payload"
    by (simp add: job_data_def world_running_def)
  have chat: "truthy_int (p_chat_id example_payload)"
    by (simp add: truthy_int_def example_payload_def)
  from returns_combo [OF classifiable_only_gw_ok]
  have "\<exists>x. fst (?job ?w) = Inr x" by (rule returns_at)
  then have run: "?job ?w = (Inr (), snd (?job ?w))"
    by (cases "?job ?w") auto
  have kp: "length (filter truthy_str (photos_ids media_env)) = 2"
    and kv: "length (filter truthy_str (videos_ids media_env)) = 1"
    by (simp_all add: photos_ids_def videos_ids_def getenv_def media_env_def truthy_str_def)
  from combo_grouping_threshold [OF data chat run refl refl refl]
  show ?thesis
    unfolding kp kv configured_media_env by (simp add: example_payload_def)
qed

section \<open>The upsell stage starts the polling\<close>

text \<open>
  C7. When the upsell job has a chat to write to, the repeating membership polling job of
  the chat (interval and first delay \<open>GROUP_CHECK_INTERVAL_SECONDS\<close>, attempt 0) is added to
  the queue exactly when the job ran to its end, the payload's \<open>user_id\<close> is truthy and a
  job queue is available; otherwise the queue is left as it was. Whenever the job ran to
  its end, with or without a user, the upsell text and the keyboard message were sent, in
  this order, and are its only text messages. Nothing else in the program schedules a
  polling job.
\<close>

theorem upsell_starts_polling:
  assumes data: "job_data w = Some data" "truthy_int (p_chat_id data)"
      and run: "upsell_sequence_job SETTINGS env gw w = (res, w')"
      and c: "chat_id = the (p_chat_id data)" "bcid = p_business_connection_id data"
      and J: "polling = \<lparr>j_callback = group_check_job_cb,
                 j_schedule = Repeating GROUP_CHECK_INTERVAL_SECONDS GROUP_CHECK_INTERVAL_SECONDS,
                 j_name = group_check_name chat_id,
                 j_data = Some \<lparr>p_chat_id = Some chat_id, p_user_id = p_user_id data,
                                p_business_connection_id = bcid, p_attempt = Some 0\<rparr>,
                 j_removed = False\<rparr>"
  shows "job_queue w' =
           (case job_queue w of
              None \<Rightarrow> None
            | Some js \<Rightarrow>
                if res = Inr () \<and> truthy_int (p_user_id data) then Some (js @ [polling])
                else Some js) \<and>
         (res = Inr () \<longrightarrow>
            map fst (calls_of (filter text_event (new_events w w'))) =
              [send_message chat_id upsell_text None None bcid,
               send_message chat_id choose_vip_text None (Some vip_keyboard) bcid])"
proof -
  let ?sends = "upsell_sends SETTINGS env gw chat_id (p_user_id data) bcid"
  let ?sched = "if_job_queue
          (if truthy_int (p_user_id data)
           then run_repeating group_check_job_cb GROUP_CHECK_INTERVAL_SECONDS
                  GROUP_CHECK_INTERVAL_SECONDS (group_check_name chat_id)
                  \<lparr>p_chat_id = Some chat_id, p_user_id = p_user_id data,
                   p_business_connection_id = bcid, p_attempt = Some 0\<rparr>
           else io_return ())"
  from run have seq: "io_seq ?sends ?sched w = (res, w')"
    unfolding upsell_split [OF data] c .
  have sched: "?sched w1 =
      (Inr (), if truthy_int (p_user_id data)
               then w1\<lparr>job_queue := map_option (\<lambda>js. js @ [polling]) (job_queue w1)\<rparr>
               else w1)" for w1
    by (cases "job_queue w1") (simp_all add: if_job_queue_def run_repeating_def add_job_def J)
  from seq show ?thesis
  proof (cases rule: io_seq_cases)
    case (raised e)
    from only_emitsD [OF only_emits_upsell_sends raised(1)] obtain es
      where "w' = w\<lparr>trace := trace w @ es\<rparr>" by blast
    with raised(2) show ?thesis by (simp split: option.splits)
  next
    case (went_on x w1)
    from only_emitsD [OF only_emits_upsell_sends went_on(1)] obtain es
      where w1: "w1 = w\<lparr>trace := trace w @ es\<rparr>" by blast
    from went_on(2) have res: "res = Inr ()"
      and w': "w' = (if truthy_int (p_user_id data)
               then w1\<lparr>job_queue := map_option (\<lambda>js. js @ [polling]) (job_queue w1)\<rparr>
               else w1)"
      unfolding sched by simp_all
    from w' have tr: "new_events w w' = new_events w w1"
      by (simp add: new_events_def)
    from went_on(1) have "?sends w = (Inr (), w1)" by simp
    from upsell_sends_texts [OF this] res tr w' w1 show ?thesis
      by (simp split: option.splits)
  qed
qed


theorem upsell_starts_polling_witness:
  "job_queue (snd (upsell_sequence_job example_settings example_env gw_ok
      (world_running upsell_sequence_job_cb (Once 180) (upsell_name 5) example_payload))) =
     Some [\<lparr>j_callback = group_check_job_cb, j_schedule = Repeating 60 60,
            j_name = group_check_name 5,
            j_data = Some \<lparr>p_chat_id = Some 5, p_user_id = Some 7,
                           p_business_connection_id = None, p_attempt = Some 0\<rparr>,
            j_removed = False\<rparr>] \<and>
   job_queue (snd (upsell_sequence_job example_settings example_env gw_ok
      (world_running upsell_sequence_job_cb (Once 180) (upsell_name 5)
         (example_payload\<lparr>p_user_id := None\<rparr>)))) = Some [] \<and>
   map fst (calls_of (filter text_event
      (new_events
         (world_running upsell_sequence_job_cb (Once 180) (upsell_name 5)
            (example_payload\<lparr>p_user_id := None\<rparr>))
         (snd (upsell_sequence_job example_settings example_env gw_ok
            (world_running upsell_sequence_job_cb (Once 180) (upsell_name 5)
               (example_payload\<lparr>p_user_id := None\<rparr>))))))) =
     [send_message 5 upsell_text None None None,
      send_message 5 choose_vip_text None (Some vip_keyboard) None]"
proof -
  let ?job = "upsell_sequence_job example_settings example_env gw_ok"
  let ?w = "world_running upsell_sequence_job_cb (Once 180) (upsell_name 5) example_payload"
  let ?v = "world_running upsell_sequence_job_cb (Once 180) (upsell_name 5)
              (example_payload\<lparr>p_user_id := None\<rparr>)"
  have ret: "?job w = (Inr (), snd (?job w))" for w
  proof -
    from returns_upsell [OF classifiable_only_gw_ok]
    have "\<exists>x. fst (?job w) = Inr x" by (rule returns_at)
    then show ?thesis by (cases "?job w") auto
  qed
  have dw: "job_data ?w = Some example_payload"
    and dv: "job_data ?v = Some (example_payload\<lparr>p_user_id := None\<rparr>)"
    by (simp_all add: job_data_def world_running_def)
  have cw: "truthy_int (p_chat_id example_payload)"
    and cv: "truthy_int (p_chat_id (example_payload\<lparr>p_user_id := None\<rparr>))"
    by (simp_all add: truthy_int_def example_payload_def)
  have q: "job_queue ?w = Some []" "job_queue ?v = Some []"
    by (simp_all add: world_running_def initial_world_def)
  from upsell_starts_polling [OF dw cw ret refl refl refl]
       upsell_starts_polling [OF dv cv ret refl refl refl] q
  show ?thesis
    by (simp add: example_payload_def truthy_int_def GROUP_CHECK_INTERVAL_SECONDS_def)
qed

section \<open>The classification of the membership query\<close>

text \<open>
  C3. An invocation of the polling job that has a chat and a user increments the attempt,
  queries the membership of the user in the target group, and then: sends the approval
  message (and, when the send returns, removes the job) iff the query returned a status
  among member, administrator, creator or a set \<open>is_member\<close> flag; returns at once on
  \<open>Forbidden\<close>, having sent nothing, removed nothing and scheduled nothing (the state is
  the one after the increment and the query); and in every other case (another status,
  \<open>BadRequest\<close>, any other exception) goes to the check of the maximum: below it nothing
  more happens, at or above it the job is removed and the remarketing runs.
\<close>

theorem group_check_classification:
  assumes job: "ctx_job w = Some j" "j_data j = Some d"
      and ids: "truthy_int (p_chat_id d)" "truthy_int (p_user_id d)"
      and run: "group_check_job SETTINGS env gw w = (res, w')"
      and names: "chat_id = the (p_chat_id d)" "user_id = p_user_id d"
        "bcid = p_business_connection_id d"
      and attempt: "attempt = (case p_attempt d of None \<Rightarrow> 0 | Some a \<Rightarrow> a) + 1"
      and q: "q = get_chat_member (group_id SETTINGS) (the user_id)"
      and answer: "answer = gw (trace w) q"
      and w1: "w1 = w\<lparr>ctx_job := Some (j\<lparr>j_data := Some (d\<lparr>p_attempt := Some attempt\<rparr>)\<rparr>),
                      trace := trace w @ [Call q answer]\<rparr>"
      and member: "member \<longleftrightarrow>
        (\<exists>m. answer = Inr m \<and>
           (status_attr m \<in> {Some ''member'', Some ''administrator'', Some ''creator''} \<or>
            is_member_attr m))"
      and forbidden: "forbidden \<longleftrightarrow> (\<exists>s. answer = Inl (Forbidden s))"
  shows "(send_message chat_id GROUP_APPROVED_MESSAGE None None bcid
            \<in> fst ` set (calls_of (new_events w w')) \<longleftrightarrow> member) \<and>
         (member \<longrightarrow>
            (res, w') =
              io_seq (safe_send_message gw chat_id user_id GROUP_APPROVED_MESSAGE None None bcid)
                schedule_removal w1) \<and>
         (forbidden \<longrightarrow> res = Inr () \<and> w' = w1) \<and>
         (\<not> member \<and> \<not> forbidden \<and> attempt < GROUP_CHECK_MAX_ATTEMPTS \<longrightarrow>
            res = Inr () \<and> w' = w1) \<and>
         (\<not> member \<and> \<not> forbidden \<and> attempt \<ge> GROUP_CHECK_MAX_ATTEMPTS \<longrightarrow>
            (res, w') =
              send_remarketing SETTINGS env gw chat_id user_id bcid
                (w1\<lparr>ctx_job := Some (j\<lparr>j_data := Some (d\<lparr>p_attempt := Some attempt\<rparr>),
                                       j_removed := True\<rparr>)\<rparr>))"
proof -
  let ?A = "send_message chat_id GROUP_APPROVED_MESSAGE None None bcid"
  let ?rm = "send_remarketing SETTINGS env gw chat_id user_id bcid"
  let ?w2 = "w1\<lparr>ctx_job := Some (j\<lparr>j_data := Some (d\<lparr>p_attempt := Some attempt\<rparr>),
                                      j_removed := True\<rparr>)\<rparr>"
  have r: "(res, w') =
      (case answer of
         Inl (Forbidden s) \<Rightarrow> (Inr (), w1)
       | Inl _ \<Rightarrow>
           (if attempt \<ge> GROUP_CHECK_MAX_ATTEMPTS then io_seq schedule_removal ?rm
            else io_return ()) w1
       | Inr m \<Rightarrow>
           if status_attr m \<in> {Some ''member'', Some ''administrator'', Some ''creator''}
              \<or> is_member_attr m
           then io_seq
                  (safe_send_message gw chat_id user_id GROUP_APPROVED_MESSAGE None None bcid)
                  schedule_removal w1
           else (if attempt \<ge> GROUP_CHECK_MAX_ATTEMPTS then io_seq schedule_removal ?rm
                 else io_return ()) w1)"
    unfolding w1 answer q attempt names
    using run by (simp add: group_check_job_run [OF job ids] Let_def)
  have q_not_A: "q \<noteq> ?A" by (simp add: q)
  have removal: "io_seq schedule_removal m w1 = m ?w2" for m :: "unit io"
    by (simp add: io_seq_def io_bind_def schedule_removal_def w1)
  have rm: "only_emits (\<lambda>e. \<forall>r. e \<noteq> Call ?A r) ?rm"
    by (rule only_emits_send_remarketing)
       (auto simp: GROUP_APPROVED_MESSAGE_def elim: voice_event.elims)
  have no_A: "?A \<notin> fst ` set (calls_of (new_events w w'))" if "(res, w') = ?rm ?w2"
  proof -
    from that have "?rm ?w2 = (res, w')" by simp
    from only_emitsD [OF rm this] obtain es
      where w': "w' = ?w2\<lparr>trace := trace ?w2 @ es\<rparr>"
        and all: "list_all (\<lambda>e. \<forall>r. e \<noteq> Call ?A r) es" by blast
    have "new_events w w' = Call q answer # es"
      by (simp add: new_events_def w' w1)
    with all q_not_A show ?thesis
      by (auto simp: calls_of_mem list_all_iff)
  qed
  have none: "?A \<notin> fst ` set (calls_of (new_events w w'))" if "w' = w1"
    using that q_not_A by (simp add: new_events_def w1)
  have yes: "?A \<in> fst ` set (calls_of (new_events w w'))"
    if "(res, w') = io_seq (safe_send_message gw chat_id user_id GROUP_APPROVED_MESSAGE
                              None None bcid) schedule_removal w1"
  proof -
    obtain r0 v where s: "safe_send_message gw chat_id user_id GROUP_APPROVED_MESSAGE
                              None None bcid w1 = (r0, v)" by fastforce
    then obtain lg where v: "v = w1\<lparr>trace := trace w1 @ Call ?A (gw (trace w1) ?A) # lg\<rparr>"
      unfolding safe_send_message_def guarded_call_run
      by (auto split: sum.splits if_splits)
    from that s have "trace w' = trace v"
      by (cases r0) (auto simp: io_seq_def io_bind_def schedule_removal_def)
    then have "new_events w w' = Call q answer # Call ?A (gw (trace w1) ?A) # lg"
      by (simp add: new_events_def v w1)
    then show ?thesis by force
  qed
  show ?thesis
  proof (cases answer)
    case (Inr m)
    then have nf: "\<not> forbidden" by (simp add: forbidden)
    show ?thesis
    proof (cases member)
      case True
      with Inr r have "(res, w') =
          io_seq (safe_send_message gw chat_id user_id GROUP_APPROVED_MESSAGE None None bcid)
            schedule_removal w1"
        by (simp add: member)
      with True nf yes show ?thesis by simp
    next
      case False
      with Inr r have "(res, w') =
          (if attempt \<ge> GROUP_CHECK_MAX_ATTEMPTS then io_seq schedule_removal ?rm
           else io_return ()) w1"
        by (simp add: member)
      with False nf none no_A show ?thesis
        by (cases "attempt \<ge> GROUP_CHECK_MAX_ATTEMPTS") (auto simp: removal)
    qed
  next
    case (Inl e)
    then have nm: "\<not> member" by (simp add: member)
    show ?thesis
    proof (cases forbidden)
      case True
      with Inl r have "res = Inr () \<and> w' = w1"
        by (auto simp: forbidden)
      with True nm none show ?thesis by simp
    next
      case False
      with Inl r have "(res, w') =
          (if attempt \<ge> GROUP_CHECK_MAX_ATTEMPTS then io_seq schedule_removal ?rm
           else io_return ()) w1"
        by (cases e) (auto simp: forbidden)
      with False nm none no_A show ?thesis
        by (cases "attempt \<ge> GROUP_CHECK_MAX_ATTEMPTS") (auto simp: removal)
    qed
  qed
qed


theorem group_check_classification_witness:
  "send_message 5 GROUP_APPROVED_MESSAGE None None None
     \<in> fst ` set (calls_of (new_events polling_world
          (snd (group_check_job example_settings example_env gw_admin polling_world)))) \<and>
   group_check_job example_settings example_env gw_blocked polling_world =
     (Inr (),
      polling_world
        \<lparr>ctx_job := Some \<lparr>j_callback = group_check_job_cb, j_schedule = Repeating 60 60,
                           j_name = group_check_name 5,
                           j_data = Some \<lparr>p_chat_id = Some 5, p_user_id = Some 7,
                                          p_business_connection_id = None,
                                          p_attempt = Some 1\<rparr>,
                           j_removed = False\<rparr>,
         trace := [Call (get_chat_member (- 1001234567890) 7) (Inl blocked)]\<rparr>)"
proof -
  let ?j = "\<lparr>j_callback = group_check_job_cb, j_schedule = Repeating 60 60,
             j_name = group_check_name 5,
             j_data = Some (example_payload\<lparr>p_attempt := Some 0\<rparr>), j_removed = False\<rparr>"
  let ?d = "example_payload\<lparr>p_attempt := Some 0\<rparr>"
  have job: "ctx_job polling_world = Some ?j" "j_data ?j = Some ?d"
    by (simp_all add: polling_world_def world_running_def)
  have ids: "truthy_int (p_chat_id ?d)" "truthy_int (p_user_id ?d)"
    by (simp_all add: truthy_int_def example_payload_def)
  have tr: "trace polling_world = []"
    by (simp add: polling_world_def world_running_def initial_world_def)
  note admin = group_check_classification
    [OF job ids prod.collapse [symmetric] refl refl refl refl refl refl refl refl refl,
     of example_settings example_env gw_admin]
  note forb = group_check_classification
    [OF job ids prod.collapse [symmetric] refl refl refl refl refl refl refl refl refl,
     of example_settings example_env gw_blocked]
  have 1: "send_message 5 GROUP_APPROVED_MESSAGE None None None
     \<in> fst ` set (calls_of (new_events polling_world
          (snd (group_check_job example_settings example_env gw_admin polling_world))))"
    using admin [THEN conjunct1] by (simp add: gw_admin_def example_payload_def)
  have 2: "fst (group_check_job example_settings example_env gw_blocked polling_world) = Inr () \<and>
      snd (group_check_job example_settings example_env gw_blocked polling_world) =
      polling_world
        \<lparr>ctx_job := Some \<lparr>j_callback = group_check_job_cb, j_schedule = Repeating 60 60,
                           j_name = group_check_name 5,
                           j_data = Some \<lparr>p_chat_id = Some 5, p_user_id = Some 7,
                                          p_business_connection_id = None,
                                          p_attempt = Some 1\<rparr>,
                           j_removed = False\<rparr>,
         trace := [Call (get_chat_member (- 1001234567890) 7) (Inl blocked)]\<rparr>"
    using forb [THEN conjunct2, THEN conjunct2, THEN conjunct1]
    by (simp add: gw_blocked_def blocked_def example_payload_def example_settings_def tr)
  from 1 2 show ?thesis
    by (metis prod.collapse)
qed

section \<open>The bound on the membership checks\<close>

text \<open>
  C2 as stated fails while the gateway refuses the membership query with \<open>Forbidden\<close>: the
  invocation returns right after the query, before the comparison with
  \<open>GROUP_CHECK_MAX_ATTEMPTS\<close> and without removing the job. For the polling job of chat 5
  and user 7 and a gateway that refuses every call, six intervals give six checks, the
  attempt counter is 6, above the maximum 5, and the job is still scheduled.
\<close>

theorem polling_sixth_check_while_forbidden:
  "GROUP_CHECK_MAX_ATTEMPTS < 6 \<and>
   calls_of (trace
      (fire (group_check_job example_settings example_env gw_blocked) 6 polling_world)) =
     replicate 6 (get_chat_member (- 1001234567890) 7, Inl blocked) \<and>
   refused_checks (new_events polling_world
      (fire (group_check_job example_settings example_env gw_blocked) 6 polling_world)) = 6 \<and>
   map_option j_removed (ctx_job
      (fire (group_check_job example_settings example_env gw_blocked) 6 polling_world)) =
     Some False \<and>
   map_option j_data (ctx_job
      (fire (group_check_job example_settings example_env gw_blocked) 6 polling_world)) =
     Some (Some (example_payload\<lparr>p_attempt := Some 6\<rparr>))"
proof -
  have "fire (group_check_job example_settings example_env gw_blocked) 6 polling_world =
     polling_world\<lparr>ctx_job := Some
        \<lparr>j_callback = group_check_job_cb, j_schedule = Repeating 60 60,
         j_name = group_check_name 5,
         j_data = Some (example_payload\<lparr>p_attempt := Some 6\<rparr>), j_removed = False\<rparr>,
       trace := replicate 6 (Call (get_chat_member (- 1001234567890) 7) (Inl blocked))\<rparr>"
    by (simp add: eval_nat_numeral polling_world_def world_running_def initial_world_def
          example_payload_def group_check_job_def job_data_def truthy_int_def Let_def
          check_membership_run io_bind_def gw_blocked_def blocked_def example_settings_def)
  then show ?thesis
    by (simp add: eval_nat_numeral GROUP_CHECK_MAX_ATTEMPTS_def new_events_def
          polling_world_def world_running_def initial_world_def blocked_def)
qed

text \<open>
  C2, amended. The bound is on the conclusive checks, those that the gateway did not
  refuse with \<open>Forbidden\<close>. Take a scheduled polling job with a chat, a user and the
  attempt counter \<open>a\<close>, and a gateway whose failures of the approval message are
  \<open>Forbidden\<close> or \<open>BadRequest\<close> only, and let the job fire for \<open>n\<close> intervals. Every check
  counts one attempt, refused or not. The conclusive checks are at most
  \<open>GROUP_CHECK_MAX_ATTEMPTS - a\<close> (and one when the counter has already passed the
  maximum), so at most 5 for the job as the upsell schedules it, whatever the answers
  were: member, not member, \<open>BadRequest\<close>, another exception or \<open>Forbidden\<close>. While the job
  is scheduled it has made one check per interval and fewer conclusive checks than that
  bound; it has removed itself once the intervals that were not refused reach the bound.
  Hence a run without a refused check makes at most 5 checks, never a sixth, and the job
  removes itself on or before the fifth.
\<close>

theorem polling_bounded_by_conclusive_checks:
  assumes job: "ctx_job w = Some j" "j_data j = Some d" "\<not> j_removed j"
      and ids: "p_chat_id d = Some chat" "chat \<noteq> 0" "p_user_id d = Some user" "user \<noteq> 0"
      and a: "p_attempt d = Some a"
      and sends: "\<forall>h e. gw h (send_message chat GROUP_APPROVED_MESSAGE None None
                              (p_business_connection_id d)) = Inl e \<longrightarrow>
                        is_Forbidden_or_BadRequest e"
      and w': "w' = fire (group_check_job SETTINGS env gw) n w"
      and F: "F = refused_checks (new_events w w')"
      and K: "K = conclusive_checks (new_events w w')"
      and bound: "bound = max 1 (GROUP_CHECK_MAX_ATTEMPTS - a)"
  shows "int K \<le> bound \<and>
         (\<exists>j'. ctx_job w' = Some j' \<and>
                j_data j' = Some (d\<lparr>p_attempt := Some (a + int (F + K))\<rparr>) \<and>
                (\<not> j_removed j' \<longrightarrow> F + K = n \<and> int K < bound) \<and>
                (int F + bound \<le> int n \<longrightarrow> j_removed j')) \<and>
         (F = 0 \<and> a = 0 \<longrightarrow> int (F + K) \<le> GROUP_CHECK_MAX_ATTEMPTS)"
proof -
  have "\<exists>es j'. trace (fire (group_check_job SETTINGS env gw) n w) = trace w @ es \<and>
           ctx_job (fire (group_check_job SETTINGS env gw) n w) = Some j' \<and>
           j_data j' =
             Some (d\<lparr>p_attempt := Some (a + int (refused_checks es + conclusive_checks es))\<rparr>) \<and>
           int (conclusive_checks es) \<le> max 1 (GROUP_CHECK_MAX_ATTEMPTS - a) \<and>
           (\<not> j_removed j' \<longrightarrow>
              refused_checks es + conclusive_checks es = n \<and>
              int (conclusive_checks es) < max 1 (GROUP_CHECK_MAX_ATTEMPTS - a))"
    by (rule fire_bounded [OF _ job ids refl a]) (use sends in blast)
  then obtain es j' where run:
      "trace w' = trace w @ es" "ctx_job w' = Some j'"
      "j_data j' =
         Some (d\<lparr>p_attempt := Some (a + int (refused_checks es + conclusive_checks es))\<rparr>)"
      "int (conclusive_checks es) \<le> bound"
      "\<not> j_removed j' \<longrightarrow>
         refused_checks es + conclusive_checks es = n \<and> int (conclusive_checks es) < bound"
    unfolding w' bound by blast
  have es: "new_events w w' = es"
    by (simp add: new_events_def run(1))
  have removed: "int F + bound \<le> int n \<longrightarrow> j_removed j'"
    using run(5) unfolding F K es by auto
  have fresh: "F = 0 \<and> a = 0 \<longrightarrow> int (F + K) \<le> GROUP_CHECK_MAX_ATTEMPTS"
    using run(4) unfolding F K es bound by (auto simp: GROUP_CHECK_MAX_ATTEMPTS_def)
  from run(2-5) removed fresh show ?thesis
    unfolding F K es by blast
qed

theorem polling_bounded_by_conclusive_checks_witness:
  "conclusive_checks (new_events polling_world
      (fire (group_check_job example_settings example_env gw_ok) 7 polling_world)) \<le> 5 \<and>
   refused_checks (new_events polling_world
      (fire (group_check_job example_settings example_env gw_ok) 7 polling_world)) = 0 \<and>
   map_option j_removed (ctx_job
      (fire (group_check_job example_settings example_env gw_ok) 7 polling_world)) =
     Some True \<and>
   calls_of (trace
      (fire (group_check_job example_settings example_env gw_ok) 7 polling_world)) =
     replicate 5 (get_chat_member (- 1001234567890) 7, Inr (ChatMember ''left'' False)) @
     [(send_message 5 desc_text None
         (Some [[InlineKeyboardButton i_want_this EU_QUERO_LINK]]) None, Inr (Message 1))]"
proof -
  let ?j = "\<lparr>j_callback = group_check_job_cb, j_schedule = Repeating 60 60,
             j_name = group_check_name 5,
             j_data = Some (example_payload\<lparr>p_attempt := Some 0\<rparr>), j_removed = False\<rparr>"
  let ?d = "example_payload\<lparr>p_attempt := Some 0\<rparr>"
  let ?W = "fire (group_check_job example_settings example_env gw_ok) 7 polling_world"
  have job: "ctx_job polling_world = Some ?j" "j_data ?j = Some ?d" "\<not> j_removed ?j"
    by (simp_all add: polling_world_def world_running_def)
  have ids: "p_chat_id ?d = Some 5" "(5::int) \<noteq> 0" "p_user_id ?d = Some 7" "(7::int) \<noteq> 0"
    by (simp_all add: example_payload_def)
  have a: "p_attempt ?d = Some 0"
    by simp
  have sends: "\<forall>h e. gw_ok h (send_message 5 GROUP_APPROVED_MESSAGE None None
                                (p_business_connection_id ?d)) = Inl e \<longrightarrow>
                       is_Forbidden_or_BadRequest e"
    by (simp add: gw_ok_def)
  have run: "?W =
     polling_world\<lparr>ctx_job := Some
        \<lparr>j_callback = group_check_job_cb, j_schedule = Repeating 60 60,
         j_name = group_check_name 5,
         j_data = Some (example_payload\<lparr>p_attempt := Some 5\<rparr>), j_removed = True\<rparr>,
       trace := replicate 5 (Call (get_chat_member (- 1001234567890) 7)
                               (Inr (ChatMember ''left'' False))) @
         [Call (send_message 5 desc_text None
                  (Some [[InlineKeyboardButton i_want_this EU_QUERO_LINK]]) None)
            (Inr (Message 1))]\<rparr>"
    by (simp add: eval_nat_numeral polling_world_def world_running_def initial_world_def
          example_payload_def group_check_job_def job_data_def truthy_int_def Let_def
          check_membership_run io_bind_def io_seq_def schedule_removal_def
          send_remarketing_def voice_if_configured_def getenv_def example_env_def
          truthy_str_def safe_send_message_def guarded_call_run gw_ok_def
          example_settings_def GROUP_CHECK_MAX_ATTEMPTS_def)
  have none: "refused_checks (new_events polling_world ?W) = 0"
    unfolding run
    by (simp add: eval_nat_numeral new_events_def polling_world_def world_running_def
          initial_world_def)
  have calls: "calls_of (trace ?W) =
     replicate 5 (get_chat_member (- 1001234567890) 7, Inr (ChatMember ''left'' False)) @
     [(send_message 5 desc_text None
         (Some [[InlineKeyboardButton i_want_this EU_QUERO_LINK]]) None, Inr (Message 1))]"
    unfolding run by (simp add: eval_nat_numeral)
  note bounded = polling_bounded_by_conclusive_checks
                   [where gw = gw_ok and SETTINGS = example_settings and env = example_env
                      and n = 7, OF job ids a sends refl refl refl refl]
  from bounded have "conclusive_checks (new_events polling_world ?W) \<le> 5"
    by (simp add: GROUP_CHECK_MAX_ATTEMPTS_def)
  moreover from bounded none have "map_option j_removed (ctx_job ?W) = Some True"
    by (auto simp: GROUP_CHECK_MAX_ATTEMPTS_def)
  ultimately show ?thesis
    using none calls by blast
qed

section \<open>One combo delivery per conversation\<close>

text \<open>
  C1 as stated fails where the handler has no job queue: the first message of a private
  chat sets the dispatch flag, but the combo delivery job is scheduled zero times, not
  once.
\<close>

theorem combo_not_scheduled_without_job_queue:
  "admissible example_update \<and> chat_of example_update = Some 5 \<and>
   \<not> already_dispatched (initial_world False) 5 \<and>
   length (combo_jobs 5 (handle_all gw_ok [example_update] (initial_world False))) = 0"
proof -
  let ?w = "initial_world False"
  have adm: "admissible example_update" and chat: "chat_of example_update = Some 5"
    by (simp_all add: admissible_def chat_of_def example_update_def)
  have fresh: "\<not> already_dispatched ?w 5"
    by (simp add: already_dispatched_def initial_world_def)
  have noq: "job_queue ?w = None"
    by (simp add: initial_world_def)
  obtain msg where msg: "effective_message example_update = Some msg"
    by (simp add: example_update_def)
  let ?m = "io_seq (emit (Sleep AUTO_REPLY_DELAY_SECONDS))
             (discard (safe_reply_text gw_ok msg
                (Literal ''Hi, sorry for the delay. I'll send everything.'') None None))"
  have run: "handle_text_message gw_ok example_update ?w = ?m (admitted ?w 5 (bcid_of example_update))"
    using adm chat fresh noq msg by (rule handler_without_queue)
  have "only_emits (\<lambda>_. True) ?m"
    by (intro only_emits_seq only_emits_emit only_emits_discard only_emits_safe_reply_text) simp
  then obtain es where "snd (?m (admitted ?w 5 (bcid_of example_update))) =
      (admitted ?w 5 (bcid_of example_update))\<lparr>trace := trace (admitted ?w 5 (bcid_of example_update)) @ es\<rparr>"
    unfolding only_emits_def by blast
  then have "job_queue (handle_all gw_ok [example_update] ?w) = None"
    by (simp add: run admitted_def Let_def noq)
  with adm chat fresh show ?thesis
    by (simp add: combo_jobs_def scheduled_def)
qed

text \<open>
  C1, amended. When a job queue is available, for every non-empty sequence of private-chat
  messages of one conversation from senders that are not bots, arriving while the
  conversation is not yet dispatched, the combo delivery job is scheduled exactly once: the
  first message sets the dispatch flag (in the chat data and in the global set) and
  schedules the job, and every later message finds the flag set and changes nothing, so the
  state after the whole sequence is the state after the first message.
\<close>

theorem combo_scheduled_exactly_once:
  assumes queue: "job_queue w = Some js"
      and fresh: "\<not> already_dispatched w c"
      and some: "us \<noteq> []"
      and same: "\<forall>u \<in> set us. admissible u \<and> chat_of u = Some c"
  shows "handle_all gw us w =
           (admitted w c (bcid_of (hd us)))\<lparr>job_queue := Some (js @ [combo_job_of (hd us)])\<rparr> \<and>
         handle_all gw us w = snd (handle_text_message gw (hd us) w) \<and>
         combo_jobs c (handle_all gw us w) = combo_jobs c w @ [combo_job_of (hd us)] \<and>
         already_dispatched (handle_all gw us w) c"
proof -
  from some obtain u rest where us: "us = u # rest" by (cases us) auto
  with same have u: "admissible u" "chat_of u = Some c"
    and rest: "\<forall>u \<in> set rest. chat_of u = Some c" by auto
  let ?w1 = "(admitted w c (bcid_of u))\<lparr>job_queue := Some (js @ [combo_job_of u])\<rparr>"
  have first: "handle_text_message gw u w = (Inr (), ?w1)"
    using u fresh queue by (rule handler_schedules)
  have d: "already_dispatched ?w1 c"
    by (simp add: already_dispatched_def admitted_def Let_def)
  have "handle_all gw us w = handle_all gw rest ?w1"
    by (simp add: us first)
  also have "\<dots> = ?w1"
    using rest d by (rule handle_all_dispatched)
  finally have all: "handle_all gw us w = ?w1" .
  show ?thesis
    unfolding all using d first combo_jobs_added [OF u(2) queue]
    by (simp add: us)
qed


theorem combo_scheduled_exactly_once_witness:
  "job_queue (handle_all gw_ok [example_update, example_update, example_update]
      (initial_world True)) =
     Some [\<lparr>j_callback = combo_delivery_beatriz_job_cb, j_schedule = Once 30,
            j_name = auto_reply_name 5 (Some 1),
            j_data = Some \<lparr>p_chat_id = Some 5, p_user_id = Some 7,
                           p_business_connection_id = None, p_attempt = None\<rparr>,
            j_removed = False\<rparr>] \<and>
   length (combo_jobs 5 (handle_all gw_ok [example_update, example_update, example_update]
      (initial_world True))) = 1 \<and>
   already_dispatched (handle_all gw_ok [example_update, example_update, example_update]
      (initial_world True)) 5"
proof -
  define us where "us = [example_update, example_update, example_update]"
  have queue: "job_queue (initial_world True) = Some []"
    by (simp add: initial_world_def)
  have fresh: "\<not> already_dispatched (initial_world True) 5"
    by (simp add: already_dispatched_def initial_world_def)
  have some: "us \<noteq> []" by (simp add: us_def)
  have same: "\<forall>u \<in> set us. admissible u \<and> chat_of u = Some 5"
    by (simp add: us_def admissible_def chat_of_def example_update_def)
  have none: "combo_jobs 5 (initial_world True) = []"
    by (simp add: combo_jobs_def scheduled_def initial_world_def)
  have first: "hd us = example_update" by (simp add: us_def)
  have job: "combo_job_of example_update =
     \<lparr>j_callback = combo_delivery_beatriz_job_cb, j_schedule = Once 30,
      j_name = auto_reply_name 5 (Some 1),
      j_data = Some \<lparr>p_chat_id = Some 5, p_user_id = Some 7,
                     p_business_connection_id = None, p_attempt = None\<rparr>,
      j_removed = False\<rparr>"
    by (simp add: combo_job_of_def chat_of_def bcid_of_def example_update_def
          AUTO_REPLY_DELAY_SECONDS_def)
  note once = combo_scheduled_exactly_once [OF queue fresh some same, of gw_ok]
  from once have all: "handle_all gw_ok us (initial_world True) =
      (admitted (initial_world True) 5 (bcid_of (hd us)))
        \<lparr>job_queue := Some ([] @ [combo_job_of (hd us)])\<rparr>"
    by (rule conjunct1)
  have 1: "job_queue (handle_all gw_ok us (initial_world True)) = Some [combo_job_of example_update]"
    unfolding all first by simp
  from once have "combo_jobs 5 (handle_all gw_ok us (initial_world True)) =
      combo_jobs 5 (initial_world True) @ [combo_job_of (hd us)]"
    by blast
  then have 2: "length (combo_jobs 5 (handle_all gw_ok us (initial_world True))) = 1"
    unfolding none by simp
  from once have 3: "already_dispatched (handle_all gw_ok us (initial_world True)) 5"
    by blast
  from 1 2 3 show ?thesis
    unfolding us_def job by blast
qed


section \<open>The handler without a job queue\<close>

text \<open>
  C9. When the handler admits a conversation and the context has no job queue, it sets
  both dispatch flags all the same, waits \<open>AUTO_REPLY_DELAY_SECONDS\<close> inline and sends the
  apology text only: one \<open>reply_text\<close>, followed by one direct \<open>send_message\<close> of the same
  text only where the reply raised \<open>TypeError\<close>. It schedules nothing, and nothing is ever
  scheduled after it: whatever updates follow, the queue stays absent and the flag stays
  set, and any later message of the chat, in any state that still has the flag (with or
  without a job queue), returns at once and changes nothing.
\<close>

theorem handler_without_job_queue:
  assumes adm: "admissible u" and chat: "chat_of u = Some c"
      and fresh: "\<not> already_dispatched w c" and noq: "job_queue w = None"
      and msg: "effective_message u = Some msg"
      and run: "handle_text_message gw u w = (res, w')"
      and apology: "apology = Literal ''Hi, sorry for the delay. I'll send everything.''"
      and R: "R = reply_text (m_chat_id msg) (m_message_id msg) apology None None
                    (m_business_connection_id msg)"
  shows "combo_dispatched (chat_data w' c) \<and> c \<in> COMBO_DISPATCHED_CHATS w' \<and>
         job_queue w' = None \<and>
         (\<exists>es. new_events w w' = Sleep AUTO_REPLY_DELAY_SECONDS # es \<and>
            list_all (\<lambda>e. \<forall>n. e \<noteq> Sleep n) es \<and>
            (calls_of es = [(R, gw (trace w @ [Sleep AUTO_REPLY_DELAY_SECONDS]) R)] \<or>
             (\<exists>s chat_id b. calls_of es =
                [(R, Inl (TypeError s)),
                 (send_message chat_id apology None None (m_business_connection_id msg), b)]))) \<and>
         (\<forall>gw' us. job_queue (handle_all gw' us w') = None \<and>
                    already_dispatched (handle_all gw' us w') c) \<and>
         (\<forall>gw' u' v. chat_of u' = Some c \<and> already_dispatched v c \<longrightarrow>
                      handle_text_message gw' u' v = (Inr (), v))"
proof -
  let ?w2 = "admitted w c (bcid_of u)"
  let ?w3 = "?w2\<lparr>trace := trace ?w2 @ [Sleep AUTO_REPLY_DELAY_SECONDS]\<rparr>"
  have t2: "trace ?w2 = trace w" and q2: "job_queue ?w2 = None"
    by (simp_all add: admitted_def Let_def noq)
  from run have "io_seq (emit (Sleep AUTO_REPLY_DELAY_SECONDS))
             (discard (safe_reply_text gw msg apology None None)) ?w2 = (res, w')"
    unfolding handler_without_queue [OF adm chat fresh noq msg] apology .
  then have "discard (safe_reply_text gw msg apology None None) ?w3 = (res, w')"
    by (simp add: io_seq_def io_bind_def)
  then obtain r0 where "safe_reply_text gw msg apology None None ?w3 = (r0, w')"
    by (auto simp: discard_def io_bind_def split: prod.splits sum.splits)
  from safe_reply_text_calls [OF this R] obtain es
    where w': "w' = ?w3\<lparr>trace := trace ?w3 @ es\<rparr>"
      and quiet: "list_all (\<lambda>e. \<forall>n. e \<noteq> Sleep n) es"
      and calls: "calls_of es = [(R, gw (trace ?w3) R)] \<or>
            (\<exists>s chat_id b. calls_of es =
               [(R, Inl (TypeError s)),
                (send_message chat_id apology None None (m_business_connection_id msg), b)])"
    by blast
  have flags: "combo_dispatched (chat_data w' c)" "c \<in> COMBO_DISPATCHED_CHATS w'"
    by (simp_all add: w' admitted_def Let_def)
  then have disp: "already_dispatched w' c"
    by (simp add: already_dispatched_def)
  have queue: "job_queue w' = None"
    by (simp add: w' q2)
  have events: "new_events w w' = Sleep AUTO_REPLY_DELAY_SECONDS # es"
    by (simp add: new_events_def w' t2)
  have later: "job_queue (handle_all gw' us w') = None \<and>
               already_dispatched (handle_all gw' us w') c" for gw' us
    using handle_all_keeps(1) [OF disp, of gw' us] handle_all_keeps(2) [OF queue, of gw' us]
    by simp
  have again: "handle_text_message gw' u' v = (Inr (), v)"
    if "chat_of u' = Some c \<and> already_dispatched v c" for gw' u' v
    using that by (simp add: handler_already_dispatched)
  from calls have calls': "calls_of es = [(R, gw (trace w @ [Sleep AUTO_REPLY_DELAY_SECONDS]) R)] \<or>
            (\<exists>s chat_id b. calls_of es =
               [(R, Inl (TypeError s)),
                (send_message chat_id apology None None (m_business_connection_id msg), b)])"
    by (simp add: t2)
  from flags queue events quiet calls' later again show ?thesis
    by blast
qed


theorem handler_without_job_queue_witness:
  "5 \<in> COMBO_DISPATCHED_CHATS
         (snd (handle_text_message gw_ok example_update (initial_world False))) \<and>
   job_queue (snd (handle_text_message gw_ok example_update (initial_world False))) = None \<and>
   job_queue (handle_all gw_ok [example_update, example_update]
      (snd (handle_text_message gw_ok example_update (initial_world False)))) = None \<and>
   (\<exists>es. new_events (initial_world False)
            (snd (handle_text_message gw_ok example_update (initial_world False))) =
          Sleep 30 # es)"
proof -
  have adm: "admissible example_update" and chat: "chat_of example_update = Some 5"
    by (simp_all add: admissible_def chat_of_def example_update_def)
  have fresh: "\<not> already_dispatched (initial_world False) 5"
    by (simp add: already_dispatched_def initial_world_def)
  have noq: "job_queue (initial_world False) = None"
    by (simp add: initial_world_def)
  obtain msg where msg: "effective_message example_update = Some msg"
    by (simp add: example_update_def)
  from handler_without_job_queue
         [OF adm chat fresh noq msg prod.collapse [symmetric] refl refl, of gw_ok]
  show ?thesis
    unfolding AUTO_REPLY_DELAY_SECONDS_def by blast
qed

section \<open>Join requests\<close>

text \<open>
  C10. The join-request handler never raises. It calls \<open>approve\<close>, once, only for a
  request whose chat identifier equals the configured target group; for an update without
  a join request or a request of any other chat it returns with the state unchanged, so
  without any gateway call. For the target group the state changes by exactly two events:
  the one \<open>approve\<close> call with its outcome, and one printed line, which reports the failure
  when the call (or reading the requester's identifier after it) raised, and the approval
  otherwise.
\<close>

theorem join_request_only_for_target_group:
  assumes run: "handle_chat_join_request SETTINGS gw u w = (res, w')"
      and target: "target \<longleftrightarrow>
        (\<exists>jr ch. join_request u = Some jr \<and> jr_chat jr = Some ch \<and>
                  c_id ch = Some (group_id SETTINGS))"
  shows "res = Inr () \<and>
         (\<not> target \<longrightarrow> w' = w) \<and>
         (\<forall>jr. target \<and> join_request u = Some jr \<longrightarrow>
            (\<exists>answer.
               answer = gw (trace w)
                          (approve (group_id SETTINGS) (map_option u_id (jr_from_user jr))) \<and>
               w' = w\<lparr>trace := trace w @
                    [Call (approve (group_id SETTINGS) (map_option u_id (jr_from_user jr))) answer,
                     Print (case answer of
                              Inl exc \<Rightarrow> join_failed exc
                            | Inr _ \<Rightarrow>
                                (case jr_from_user jr of
                                   None \<Rightarrow> join_failed (OtherError ''AttributeError'')
                                 | Some fu \<Rightarrow> join_approved (u_id fu)))]\<rparr>))"
proof (cases "join_request u")
  case None
  with run target show ?thesis
    by (simp add: handle_chat_join_request_def)
next
  case (Some jr)
  show ?thesis
  proof (cases target)
    case False
    with Some target have "(case jr_chat jr of None \<Rightarrow> None | Some c \<Rightarrow> c_id c)
                             \<noteq> Some (group_id SETTINGS)"
      by (auto split: option.splits)
    with run Some False show ?thesis
      by (simp add: handle_chat_join_request_def Let_def)
  next
    case True
    with Some target have eq: "(case jr_chat jr of None \<Rightarrow> None | Some c \<Rightarrow> c_id c)
                                 = Some (group_id SETTINGS)"
      by auto
    let ?A = "approve (group_id SETTINGS) (map_option u_id (jr_from_user jr))"
    from run Some eq True show ?thesis
      by (cases "gw (trace w) ?A"; cases "jr_from_user jr")
         (auto simp: handle_chat_join_request_def Let_def io_try_def io_seq_def io_bind_def)
  qed
qed

theorem join_request_only_for_target_group_witness:
  "snd (handle_chat_join_request example_settings gw_blocked (join_update 42)
          (initial_world True)) = initial_world True \<and>
   trace (snd (handle_chat_join_request example_settings gw_ok
                 (join_update (- 1001234567890)) (initial_world True))) =
     [Call (approve (- 1001234567890) (Some 7)) (Inr Ok), Print (join_approved 7)] \<and>
   handle_chat_join_request example_settings gw_blocked (join_update (- 1001234567890))
       (initial_world True) =
     (Inr (), (initial_world True)\<lparr>trace :=
        [Call (approve (- 1001234567890) (Some 7)) (Inl blocked),
         Print (join_failed blocked)]\<rparr>)"
proof -
  have other: "\<not> (\<exists>jr ch. join_request (join_update 42) = Some jr \<and> jr_chat jr = Some ch \<and>
                  c_id ch = Some (group_id example_settings))"
    by (simp add: join_update_def example_settings_def)
  have jr: "join_request (join_update (- 1001234567890)) =
              Some \<lparr>jr_chat = Some \<lparr>c_type = ''supergroup'', c_id = Some (- 1001234567890)\<rparr>,
                    jr_from_user = Some \<lparr>u_id = 7, is_bot = False\<rparr>\<rparr>"
    by (simp add: join_update_def)
  have this_group: "True \<longleftrightarrow>
      (\<exists>jr ch. join_request (join_update (- 1001234567890)) = Some jr \<and> jr_chat jr = Some ch \<and>
                c_id ch = Some (group_id example_settings))"
    by (simp add: jr example_settings_def)
  have gid: "group_id example_settings = - 1001234567890"
    by (simp add: example_settings_def)
  have t0: "trace (initial_world True) = []"
    by (simp add: initial_world_def)
  have a: "snd (handle_chat_join_request example_settings gw_blocked (join_update 42)
                  (initial_world True)) = initial_world True"
    using join_request_only_for_target_group
            [where target = False, OF prod.collapse [symmetric]] other
    by simp
  have b: "trace (snd (handle_chat_join_request example_settings gw_ok
                 (join_update (- 1001234567890)) (initial_world True))) =
     [Call (approve (- 1001234567890) (Some 7)) (Inr Ok), Print (join_approved 7)]"
    using join_request_only_for_target_group
            [where target = True, OF prod.collapse [symmetric] this_group, of gw_ok]
    by (simp add: jr gid t0 gw_ok_def)
  have c: "handle_chat_join_request example_settings gw_blocked (join_update (- 1001234567890))
       (initial_world True) =
     (Inr (), (initial_world True)\<lparr>trace :=
        [Call (approve (- 1001234567890) (Some 7)) (Inl blocked),
         Print (join_failed blocked)]\<rparr>)"
    using join_request_only_for_target_group
            [where target = True, OF prod.collapse [symmetric] this_group, of gw_blocked]
    by (simp add: jr gid t0 gw_blocked_def prod_eq_iff)
  from a b c show ?thesis by blast
qed

end
